(* ===== verification/Prelude.thy ===== *)
theory Prelude
  imports Main "HOL-Library.Char_ord"
begin

text \<open>
  Shared vocabulary of the Spark backend model (\<open>src/backend/src\<close>).
  Identifiers of the Prisma tables are \<open>nat\<close> (auto-increment keys); the opaque
  session token is a \<open>nat\<close> drawn from a counter; a request's JSON numbers that are
  compared arithmetically (permission levels) are \<open>int\<close>. Every \<open>throw new
  createHTTPError.X(msg)\<close> of the source is a value \<open>Inl (X msg)\<close> of
  \<open>http_error\<close>, and a handler that returns normally gives \<open>Inr (result, store)\<close>.
  This theory also holds the ASCII string primitives the handlers use
  (\<open>toLowerCase\<close>, the character classes of the regular expressions) and the
  generic lemmas on maps with counter-allocated keys.
\<close>

named_theorems store_defs "unfolding rules of the store operations"
named_theorems inv_defs "unfolding rules of the store invariants"

type_synonym uid = nat
type_synonym sid = nat
type_synonym aid = nat
type_synonym eid = nat
type_synonym token = nat

datatype http_error =
    Unauthorized string
  | BadRequest string
  | Forbidden string
  | InternalError string

type_synonym ('a, 's) outcome = "http_error + ('a \<times> 's)"

text \<open>The HTTP status class of an error, as \<open>http-errors\<close> assigns it.\<close>

fun status_code :: "http_error \<Rightarrow> nat" where
  "status_code (Unauthorized _) = 401"
| "status_code (BadRequest _) = 400"
| "status_code (Forbidden _) = 403"
| "status_code (InternalError _) = 500"

subsection \<open>String primitives\<close>

text \<open>\<open>String.prototype.toLowerCase\<close> on the ASCII range.\<close>

definition lower_char :: "char \<Rightarrow> char" where
  "lower_char c = (if CHR ''A'' \<le> c \<and> c \<le> CHR ''Z'' then char_of (of_char c + (32::nat)) else c)"

definition toLowerCase :: "string \<Rightarrow> string" where
  "toLowerCase s = map lower_char s"

definition is_alpha :: "char \<Rightarrow> bool" where
  "is_alpha c \<longleftrightarrow> (CHR ''a'' \<le> c \<and> c \<le> CHR ''z'') \<or> (CHR ''A'' \<le> c \<and> c \<le> CHR ''Z'')"

definition is_digit :: "char \<Rightarrow> bool" where
  "is_digit c \<longleftrightarrow> CHR ''0'' \<le> c \<and> c \<le> CHR ''9''"

subsection \<open>Maps with counter-allocated keys\<close>

text \<open>
  A Prisma table with an auto-increment key is a map whose keys are all below the
  next key to hand out. The three facts below carry every freshness argument.
\<close>

definition keys_below :: "(nat \<rightharpoonup> 'v) \<Rightarrow> nat \<Rightarrow> bool" where
  "keys_below m n \<longleftrightarrow> (\<forall>k. m k \<noteq> None \<longrightarrow> k < n)"

text \<open>Enumerating the rows of such a table in key order (Prisma's \<open>findMany\<close>).\<close>

definition rows :: "(nat \<rightharpoonup> 'v) \<Rightarrow> nat \<Rightarrow> nat list" where
  "rows m n = filter (\<lambda>k. m k \<noteq> None) [0..<n]"

text \<open>\<open>findUnique\<close> on a unique non-key column: the first row in key order whose value matches.\<close>

definition find_row :: "(nat \<rightharpoonup> 'v) \<Rightarrow> nat \<Rightarrow> ('v \<Rightarrow> bool) \<Rightarrow> nat option" where
  "find_row m n P = find (\<lambda>i. case m i of Some v \<Rightarrow> P v | None \<Rightarrow> False) [0..<n]"

subsection \<open>Lemmas on strings, keys and lookups\<close>

lemma lower_char_idem [simp]: "lower_char (lower_char c) = lower_char c"
  unfolding lower_char_def by (auto simp: less_eq_char_def)

lemma toLowerCase_idem [simp]: "toLowerCase (toLowerCase s) = toLowerCase s"
  by (simp add: toLowerCase_def comp_def)

lemma length_toLowerCase [simp]: "length (toLowerCase s) = length s"
  by (simp add: toLowerCase_def)

lemma keys_below_fresh [simp]: "keys_below m n \<Longrightarrow> m n = None"
  by (auto simp: keys_below_def)

lemma keys_below_upd_next [intro]: "keys_below m n \<Longrightarrow> keys_below (m(n \<mapsto> v)) (Suc n)"
  by (auto simp: keys_below_def)

lemma keys_below_upd_dom [intro]: "keys_below m n \<Longrightarrow> m k \<noteq> None \<Longrightarrow> keys_below (m(k \<mapsto> v)) n"
  by (auto simp: keys_below_def)

lemma keys_below_restrict [intro]: "keys_below m n \<Longrightarrow> keys_below (\<lambda>k. if P k then None else m k) n"
  by (auto simp: keys_below_def split: if_splits)

lemma keys_below_Suc [intro]: "keys_below m n \<Longrightarrow> keys_below m (Suc n)"
  by (auto simp: keys_below_def)

lemma set_rows: "keys_below m n \<Longrightarrow> set (rows m n) = dom m"
  by (auto simp: rows_def keys_below_def dom_def)

lemma distinct_rows [simp]: "distinct (rows m n)"
  by (simp add: rows_def)

lemma find_SomeD: "find P xs = Some x \<Longrightarrow> x \<in> set xs \<and> P x"
  by (induction xs) (auto split: if_splits)

lemma find_row_Some: "find_row m n P = Some i \<Longrightarrow> \<exists>v. m i = Some v \<and> P v"
  unfolding find_row_def by (drule find_SomeD) (auto split: option.splits)

lemma find_row_None:
  assumes "keys_below m n"
  shows "find_row m n P = None \<longleftrightarrow> (\<forall>i v. m i = Some v \<longrightarrow> \<not> P v)"
proof
  assume "find_row m n P = None"
  then have none: "\<forall>i < n. \<not> (case m i of Some v \<Rightarrow> P v | None \<Rightarrow> False)"
    by (simp add: find_row_def find_None_iff)
  show "\<forall>i v. m i = Some v \<longrightarrow> \<not> P v"
  proof (intro allI impI)
    fix i v assume mi: "m i = Some v"
    with assms have "i < n" by (simp add: keys_below_def)
    with none mi show "\<not> P v" by fastforce
  qed
next
  assume "\<forall>i v. m i = Some v \<longrightarrow> \<not> P v"
  then show "find_row m n P = None"
    by (auto simp: find_row_def find_None_iff split: option.splits)
qed

lemma find_snoc:
  "find P (xs @ [x]) = (case find P xs of None \<Rightarrow> if P x then Some x else None | Some y \<Rightarrow> Some y)"
  by (induction xs) auto

lemma find_row_insert:
  assumes "find_row m n P = None"
  shows "find_row (m(n \<mapsto> v)) (Suc n) P = (if P v then Some n else None)"
proof -
  have "find (\<lambda>i. case (m(n \<mapsto> v)) i of Some w \<Rightarrow> P w | None \<Rightarrow> False) [0..<n]
      = find (\<lambda>i. case m i of Some w \<Rightarrow> P w | None \<Rightarrow> False) [0..<n]"
    by (rule find_cong) auto
  with assms show ?thesis by (simp add: find_row_def find_snoc)
qed

text \<open>
  \<open>findMany\<close> with a \<open>where\<close> filter: the rows of a table, keyed below its
  counter, whose value satisfies the filter, each once.
\<close>

lemma set_map_filter_rows:
  "set (List.map_filter (\<lambda>i. case m i of Some v \<Rightarrow> if P i v then Some (i, v) else None | None \<Rightarrow> None) [0..<n])
   = {(i, v). i < n \<and> m i = Some v \<and> P i v}"
  by (force simp: List.map_filter_def split: option.splits if_splits)

lemma set_map_filter_rows_all:
  "keys_below m n \<Longrightarrow>
   set (List.map_filter (\<lambda>i. case m i of Some v \<Rightarrow> if P i v then Some (i, v) else None | None \<Rightarrow> None) [0..<n])
   = {(i, v). m i = Some v \<and> P i v}"
  by (auto simp: set_map_filter_rows keys_below_def)

lemma distinct_map_filter_rows:
  "distinct (List.map_filter (\<lambda>i. case m i of Some v \<Rightarrow> if P i v then Some (i, v) else None | None \<Rightarrow> None) [0..<n])"
  unfolding List.map_filter_def distinct_map
  by (auto simp: inj_on_def split: option.splits if_splits)

lemma find_row_empty [simp]: "find_row Map.empty n P = None"
  by (simp add: find_row_def find_None_iff)

text \<open>A scan over every start position finds exactly the substrings.\<close>

lemma scan_substring:
  "list_ex (\<lambda>i. take (length n) (drop i f) = n) [0..<Suc (length f)] \<longleftrightarrow> (\<exists>ps ss. f = ps @ n @ ss)"
proof
  assume "list_ex (\<lambda>i. take (length n) (drop i f) = n) [0..<Suc (length f)]"
  then obtain i where i: "take (length n) (drop i f) = n" by (auto simp: list_ex_iff)
  then have "length n \<le> length (drop i f)"
    by (metis length_take min.absorb_iff2 min.commute)
  then have "f = take i f @ n @ drop (length n) (drop i f)"
    using i by (metis append_take_drop_id)
  then show "\<exists>ps ss. f = ps @ n @ ss" by blast
next
  assume "\<exists>ps ss. f = ps @ n @ ss"
  then obtain ps ss where f: "f = ps @ n @ ss" by blast
  then have "length ps \<in> set [0..<Suc (length f)]" and "take (length n) (drop (length ps) f) = n"
    by simp_all
  then show "list_ex (\<lambda>i. take (length n) (drop i f) = n) [0..<Suc (length f)]"
    unfolding list_ex_iff by blast
qed

lemma set_those: "those xs = Some ys \<Longrightarrow> y \<in> set ys \<Longrightarrow> Some y \<in> set xs"
  by (induction xs arbitrary: ys) (auto split: option.splits)

lemma find_mem_id: "x \<in> set xs \<Longrightarrow> P x \<Longrightarrow> \<exists>y. find P xs = Some y \<and> P y"
  by (induction xs) auto

lemma image_map_same: "(\<And>x. g (f x) = g x) \<Longrightarrow> g ` set (map f xs) = g ` set xs"
  by (simp add: image_image)

lemma those_map_Some:
  assumes "\<And>x. x \<in> set xs \<Longrightarrow> \<exists>y. f x = Some y \<and> g y = h x"
  shows "\<exists>ys. those (map f xs) = Some ys \<and> map g ys = map h xs"
  using assms by (induction xs) fastforce+

end
