(* ===== verification/Store.thy ===== *)
theory Store
  imports Prelude
begin

text \<open>
  The persistent store the handlers read and write through the Prisma client
  (\<open>prisma\<close> of \<open>src/backend/src/data.ts\<close>): one map per table of
  \<open>data.ts\<close>'s \<open>prismaModels\<close>, keyed as the handlers' \<open>where\<close> clauses key
  them, and one counter per auto-increment key. Roles of \<open>SocietyMember\<close> and
  statuses of \<open>Application\<close> are the strings the code writes and compares. The
  Prisma schema is not part of the sources: its unique constraints and cascading
  deletes are modelled from the specification (section 3 and 9), and the invariant
  \<open>db_inv\<close> states what the schema and the handlers together keep true.
\<close>

subsection \<open>Rows\<close>

text \<open>bcrypt, an external library: a hash keeps the password and the salt it was made with.\<close>

datatype pw_hash = Bcrypt string nat

definition bcrypt_compare :: "string \<Rightarrow> pw_hash \<Rightarrow> bool" where
  "bcrypt_compare pw h = (case h of Bcrypt p _ \<Rightarrow> p = pw)"

record user =
  email :: string
  nameFirst :: string
  nameLast :: string
  zId :: string
  password :: pw_hash
  isAdmin :: bool

record society =
  soc_name :: string
  soc_description :: string
  soc_photoURL :: string

record application =
  app_name :: string
  app_description :: string
  app_photoURL :: string
  app_applicantId :: uid
  app_status :: string

record event =
  ev_societyId :: sid
  ev_name :: string
  ev_description :: string
  ev_time :: int
  ev_location :: string

record form =
  form_eventId :: eid
  form_zId :: string
  form_email :: string
  form_nameFirst :: string
  form_nameLast :: string

record db =
  users :: "uid \<rightharpoonup> user"
  sessions :: "token \<rightharpoonup> uid"
  societies :: "sid \<rightharpoonup> society"
  members :: "uid \<times> sid \<rightharpoonup> string"
  applications :: "aid \<rightharpoonup> application"
  events :: "eid \<rightharpoonup> event"
  attending :: "(uid \<times> eid) set"
  attended :: "(uid \<times> eid) set"
  forms :: "form list"
  resetCodes :: "string \<rightharpoonup> uid"
  next_user :: nat
  next_token :: nat
  next_society :: nat
  next_application :: nat
  next_event :: nat
  next_salt :: nat

definition empty_db :: db where
  "empty_db = \<lparr>users = Map.empty, sessions = Map.empty, societies = Map.empty,
     members = Map.empty, applications = Map.empty, events = Map.empty,
     attending = {}, attended = {}, forms = [], resetCodes = Map.empty,
     next_user = 0, next_token = 0, next_society = 0, next_application = 0,
     next_event = 0, next_salt = 0\<rparr>"

text \<open>
  \<open>clear\<close> of \<open>data.ts\<close>: \<open>deleteMany\<close> on every table of \<open>prismaModels\<close>. The
  auto-increment counters are not reset (SQLite \<open>AUTOINCREMENT\<close> keys are never reused).
\<close>

definition clear :: "db \<Rightarrow> db" where
  "clear s = s\<lparr>users := Map.empty, sessions := Map.empty, societies := Map.empty,
     members := Map.empty, applications := Map.empty, events := Map.empty,
     attending := {}, attended := {}, forms := [], resetCodes := Map.empty\<rparr>"

text \<open>The role and status strings the handlers write (\<open>perm.ts\<close>, \<open>admin.ts\<close>).\<close>

definition valid_role :: "string \<Rightarrow> bool" where
  "valid_role r \<longleftrightarrow> r = ''admin'' \<or> r = ''moderator'' \<or> r = ''member''"

definition valid_status :: "string \<Rightarrow> bool" where
  "valid_status st \<longleftrightarrow> st = ''pending'' \<or> st = ''approved'' \<or> st = ''denied''"

subsection \<open>Lookups by a unique column\<close>

definition user_by_email :: "string \<Rightarrow> db \<Rightarrow> uid option" where
  "user_by_email e s = find_row (users s) (next_user s) (\<lambda>u. email u = e)"

definition user_by_zId :: "string \<Rightarrow> db \<Rightarrow> uid option" where
  "user_by_zId z s = find_row (users s) (next_user s) (\<lambda>u. zId u = z)"

definition society_by_name :: "string \<Rightarrow> db \<Rightarrow> sid option" where
  "society_by_name n s = find_row (societies s) (next_society s) (\<lambda>c. soc_name c = n)"

subsection \<open>Cascading deletes\<close>

text \<open>
  Deleting a row deletes the rows that reference it (the schema's
  \<open>onDelete: Cascade\<close>, specification section 3 and 9).
\<close>

definition delete_event :: "eid \<Rightarrow> db \<Rightarrow> db" where
  "delete_event e s = s\<lparr>events := (events s)(e := None),
     attending := {p \<in> attending s. snd p \<noteq> e},
     attended := {p \<in> attended s. snd p \<noteq> e},
     forms := filter (\<lambda>f. form_eventId f \<noteq> e) (forms s)\<rparr>"

definition delete_society :: "sid \<Rightarrow> db \<Rightarrow> db" where
  "delete_society c s =
     (let gone = (\<lambda>e. case events s e of Some ev \<Rightarrow> ev_societyId ev = c | None \<Rightarrow> False) in
      s\<lparr>societies := (societies s)(c := None),
        members := (\<lambda>(u, c'). if c' = c then None else members s (u, c')),
        events := (\<lambda>e. if gone e then None else events s e),
        attending := {p \<in> attending s. \<not> gone (snd p)},
        attended := {p \<in> attended s. \<not> gone (snd p)},
        forms := filter (\<lambda>f. \<not> gone (form_eventId f)) (forms s)\<rparr>)"

definition delete_user :: "uid \<Rightarrow> db \<Rightarrow> db" where
  "delete_user u s = s\<lparr>users := (users s)(u := None),
     sessions := (\<lambda>t. if sessions s t = Some u then None else sessions s t),
     members := (\<lambda>(u', c). if u' = u then None else members s (u', c)),
     applications := (\<lambda>a. case applications s a of
        Some ap \<Rightarrow> if app_applicantId ap = u then None else Some ap | None \<Rightarrow> None),
     attending := {p \<in> attending s. fst p \<noteq> u},
     attended := {p \<in> attended s. fst p \<noteq> u},
     resetCodes := (\<lambda>c. if resetCodes s c = Some u then None else resetCodes s c)\<rparr>"

subsection \<open>Well-formedness of the store\<close>

definition counters_ok :: "db \<Rightarrow> bool" where
  "counters_ok s \<longleftrightarrow> keys_below (users s) (next_user s) \<and> keys_below (sessions s) (next_token s)
     \<and> keys_below (societies s) (next_society s) \<and> keys_below (applications s) (next_application s)
     \<and> keys_below (events s) (next_event s)"

definition refs_ok :: "db \<Rightarrow> bool" where
  "refs_ok s \<longleftrightarrow>
     (\<forall>t u. sessions s t = Some u \<longrightarrow> u \<in> dom (users s))
   \<and> (\<forall>u c r. members s (u, c) = Some r \<longrightarrow> u \<in> dom (users s) \<and> c \<in> dom (societies s) \<and> valid_role r)
   \<and> (\<forall>a ap. applications s a = Some ap \<longrightarrow> app_applicantId ap \<in> dom (users s) \<and> valid_status (app_status ap))
   \<and> (\<forall>e ev. events s e = Some ev \<longrightarrow> ev_societyId ev \<in> dom (societies s))
   \<and> (\<forall>u e. (u, e) \<in> attending s \<longrightarrow> u \<in> dom (users s) \<and> e \<in> dom (events s))
   \<and> (\<forall>u e. (u, e) \<in> attended s \<longrightarrow> u \<in> dom (users s) \<and> e \<in> dom (events s))
   \<and> (\<forall>f \<in> set (forms s). form_eventId f \<in> dom (events s))
   \<and> (\<forall>c u. resetCodes s c = Some u \<longrightarrow> u \<in> dom (users s))"

definition unique_ok :: "db \<Rightarrow> bool" where
  "unique_ok s \<longleftrightarrow>
     (\<forall>i j a b. users s i = Some a \<longrightarrow> users s j = Some b \<longrightarrow> email a = email b \<longrightarrow> i = j)
   \<and> (\<forall>i j a b. users s i = Some a \<longrightarrow> users s j = Some b \<longrightarrow> zId a = zId b \<longrightarrow> i = j)
   \<and> (\<forall>i j a b. societies s i = Some a \<longrightarrow> societies s j = Some b \<longrightarrow> soc_name a = soc_name b \<longrightarrow> i = j)"

definition db_inv :: "db \<Rightarrow> bool" where
  "db_inv s \<longleftrightarrow> counters_ok s \<and> refs_ok s \<and> unique_ok s"

declare counters_ok_def [inv_defs] refs_ok_def [inv_defs] unique_ok_def [inv_defs] db_inv_def [inv_defs]

subsection \<open>A demonstration store\<close>

text \<open>
  The store of the specification's scenarios (section 8): a site admin (user 0), the
  admin of society 0 (user 1), two of its plain members (users 2 and 3), each user
  with one session whose token is the user's id, a pending and a denied application,
  and one event of society 0. The witnesses of the development run on it.
\<close>

definition demo_user :: "string \<Rightarrow> string \<Rightarrow> bool \<Rightarrow> user" where
  "demo_user e z a = \<lparr>email = e, nameFirst = ''ann'', nameLast = ''lee'', zId = z,
     password = Bcrypt ''secret'' 0, isAdmin = a\<rparr>"

definition demo_db :: db where
  "demo_db = empty_db\<lparr>
     users := [0 \<mapsto> demo_user ''a@unsw.edu'' ''z0000000'' True,
               1 \<mapsto> demo_user ''d@unsw.edu'' ''z0000001'' False,
               2 \<mapsto> demo_user ''c@unsw.edu'' ''z0000002'' False,
               3 \<mapsto> demo_user ''e@unsw.edu'' ''z0000003'' False],
     sessions := [0 \<mapsto> 0, 1 \<mapsto> 1, 2 \<mapsto> 2, 3 \<mapsto> 3],
     societies := [0 \<mapsto> \<lparr>soc_name = ''Chess Club'', soc_description = ''chess'', soc_photoURL = []\<rparr>],
     members := [(1, 0) \<mapsto> ''admin'', (2, 0) \<mapsto> ''member'', (3, 0) \<mapsto> ''member''],
     applications := [0 \<mapsto> \<lparr>app_name = ''Go Club'', app_description = ''go'', app_photoURL = [],
                        app_applicantId = 2, app_status = ''pending''\<rparr>,
                      1 \<mapsto> \<lparr>app_name = ''Art Club'', app_description = ''art'', app_photoURL = [],
                        app_applicantId = 3, app_status = ''denied''\<rparr>],
     events := [0 \<mapsto> \<lparr>ev_societyId = 0, ev_name = ''Blitz'', ev_description = ''fast games'',
                  ev_time = 100, ev_location = ''Library''\<rparr>],
     next_user := 4, next_token := 4, next_society := 1, next_application := 2,
     next_event := 1, next_salt := 1\<rparr>"

subsection \<open>Lemmas on the store\<close>

lemma db_inv_empty: "db_inv empty_db"
  by (simp add: empty_db_def inv_defs keys_below_def)

text \<open>Updating an existing user row with a value that keeps the unique columns unique.\<close>

lemma db_inv_user_update:
  assumes inv: "db_inv s" and old: "users s u = Some old"
    and uniq: "\<And>j b. users s j = Some b \<Longrightarrow> j \<noteq> u \<Longrightarrow> email b \<noteq> email new \<and> zId b \<noteq> zId new"
  shows "db_inv (s\<lparr>users := (users s)(u \<mapsto> new)\<rparr>)"
proof -
  have dom_same: "dom ((users s)(u \<mapsto> new)) = dom (users s)"
    using old by auto
  have c: "counters_ok (s\<lparr>users := (users s)(u \<mapsto> new)\<rparr>)"
    using inv old by (auto simp: db_inv_def counters_ok_def)
  have r: "refs_ok (s\<lparr>users := (users s)(u \<mapsto> new)\<rparr>)"
    using inv unfolding db_inv_def refs_ok_def by (simp add: dom_same del: fun_upd_apply dom_fun_upd)
  have q: "unique_ok (s\<lparr>users := (users s)(u \<mapsto> new)\<rparr>)"
    using inv uniq unfolding db_inv_def unique_ok_def
    by (simp split: if_splits) metis
  from c r q show ?thesis by (simp add: db_inv_def)
qed

text \<open>Writing a valid role for an existing user in an existing society.\<close>

lemma db_inv_member_update:
  assumes "db_inv s" and "u \<in> dom (users s)" and "c \<in> dom (societies s)" and "valid_role r"
  shows "db_inv (s\<lparr>members := (members s)((u, c) \<mapsto> r)\<rparr>)"
  using assms by (auto simp: inv_defs)

lemma user_unique_cols:
  "unique_ok s \<Longrightarrow> users s u = Some a \<Longrightarrow> users s j = Some b \<Longrightarrow> j \<noteq> u \<Longrightarrow> email b \<noteq> email a \<and> zId b \<noteq> zId a"
  unfolding unique_ok_def by metis

lemma db_inv_member_refs:
  "db_inv s \<Longrightarrow> members s (u, c) = Some r \<Longrightarrow> u \<in> dom (users s) \<and> c \<in> dom (societies s) \<and> valid_role r"
  unfolding db_inv_def refs_ok_def by blast

lemma clear_db_inv: "db_inv (clear s)"
  by (simp add: clear_def inv_defs keys_below_def)

lemma user_by_zId_found:
  assumes "db_inv s" and "users s u = Some usr"
  shows "user_by_zId (zId usr) s = Some u"
proof -
  have kb: "keys_below (users s) (next_user s)" using assms(1) by (simp add: db_inv_def counters_ok_def)
  then obtain j where j: "user_by_zId (zId usr) s = Some j"
    using assms(2) find_row_None [OF kb, of "\<lambda>v. zId v = zId usr"] by (auto simp: user_by_zId_def)
  then obtain v where "users s j = Some v" and "zId v = zId usr"
    by (auto simp: user_by_zId_def dest: find_row_Some)
  with assms have "j = u" by (auto simp: db_inv_def unique_ok_def)
  with j show ?thesis by simp
qed

lemma db_inv_delete_event: "db_inv s \<Longrightarrow> db_inv (delete_event e s)"
proof -
  assume inv: "db_inv s"
  have "counters_ok (delete_event e s)"
    using inv unfolding db_inv_def delete_event_def counters_ok_def by (auto simp: keys_below_def)
  moreover have "refs_ok (delete_event e s)"
    using inv unfolding db_inv_def delete_event_def refs_ok_def by (auto split: if_splits)
  moreover have "unique_ok (delete_event e s)"
    using inv unfolding db_inv_def delete_event_def unique_ok_def by simp
  ultimately show ?thesis by (simp add: db_inv_def)
qed

lemma db_inv_delete_society: "db_inv s \<Longrightarrow> db_inv (delete_society c s)"
proof -
  assume inv: "db_inv s"
  have "counters_ok (delete_society c s)"
    using inv unfolding db_inv_def delete_society_def Let_def counters_ok_def by (auto simp: keys_below_def)
  moreover have "refs_ok (delete_society c s)"
    using inv unfolding db_inv_def delete_society_def Let_def refs_ok_def by (auto split: if_splits option.splits)
  moreover have "unique_ok (delete_society c s)"
    using inv unfolding db_inv_def delete_society_def Let_def unique_ok_def by simp
  ultimately show ?thesis by (simp add: db_inv_def)
qed

lemma db_inv_delete_user: "db_inv s \<Longrightarrow> db_inv (delete_user u s)"
proof -
  assume inv: "db_inv s"
  have "counters_ok (delete_user u s)"
    using inv unfolding db_inv_def delete_user_def counters_ok_def by (auto simp: keys_below_def split: option.splits)
  moreover have "refs_ok (delete_user u s)"
    using inv unfolding db_inv_def delete_user_def refs_ok_def by (auto split: if_splits option.splits)
  moreover have "unique_ok (delete_user u s)"
    using inv unfolding db_inv_def delete_user_def unique_ok_def by simp
  ultimately show ?thesis by (simp add: db_inv_def)
qed
text \<open>Inserting a new application under the next key.\<close>

lemma db_inv_application_insert:
  assumes "db_inv s" and "app_applicantId ap \<in> dom (users s)" and "valid_status (app_status ap)"
  shows "db_inv (s\<lparr>applications := (applications s)(next_application s \<mapsto> ap),
                     next_application := Suc (next_application s)\<rparr>)"
  using assms unfolding inv_defs by (auto simp: keys_below_def)

text \<open>Overwriting an existing application.\<close>

lemma db_inv_application_update:
  assumes "db_inv s" and "applications s a = Some old"
    and "app_applicantId ap \<in> dom (users s)" and "valid_status (app_status ap)"
  shows "db_inv (s\<lparr>applications := (applications s)(a \<mapsto> ap)\<rparr>)"
  using assms unfolding inv_defs by (auto simp: keys_below_def)

text \<open>Overwriting an existing society with a name no other society has.\<close>

lemma db_inv_society_update:
  assumes inv: "db_inv s" and old: "societies s c = Some old"
    and uniq: "\<And>j b. societies s j = Some b \<Longrightarrow> j \<noteq> c \<Longrightarrow> soc_name b \<noteq> soc_name new"
  shows "db_inv (s\<lparr>societies := (societies s)(c \<mapsto> new)\<rparr>)"
proof -
  have dom_same: "dom ((societies s)(c \<mapsto> new)) = dom (societies s)"
    using old by auto
  have "counters_ok (s\<lparr>societies := (societies s)(c \<mapsto> new)\<rparr>)"
    using inv old by (auto simp: db_inv_def counters_ok_def)
  moreover have "refs_ok (s\<lparr>societies := (societies s)(c \<mapsto> new)\<rparr>)"
    using inv unfolding db_inv_def refs_ok_def by (simp add: dom_same del: fun_upd_apply dom_fun_upd)
  moreover have "unique_ok (s\<lparr>societies := (societies s)(c \<mapsto> new)\<rparr>)"
    using inv uniq unfolding db_inv_def unique_ok_def by (simp split: if_splits) metis
  ultimately show ?thesis by (simp add: db_inv_def)
qed

text \<open>Inserting a new society under the next key, with a name no society has.\<close>

lemma db_inv_society_insert:
  assumes inv: "db_inv s" and fresh: "\<And>i x. societies s i = Some x \<Longrightarrow> soc_name x \<noteq> soc_name new"
  shows "db_inv (s\<lparr>societies := (societies s)(next_society s \<mapsto> new), next_society := Suc (next_society s)\<rparr>)"
proof -
  have "counters_ok (s\<lparr>societies := (societies s)(next_society s \<mapsto> new), next_society := Suc (next_society s)\<rparr>)"
    using inv by (auto simp: db_inv_def counters_ok_def)
  moreover have "refs_ok (s\<lparr>societies := (societies s)(next_society s \<mapsto> new), next_society := Suc (next_society s)\<rparr>)"
    using inv unfolding db_inv_def refs_ok_def by auto
  moreover have "unique_ok (s\<lparr>societies := (societies s)(next_society s \<mapsto> new), next_society := Suc (next_society s)\<rparr>)"
  proof -
    have "societies s (next_society s) = None" using inv by (simp add: inv_defs)
    then show ?thesis using inv fresh unfolding db_inv_def unique_ok_def by (simp split: if_splits) metis
  qed
  ultimately show ?thesis by (simp add: db_inv_def)
qed

text \<open>An application's applicant exists.\<close>

lemma db_inv_applicant:
  "db_inv s \<Longrightarrow> applications s a = Some ap \<Longrightarrow> app_applicantId ap \<in> dom (users s)"
  by (auto simp: db_inv_def refs_ok_def)

lemma db_inv_next_salt [simp]: "db_inv (s\<lparr>next_salt := n\<rparr>) = db_inv s"
  by (simp add: inv_defs)

lemma db_inv_user_insert:
  assumes inv: "db_inv s"
    and fresh: "\<And>i b. users s i = Some b \<Longrightarrow> email b \<noteq> email new \<and> zId b \<noteq> zId new"
  shows "db_inv (s\<lparr>users := (users s)(next_user s \<mapsto> new), next_user := Suc (next_user s)\<rparr>)"
proof -
  have none: "users s (next_user s) = None" using inv by (simp add: inv_defs)
  have "counters_ok (s\<lparr>users := (users s)(next_user s \<mapsto> new), next_user := Suc (next_user s)\<rparr>)"
    using inv by (auto simp: db_inv_def counters_ok_def)
  moreover have "refs_ok (s\<lparr>users := (users s)(next_user s \<mapsto> new), next_user := Suc (next_user s)\<rparr>)"
    using inv unfolding db_inv_def refs_ok_def by auto
  moreover have "unique_ok (s\<lparr>users := (users s)(next_user s \<mapsto> new), next_user := Suc (next_user s)\<rparr>)"
    using inv fresh none unfolding db_inv_def unique_ok_def by (simp split: if_splits) metis
  ultimately show ?thesis by (simp add: db_inv_def)
qed

lemma db_inv_resetCodes_upd:
  "db_inv s \<Longrightarrow> u \<in> dom (users s) \<Longrightarrow> db_inv (s\<lparr>resetCodes := (resetCodes s)(c \<mapsto> u)\<rparr>)"
  unfolding inv_defs by auto

lemma db_inv_demo: "db_inv demo_db"
  by (simp add: demo_db_def empty_db_def demo_user_def inv_defs keys_below_def valid_role_def valid_status_def)

end
