(* ===== verification/Perm.thy ===== *)
theory Perm
  imports Session
begin

text \<open>
  The authorization engine of \<open>src/backend/src/perm.ts\<close>: site-level allocation
  (\<open>permSiteAllocate\<close>), the two translations between wire levels and stored role
  strings (\<open>societyPermConverter\<close>, \<open>societyPermReverter\<close>) and society-level
  allocation (\<open>permSocietyAllocate\<close>). Each handler is its chain of guards in the
  source's order, ending in the single row update. Against them stands an abstract
  specification of roles (\<open>srole\<close>, ordered by \<open>rank\<close>) and of the society
  allocation decision (\<open>society_allowed\<close>); the lemmas show that the handlers
  refine it.
\<close>

subsection \<open>Site-level allocation\<close>

text \<open>
  The session is read directly (not through \<open>validateSession\<close>), and the acting
  user is fetched again by the session's \<open>userId\<close> (\<open>admin?.isAdmin\<close>).
\<close>

definition permSiteAllocate :: "token \<Rightarrow> uid \<Rightarrow> int \<Rightarrow> db \<Rightarrow> (unit, db) outcome" where
  "permSiteAllocate token userId permLevel s =
     (case sessions s token of
        None \<Rightarrow> Inl (Unauthorized ''Invalid token'')
      | Some sessionUserId \<Rightarrow>
          (case users s userId of
             None \<Rightarrow> Inl (BadRequest ''Invalid userId'')
           | Some user \<Rightarrow>
               if \<not> (permLevel = 1 \<or> permLevel = 2) then Inl (BadRequest ''Invalid permLevel'')
               else if \<not> (case users s sessionUserId of Some admin \<Rightarrow> isAdmin admin | None \<Rightarrow> False)
               then Inl (Forbidden ''User is not a site admin'')
               else Inr ((), s\<lparr>users := (users s)(userId \<mapsto> user\<lparr>isAdmin := (permLevel = 1)\<rparr>)\<rparr>)))"

subsection \<open>Wire levels and stored roles\<close>

definition societyPermConverter :: "int \<Rightarrow> string" where
  "societyPermConverter permLevel =
     (if permLevel = 1 then ''admin'' else if permLevel = 2 then ''moderator'' else ''member'')"

definition societyPermReverter :: "string \<Rightarrow> int" where
  "societyPermReverter permLevel =
     (if permLevel = ''admin'' then 1 else if permLevel = ''moderator'' then 2 else 3)"

subsection \<open>Society-level allocation\<close>

definition permSocietyAllocate :: "token \<Rightarrow> uid \<Rightarrow> sid \<Rightarrow> int \<Rightarrow> db \<Rightarrow> (unit, db) outcome" where
  "permSocietyAllocate token userId societyId permLevel s =
     (case validateSession token s of
        Inl e \<Rightarrow> Inl e
      | Inr (sessionUserId, sessionUser) \<Rightarrow>
          if users s userId = None then Inl (BadRequest ''Invalid userId'')
          else if societies s societyId = None then Inl (BadRequest ''Invalid societyId'')
          else if \<not> (permLevel = 1 \<or> permLevel = 2 \<or> permLevel = 3)
          then Inl (BadRequest ''Invalid permLevel'')
          else (case members s (userId, societyId) of
            None \<Rightarrow> Inl (BadRequest ''User is not a member of the society'')
          | Some societyMember \<Rightarrow>
              (let update = Inr ((), s\<lparr>members :=
                     (members s)((userId, societyId) \<mapsto> societyPermConverter permLevel)\<rparr>) in
               if \<not> isAdmin sessionUser then
                 (case members s (sessionUserId, societyId) of
                    None \<Rightarrow> Inl (Forbidden ''Token user is not a member of the society'')
                  | Some sessionSocietyMember \<Rightarrow>
                      (let userPermLevel = societyPermReverter societyMember;
                           tokenPermLevel = societyPermReverter sessionSocietyMember in
                       if tokenPermLevel > userPermLevel
                       then Inl (Forbidden ''Token user does not have permission to manage this user'')
                       else if tokenPermLevel > permLevel
                       then Inl (Forbidden ''Token user does not have permission to manage this permLevel'')
                       else update))
               else update)))"

declare permSiteAllocate_def [store_defs] permSocietyAllocate_def [store_defs]

subsection \<open>Abstract specification of society roles\<close>

text \<open>
  The specification's tagged enum of society roles (section 9), ordered by rank:
  a lower rank is a higher authority. \<open>role_of\<close> reads a stored role string,
  \<open>role_of_level\<close> a valid wire level.
\<close>

datatype srole = SAdmin | SModerator | SMember

fun rank :: "srole \<Rightarrow> int" where
  "rank SAdmin = 1"
| "rank SModerator = 2"
| "rank SMember = 3"

definition role_of :: "string \<Rightarrow> srole" where
  "role_of r = (if r = ''admin'' then SAdmin else if r = ''moderator'' then SModerator else SMember)"

definition role_of_level :: "int \<Rightarrow> srole" where
  "role_of_level l = (if l = 1 then SAdmin else if l = 2 then SModerator else SMember)"

text \<open>
  The decision of section 4.3, steps 6 to 9: a site admin may always allocate; any
  other actor must hold a role in the society at least as strong as the target's
  current role and as the role it grants.
\<close>

definition society_allowed :: "bool \<Rightarrow> srole option \<Rightarrow> srole \<Rightarrow> srole \<Rightarrow> bool" where
  "society_allowed siteAdmin actor target new \<longleftrightarrow>
     siteAdmin \<or> (case actor of None \<Rightarrow> False | Some a \<Rightarrow> rank a \<le> rank target \<and> rank a \<le> rank new)"

text \<open>The abstraction of the role table.\<close>

definition abs_roles :: "db \<Rightarrow> uid \<times> sid \<rightharpoonup> srole" where
  "abs_roles s = (\<lambda>k. map_option role_of (members s k))"

subsection \<open>Translations\<close>

lemma rank_role_of [simp]: "rank (role_of r) = societyPermReverter r"
  by (simp add: role_of_def societyPermReverter_def)

lemma role_of_converter [simp]: "role_of (societyPermConverter l) = role_of_level l"
  by (simp add: role_of_def role_of_level_def societyPermConverter_def)

lemma rank_role_of_level: "l \<in> {1, 2, 3} \<Longrightarrow> rank (role_of_level l) = l"
  by (auto simp: role_of_level_def)

lemma valid_role_converter [simp]: "valid_role (societyPermConverter l)"
  by (simp add: valid_role_def societyPermConverter_def)

lemmas perm_unfold = permSocietyAllocate_def validateSession_def Let_def

subsection \<open>The handlers against their specification\<close>

lemma permSocietyAllocate_Inr:
  "permSocietyAllocate token userId societyId permLevel s = Inr (r, s') \<Longrightarrow>
   userId \<in> dom (users s) \<and> societyId \<in> dom (societies s)
   \<and> s' = s\<lparr>members := (members s)((userId, societyId) \<mapsto> societyPermConverter permLevel)\<rparr>"
  by (auto simp: perm_unfold split: option.splits if_splits)

lemma permSocietyAllocate_db_inv:
  "db_inv s \<Longrightarrow> permSocietyAllocate token userId societyId permLevel s = Inr (r, s') \<Longrightarrow> db_inv s'"
  by (auto dest!: permSocietyAllocate_Inr intro!: db_inv_member_update)

text \<open>
  C2: site-level allocation succeeds exactly when the token has a session, the acting
  user is a site admin, the target user exists and the level is 1 or 2; its only
  effect is to set the target's \<open>isAdmin\<close> flag to \<open>permLevel = 1\<close>. No rank or
  self-protection rule applies: an admin may demote itself (specification 4.3).
\<close>

lemma permSiteAllocate_Inr_iff:
  "permSiteAllocate token userId permLevel s = Inr (r, s') \<longleftrightarrow>
   (\<exists>a actor target. sessions s token = Some a \<and> users s a = Some actor \<and> isAdmin actor
      \<and> users s userId = Some target \<and> permLevel \<in> {1, 2}
      \<and> s' = s\<lparr>users := (users s)(userId \<mapsto> target\<lparr>isAdmin := (permLevel = 1)\<rparr>)\<rparr>)"
  by (auto simp: permSiteAllocate_def split: option.splits)

lemma permSiteAllocate_Inr_iff_witness:
  "permSiteAllocate 0 0 2 demo_db = Inr ((), demo_db\<lparr>users := (users demo_db)(0 \<mapsto> demo_user ''a@unsw.edu'' ''z0000000'' False)\<rparr>)"
proof -
  have "sessions demo_db 0 = Some 0 \<and> users demo_db 0 = Some (demo_user ''a@unsw.edu'' ''z0000000'' True)
        \<and> isAdmin (demo_user ''a@unsw.edu'' ''z0000000'' True) \<and> (2::int) \<in> {1, 2}
        \<and> demo_user ''a@unsw.edu'' ''z0000000'' False = (demo_user ''a@unsw.edu'' ''z0000000'' True)\<lparr>isAdmin := (2 = (1::int))\<rparr>"
    by (simp add: demo_db_def demo_user_def)
  then show ?thesis using permSiteAllocate_Inr_iff [of 0 0 2 demo_db "()"] by auto
qed

lemma permSiteAllocate_db_inv:
  assumes "db_inv s" and "permSiteAllocate token userId permLevel s = Inr (r, s')"
  shows "db_inv s'"
proof -
  from assms(2) obtain target where t: "users s userId = Some target"
    and s': "s' = s\<lparr>users := (users s)(userId \<mapsto> target\<lparr>isAdmin := (permLevel = 1)\<rparr>)\<rparr>"
    by (auto simp: permSiteAllocate_def split: option.splits if_splits)
  have "unique_ok s" using assms(1) by (simp add: db_inv_def)
  with t have "\<And>j b. users s j = Some b \<Longrightarrow> j \<noteq> userId \<Longrightarrow>
      email b \<noteq> email (target\<lparr>isAdmin := (permLevel = 1)\<rparr>) \<and> zId b \<noteq> zId (target\<lparr>isAdmin := (permLevel = 1)\<rparr>)"
    using user_unique_cols by simp
  with assms(1) t show ?thesis unfolding s' by (rule db_inv_user_update)
qed

text \<open>
  C1: society-level allocation refines the abstract decision \<open>society_allowed\<close>.
  Once the request has passed the validation steps (session, target user, society,
  level in 1..3, target a member), the handler succeeds exactly when the decision
  allows it: a site admin always, any other actor only with a role in the society of
  rank at most the target's current rank and at most the granted level (P3). On
  success the abstract role table changes at the target only, to the granted role;
  otherwise the error is \<open>Forbidden\<close>.
\<close>

lemma permSocietyAllocate_refines:
  assumes sess: "validateSession token s = Inr (a, actor)"
    and u: "users s userId \<noteq> None" and c: "societies s societyId \<noteq> None"
    and lvl: "permLevel \<in> {1, 2, 3}"
    and tgt: "members s (userId, societyId) = Some r"
  shows "case permSocietyAllocate token userId societyId permLevel s of
           Inl e \<Rightarrow> \<not> society_allowed (isAdmin actor) (abs_roles s (a, societyId)) (role_of r) (role_of_level permLevel)
                   \<and> (\<exists>m. e = Forbidden m)
         | Inr (_, s') \<Rightarrow> society_allowed (isAdmin actor) (abs_roles s (a, societyId)) (role_of r) (role_of_level permLevel)
                   \<and> abs_roles s' = (abs_roles s)((userId, societyId) \<mapsto> role_of_level permLevel)
                   \<and> s' = s\<lparr>members := (members s)((userId, societyId) \<mapsto> societyPermConverter permLevel)\<rparr>"
proof -
  have lv: "rank (role_of_level permLevel) = permLevel"
    using lvl by (rule rank_role_of_level)
  have abs_upd: "abs_roles (s\<lparr>members := (members s)((userId, societyId) \<mapsto> societyPermConverter permLevel)\<rparr>)
      = (abs_roles s)((userId, societyId) \<mapsto> role_of_level permLevel)"
    by (auto simp: abs_roles_def)
  show ?thesis
    using sess u c lvl tgt lv abs_upd
    by (auto simp: perm_unfold society_allowed_def abs_roles_def split: option.splits)
qed

lemma permSocietyAllocate_refines_witness:
  "validateSession 1 demo_db = Inr (1, demo_user ''d@unsw.edu'' ''z0000001'' False)
   \<and> members demo_db (2, 0) = Some ''member''
   \<and> permSocietyAllocate 1 2 0 2 demo_db
       = Inr ((), demo_db\<lparr>members := (members demo_db)((2, 0) \<mapsto> ''moderator'')\<rparr>)
   \<and> society_allowed False (Some SAdmin) SMember SModerator"
proof -
  have h1: "validateSession 1 demo_db = Inr (1, demo_user ''d@unsw.edu'' ''z0000001'' False)"
    by (simp add: validateSession_def demo_db_def)
  have h2: "members demo_db (2, 0) = Some ''member''"
    by (simp add: demo_db_def)
  have "users demo_db 2 \<noteq> None" and "societies demo_db 0 \<noteq> None" and "(2::int) \<in> {1, 2, 3}"
    by (simp_all add: demo_db_def)
  note r = permSocietyAllocate_refines [OF h1 this h2]
  show ?thesis
    using r h1 h2
    by (simp add: demo_db_def demo_user_def perm_unfold abs_roles_def societyPermConverter_def
        societyPermReverter_def society_allowed_def role_of_def role_of_level_def split: sum.splits)
qed

text \<open>
  The wire-level encoding of society roles round-trips: converting a valid level
  (1, 2, 3) to its stored string and back gives the level, and converting a stored
  role string to its level and back gives the string.
\<close>

lemma perm_roundtrip:
  "l \<in> {1, 2, 3} \<Longrightarrow> valid_role r \<Longrightarrow>
   societyPermReverter (societyPermConverter l) = l \<and> societyPermConverter (societyPermReverter r) = r"
  by (auto simp: societyPermReverter_def societyPermConverter_def valid_role_def)

lemma perm_roundtrip_witness:
  "(2::int) \<in> {1, 2, 3} \<and> valid_role ''moderator''
   \<and> societyPermReverter (societyPermConverter 2) = 2 \<and> societyPermConverter (societyPermReverter ''moderator'') = ''moderator''"
  using perm_roundtrip [of 2 "''moderator''"] by (simp add: valid_role_def)
end
