(* ===== verification/Society.thy ===== *)
theory Society
  imports Session "HOL-Library.List_Lexorder" "HOL-Library.Product_Lexorder"
begin

text \<open>
  Societies and their membership: \<open>validateSocietyName\<close> of
  \<open>src/backend/src/utils.ts\<close> and the handlers of \<open>src/backend/src/society.ts\<close>
  (\<open>societyApply\<close>, \<open>societyJoin\<close>, \<open>societyView\<close>, \<open>societyEdit\<close>,
  \<open>societyMembers\<close>, \<open>societyEvents\<close>, \<open>societyList\<close>, \<open>societyDelete\<close>).
  Handlers that write return the new store; the read-only ones return only their
  result. Prisma's \<open>orderBy\<close> is \<open>sort_key\<close> on the tuple of the ordering
  columns (strings compare byte-wise, as SQLite's binary collation does), and
  \<open>contains\<close> is SQLite's \<open>LIKE '%x%'\<close>, case-insensitive on ASCII.
\<close>

subsection \<open>Helpers\<close>

definition society_name_char :: "char \<Rightarrow> bool" where
  "society_name_char c \<longleftrightarrow> is_alpha c \<or> is_digit c \<or> c = CHR '' ''"

text \<open>\<open>/^[a-zA-Z0-9 ]+$/.test(s)\<close>\<close>

definition society_name_regex :: "string \<Rightarrow> bool" where
  "society_name_regex s \<longleftrightarrow> s \<noteq> [] \<and> list_all society_name_char s"

text \<open>Prisma's \<open>contains\<close> filter on SQLite (\<open>LIKE\<close>, ASCII case-insensitive).\<close>

definition contains :: "string \<Rightarrow> string \<Rightarrow> bool" where
  "contains field needle \<longleftrightarrow>
     list_ex (\<lambda>i. take (length needle) (drop i (toLowerCase field)) = toLowerCase needle)
       [0..<Suc (length field)]"

text \<open>\<open>Array.prototype.slice(start, end)\<close> for non-negative bounds.\<close>

definition js_slice :: "'a list \<Rightarrow> int \<Rightarrow> int \<Rightarrow> 'a list" where
  "js_slice xs start stop = drop (nat start) (take (nat stop) xs)"

definition validateSocietyName :: "string \<Rightarrow> sid option \<Rightarrow> db \<Rightarrow> http_error + bool" where
  "validateSocietyName societyName societyId s =
     (if (case societyId of
            None \<Rightarrow> False
          | Some c \<Rightarrow> (case societies s c of None \<Rightarrow> False | Some soc \<Rightarrow> soc_name soc = societyName))
      then Inr True
      else if societyName = [] \<or> length societyName > 100 \<or> length societyName < 1
              \<or> \<not> society_name_regex societyName \<or> society_by_name societyName s \<noteq> None
      then Inl (BadRequest ''Invalid society name'')
      else Inr True)"

subsection \<open>Handlers\<close>

text \<open>A new application has the schema's default status \<open>pending\<close> and photo \<open>''''\<close>.\<close>

definition societyApply :: "token \<Rightarrow> string \<Rightarrow> string \<Rightarrow> db \<Rightarrow> (aid, db) outcome" where
  "societyApply token societyName description s =
     (case validateSession token s of
        Inl e \<Rightarrow> Inl e
      | Inr (u, user) \<Rightarrow>
          (case validateSocietyName societyName None s of
             Inl e \<Rightarrow> Inl e
           | Inr _ \<Rightarrow>
               (let a = next_application s in
                Inr (a, s\<lparr>applications := (applications s)(a \<mapsto>
                        \<lparr>app_name = societyName, app_description = description, app_photoURL = [],
                         app_applicantId = u, app_status = ''pending''\<rparr>),
                        next_application := Suc a\<rparr>))))"

text \<open>
  \<open>upsert\<close> with an empty \<open>update\<close>: an existing membership is left as it is, a
  missing one is created with the schema's default role \<open>member\<close>.
\<close>

definition societyJoin :: "token \<Rightarrow> sid \<Rightarrow> db \<Rightarrow> (unit, db) outcome" where
  "societyJoin token societyId s =
     (case sessions s token of
        None \<Rightarrow> Inl (Unauthorized ''Invalid token'')
      | Some u \<Rightarrow>
          if societies s societyId = None then Inl (BadRequest ''Invalid societyId'')
          else (case members s (u, societyId) of
                  Some _ \<Rightarrow> Inr ((), s)
                | None \<Rightarrow> Inr ((), s\<lparr>members := (members s)((u, societyId) \<mapsto> ''member'')\<rparr>)))"

definition societyView :: "sid \<Rightarrow> db \<Rightarrow> http_error + (sid \<times> society)" where
  "societyView societyId s =
     (case societies s societyId of
        None \<Rightarrow> Inl (BadRequest ''Invalid societyId'')
      | Some society \<Rightarrow> Inr (societyId, society))"

definition societyEdit :: "token \<Rightarrow> sid \<Rightarrow> string \<Rightarrow> string \<Rightarrow> db \<Rightarrow> (unit, db) outcome" where
  "societyEdit token societyId societyName description s =
     (case validateSession token s of
        Inl e \<Rightarrow> Inl e
      | Inr (u, user) \<Rightarrow>
          (case societies s societyId of
             None \<Rightarrow> Inl (BadRequest ''Society does not exist'')
           | Some society \<Rightarrow>
               if \<not> isAdmin user \<and> members s (u, societyId) \<noteq> Some ''admin''
               then Inl (Forbidden ''Insufficient permisisons'')
               else (case validateSocietyName societyName (Some societyId) s of
                       Inl e \<Rightarrow> Inl e
                     | Inr _ \<Rightarrow> Inr ((), s\<lparr>societies := (societies s)(societyId \<mapsto>
                         society\<lparr>soc_name := societyName, soc_description := description\<rparr>)\<rparr>))))"

record socMember =
  sm_userId :: uid
  sm_zId :: string
  sm_nameFirst :: string
  sm_nameLast :: string
  sm_role :: string

definition societyMembers :: "sid \<Rightarrow> db \<Rightarrow> socMember list" where
  "societyMembers societyId s =
     List.map_filter (\<lambda>u. case (members s (u, societyId), users s u) of
         (Some r, Some usr) \<Rightarrow> Some \<lparr>sm_userId = u, sm_zId = zId usr, sm_nameFirst = nameFirst usr,
                                     sm_nameLast = nameLast usr, sm_role = r\<rparr>
       | _ \<Rightarrow> None)
       [0..<next_user s]"

text \<open>The upcoming events of a society, \<open>now\<close> being the request's \<open>new Date()\<close>.\<close>

definition societyEvents :: "sid \<Rightarrow> int \<Rightarrow> db \<Rightarrow> http_error + (eid \<times> event) list" where
  "societyEvents societyId now s =
     (if societies s societyId = None then Inl (BadRequest ''Invalid SocietyId'')
      else Inr (sort_key (\<lambda>(i, ev). (ev_time ev, ev_name ev, ev_description ev, i))
             (List.map_filter (\<lambda>i. case events s i of
                  Some ev \<Rightarrow> if ev_societyId ev = societyId \<and> now \<le> ev_time ev then Some (i, ev) else None
                | None \<Rightarrow> None) [0..<next_event s])))"

definition societyList :: "string option \<Rightarrow> int option \<Rightarrow> int option \<Rightarrow> db \<Rightarrow> (sid \<times> society) list" where
  "societyList searchString paginationStart paginationEnd s =
     (let socs = sort_key (\<lambda>(i, c). (soc_name c, soc_description c, i))
            (List.map_filter (\<lambda>i. case societies s i of
                 Some c \<Rightarrow> (case searchString of
                    Some q \<Rightarrow> if q = [] \<or> contains (soc_name c) q \<or> contains (soc_description c) q
                              then Some (i, c) else None
                  | None \<Rightarrow> Some (i, c))
               | None \<Rightarrow> None) [0..<next_society s])
      in case (paginationStart, paginationEnd) of
           (Some a, Some b) \<Rightarrow> if 0 \<le> a \<and> 0 \<le> b then js_slice socs a b else socs
         | _ \<Rightarrow> socs)"

definition societyDelete :: "token \<Rightarrow> sid \<Rightarrow> db \<Rightarrow> (unit, db) outcome" where
  "societyDelete token societyId s =
     (case validateSession token s of
        Inl e \<Rightarrow> Inl e
      | Inr (u, user) \<Rightarrow>
          if societies s societyId = None then Inl (BadRequest ''Invalid societyId'')
          else if \<not> isAdmin user then Inl (Forbidden ''Insufficient permissions'')
          else Inr ((), delete_society societyId s))"

subsection \<open>Behaviour of the society handlers\<close>

lemma societyJoin_upsert:
  "sessions s token = Some u \<Longrightarrow> societies s c \<noteq> None \<Longrightarrow>
   societyJoin token c s = Inr ((), case members s (u, c) of
      Some r \<Rightarrow> s | None \<Rightarrow> s\<lparr>members := (members s)((u, c) \<mapsto> ''member'')\<rparr>)"
  by (auto simp: societyJoin_def split: option.splits)



lemma societyJoin_db_inv:
  assumes inv: "db_inv s" and ok: "societyJoin token c s = Inr (r, s')"
  shows "db_inv s'"
proof -
  from ok obtain u where u: "sessions s token = Some u" and c: "c \<in> dom (societies s)"
    and s': "s' = s \<or> s' = s\<lparr>members := (members s)((u, c) \<mapsto> ''member'')\<rparr>"
    by (auto simp: societyJoin_def split: option.splits if_splits)
  have "u \<in> dom (users s)" using inv u by (simp add: db_inv_def session_user_dom)
  with inv c s' show ?thesis by (auto intro: db_inv_member_update simp: valid_role_def)
qed

lemma validateSocietyName_Inl:
  "validateSocietyName n c s = Inl e \<Longrightarrow> e = BadRequest ''Invalid society name''"
  by (auto simp: validateSocietyName_def split: if_splits)

lemma validateSocietyName_Inr:
  assumes "keys_below (societies s) (next_society s)" and "validateSocietyName n c s = Inr b"
  shows "(\<exists>i soc. c = Some i \<and> societies s i = Some soc \<and> soc_name soc = n)
       \<or> (society_name_regex n \<and> length n \<le> 100 \<and> (\<forall>i soc. societies s i = Some soc \<longrightarrow> soc_name soc \<noteq> n))"
  using assms by (auto simp: validateSocietyName_def society_by_name_def find_row_None split: option.splits if_splits)

lemma societyApply_db_inv:
  "db_inv s \<Longrightarrow> societyApply token n d s = Inr (a, s') \<Longrightarrow> db_inv s'"
  by (auto simp: societyApply_def validateSession_def valid_status_def Let_def split: option.splits sum.splits
      intro!: db_inv_application_insert)

lemma societyDelete_db_inv:
  "db_inv s \<Longrightarrow> societyDelete token c s = Inr (r, s') \<Longrightarrow> db_inv s'"
  by (auto simp: societyDelete_def split: sum.splits if_splits intro: db_inv_delete_society)

lemma societyEdit_db_inv:
  assumes inv: "db_inv s" and ok: "societyEdit token c n d s = Inr (r, s')"
  shows "db_inv s'"
proof -
  from ok obtain soc b where soc: "societies s c = Some soc"
    and v: "validateSocietyName n (Some c) s = Inr b"
    and s': "s' = s\<lparr>societies := (societies s)(c \<mapsto> soc\<lparr>soc_name := n, soc_description := d\<rparr>)\<rparr>"
    by (auto simp: societyEdit_def split: sum.splits option.splits if_splits)
  have kb: "keys_below (societies s) (next_society s)" using inv by (simp add: inv_defs)
  have uq: "\<And>j x. societies s j = Some x \<Longrightarrow> j \<noteq> c \<Longrightarrow> soc_name x \<noteq> n"
  proof -
    fix j x assume j: "societies s j = Some x" "j \<noteq> c"
    from validateSocietyName_Inr [OF kb v] show "soc_name x \<noteq> n"
    proof
      assume "\<exists>i sc. Some c = Some i \<and> societies s i = Some sc \<and> soc_name sc = n"
      with soc have "soc_name soc = n" by auto
      with inv soc j show ?thesis by (auto simp: inv_defs)
    next
      assume "society_name_regex n \<and> length n \<le> 100 \<and> (\<forall>i sc. societies s i = Some sc \<longrightarrow> soc_name sc \<noteq> n)"
      with j show ?thesis by blast
    qed
  qed
  show ?thesis unfolding s' using inv soc by (rule db_inv_society_update) (simp add: uq)
qed

text \<open>
  C11: a society is deleted only by a site admin, and only when it exists; the effect
  is the cascading delete of the society, its memberships and its events. A
  society's own admin is refused with \<open>Forbidden\<close>.
\<close>

lemma societyDelete_Inr:
  "societyDelete token c s = Inr (r, s') \<longleftrightarrow>
   (\<exists>u usr. validateSession token s = Inr (u, usr) \<and> isAdmin usr \<and> societies s c \<noteq> None \<and> s' = delete_society c s)"
  by (auto simp: societyDelete_def split: sum.splits)

lemma societyDelete_Inr_witness:
  "societyDelete 0 0 demo_db = Inr ((), delete_society 0 demo_db)
   \<and> societyDelete 1 0 demo_db = Inl (Forbidden ''Insufficient permissions'')"
proof -
  have "validateSession 0 demo_db = Inr (0, demo_user ''a@unsw.edu'' ''z0000000'' True)"
    by (simp add: validateSession_def demo_db_def)
  moreover have "isAdmin (demo_user ''a@unsw.edu'' ''z0000000'' True) \<and> societies demo_db 0 \<noteq> None"
    by (simp add: demo_user_def demo_db_def)
  ultimately have "societyDelete 0 0 demo_db = Inr ((), delete_society 0 demo_db)"
    using societyDelete_Inr [of 0 0 demo_db "()" "delete_society 0 demo_db"] by blast
  moreover have "societyDelete 1 0 demo_db = Inl (Forbidden ''Insufficient permissions'')"
    by (simp add: societyDelete_def validateSession_def demo_db_def demo_user_def)
  ultimately show ?thesis by simp
qed
text \<open>
  C10: for a valid session and an existing society, editing is refused with
  \<open>Forbidden\<close> exactly when the user is neither a site admin nor the society's
  \<open>admin\<close>. Moderators are refused; the specification's \<open>hasElevatedAccess\<close>
  admits them for society edits.
\<close>

lemma societyEdit_authorised:
  assumes "validateSession token s = Inr (u, usr)" and "societies s c = Some soc"
  shows "(\<exists>m. societyEdit token c n d s = Inl (Forbidden m)) \<longleftrightarrow>
         \<not> isAdmin usr \<and> members s (u, c) \<noteq> Some ''admin''"
  using assms by (auto simp: societyEdit_def dest: validateSocietyName_Inl split: sum.splits)
lemma societyEdit_authorised_witness:
  "validateSession 2 demo_db = Inr (2, demo_user ''c@unsw.edu'' ''z0000002'' False)
   \<and> (\<exists>m. societyEdit 2 0 ''Go Club'' ''go'' demo_db = Inl (Forbidden m))"
proof -
  have v: "validateSession 2 demo_db = Inr (2, demo_user ''c@unsw.edu'' ''z0000002'' False)"
    by (simp add: validateSession_def demo_db_def)
  have c: "societies demo_db 0 = Some \<lparr>soc_name = ''Chess Club'', soc_description = ''chess'', soc_photoURL = []\<rparr>"
    by (simp add: demo_db_def)
  have "\<not> isAdmin (demo_user ''c@unsw.edu'' ''z0000002'' False) \<and> members demo_db (2, 0) \<noteq> Some ''admin''"
    by (simp add: demo_user_def demo_db_def)
  with societyEdit_authorised [OF v c, of "''Go Club''" "''go''"] v show ?thesis by simp
qed

subsection \<open>The search filter\<close>


end
