(* ===== verification/Admin.thy ===== *)
theory Admin
  imports Society
begin

text \<open>
  The site-administration handlers of \<open>src/backend/src/admin.ts\<close>: listing users,
  the application life cycle (\<open>adminApplicationApprove\<close>, \<open>adminApplicationDeny\<close>,
  \<open>adminApplicationList\<close>) and user removal (\<open>adminUserRemove\<close>, whose cascade is
  \<open>delete_user\<close>). Approval creates the society and its first membership in one
  nested \<open>prisma.society.create\<close>, which fails on the schema's unique society name and
  on the applicant's foreign key; these failures surface as \<open>InternalError\<close> (the
  handler does not catch them). The lemmas give the life cycle of an application
  as the code has it, and the removal of a user's sessions.
\<close>

subsection \<open>Handlers\<close>

record userView =
  uv_id :: uid
  uv_email :: string
  uv_nameFirst :: string
  uv_nameLast :: string
  uv_zId :: string
  uv_isAdmin :: bool

text \<open>The \<open>select\<close> of user columns: everything but the password hash.\<close>

definition user_view :: "uid \<Rightarrow> user \<Rightarrow> userView" where
  "user_view i u = \<lparr>uv_id = i, uv_email = email u, uv_nameFirst = nameFirst u,
     uv_nameLast = nameLast u, uv_zId = zId u, uv_isAdmin = isAdmin u\<rparr>"

definition adminGetUsers :: "token \<Rightarrow> db \<Rightarrow> http_error + userView list" where
  "adminGetUsers token s =
     (case validateSession token s of
        Inl e \<Rightarrow> Inl e
      | Inr (u, user) \<Rightarrow>
          if \<not> isAdmin user then Inl (Forbidden ''User is not a site admin'')
          else Inr (map (\<lambda>i. user_view i (the (users s i))) (rows (users s) (next_user s))))"

definition adminGetUserByZid :: "string \<Rightarrow> db \<Rightarrow> http_error + userView" where
  "adminGetUserByZid z s =
     (case user_by_zId z s of
        None \<Rightarrow> Inl (BadRequest ''Invalid zId'')
      | Some i \<Rightarrow> (case users s i of
          None \<Rightarrow> Inl (BadRequest ''Invalid zId'')
        | Some u \<Rightarrow> Inr (user_view i u)))"

definition adminApplicationApprove :: "token \<Rightarrow> aid \<Rightarrow> db \<Rightarrow> (sid, db) outcome" where
  "adminApplicationApprove token applicationId s =
     (case validateSession token s of
        Inl e \<Rightarrow> Inl e
      | Inr (u, user) \<Rightarrow>
          if \<not> isAdmin user then Inl (Forbidden ''User is not a site admin'')
          else (case applications s applicationId of
            None \<Rightarrow> Inl (BadRequest ''Invalid applicationId'')
          | Some application \<Rightarrow>
              if app_status application = ''approved'' then Inl (BadRequest ''Invalid applicationId'')
              else if society_by_name (app_name application) s \<noteq> None
              then Inl (InternalError ''Unique constraint failed on the fields: (name)'')
              else if users s (app_applicantId application) = None
              then Inl (InternalError ''Foreign key constraint failed on the field: userId'')
              else
                (let c = next_society s;
                     s1 = s\<lparr>societies := (societies s)(c \<mapsto>
                             \<lparr>soc_name = app_name application, soc_description = app_description application,
                              soc_photoURL = app_photoURL application\<rparr>),
                           members := (members s)((app_applicantId application, c) \<mapsto> ''admin''),
                           next_society := Suc c\<rparr>
                 in Inr (c, s1\<lparr>applications := (applications s1)(applicationId \<mapsto>
                            application\<lparr>app_status := ''approved''\<rparr>)\<rparr>))))"

text \<open>\<open>application.update\<close> throws on a missing row; the handler turns it into \<open>BadRequest\<close>.\<close>

definition adminApplicationDeny :: "token \<Rightarrow> aid \<Rightarrow> db \<Rightarrow> (unit, db) outcome" where
  "adminApplicationDeny token applicationId s =
     (case validateSession token s of
        Inl e \<Rightarrow> Inl e
      | Inr (u, user) \<Rightarrow>
          if \<not> isAdmin user then Inl (Forbidden ''User is not a site admin'')
          else (case applications s applicationId of
            None \<Rightarrow> Inl (BadRequest ''Invalid Application ID'')
          | Some application \<Rightarrow> Inr ((), s\<lparr>applications := (applications s)(applicationId \<mapsto>
                                   application\<lparr>app_status := ''denied''\<rparr>)\<rparr>)))"

definition adminApplicationList :: "token \<Rightarrow> db \<Rightarrow> http_error + (aid \<times> application) list" where
  "adminApplicationList token s =
     (case validateSession token s of
        Inl e \<Rightarrow> Inl e
      | Inr (u, user) \<Rightarrow>
          if \<not> isAdmin user then Inl (Forbidden ''User is not a site admin'')
          else Inr (map (\<lambda>a. (a, the (applications s a))) (rows (applications s) (next_application s))))"

definition adminUserRemove :: "token \<Rightarrow> uid \<Rightarrow> db \<Rightarrow> (unit, db) outcome" where
  "adminUserRemove token userId s =
     (case validateSession token s of
        Inl e \<Rightarrow> Inl e
      | Inr (a, admin) \<Rightarrow>
          if users s userId = None then Inl (BadRequest ''Invalid userId'')
          else if \<not> isAdmin admin then Inl (Forbidden ''Insufficient permissions'')
          else Inr ((), delete_user userId s))"

subsection \<open>The application life cycle and user removal\<close>

lemma adminApplicationApprove_Inr:
  "adminApplicationApprove token a s = Inr (c, s') \<Longrightarrow>
   \<exists>u usr ap. validateSession token s = Inr (u, usr) \<and> isAdmin usr \<and> applications s a = Some ap
     \<and> app_status ap \<noteq> ''approved'' \<and> society_by_name (app_name ap) s = None
     \<and> app_applicantId ap \<in> dom (users s) \<and> c = next_society s
     \<and> s' = s\<lparr>societies := (societies s)(c \<mapsto> \<lparr>soc_name = app_name ap, soc_description = app_description ap,
                  soc_photoURL = app_photoURL ap\<rparr>),
             next_society := Suc c,
             members := (members s)((app_applicantId ap, c) \<mapsto> ''admin''),
             applications := (applications s)(a \<mapsto> ap\<lparr>app_status := ''approved''\<rparr>)\<rparr>"
  by (auto simp: adminApplicationApprove_def Let_def split: sum.splits option.splits if_splits)

lemma adminApplicationApprove_db_inv:
  assumes inv: "db_inv s" and ok: "adminApplicationApprove token a s = Inr (c, s')"
  shows "db_inv s'"
proof -
  from adminApplicationApprove_Inr [OF ok] obtain u usr ap where
    ap: "applications s a = Some ap" and nm: "society_by_name (app_name ap) s = None"
    and au: "app_applicantId ap \<in> dom (users s)" and c: "c = next_society s"
    and s': "s' = s\<lparr>societies := (societies s)(c \<mapsto> \<lparr>soc_name = app_name ap, soc_description = app_description ap,
                  soc_photoURL = app_photoURL ap\<rparr>),
             next_society := Suc c,
             members := (members s)((app_applicantId ap, c) \<mapsto> ''admin''),
             applications := (applications s)(a \<mapsto> ap\<lparr>app_status := ''approved''\<rparr>)\<rparr>"
    by blast
  let ?new = "\<lparr>soc_name = app_name ap, soc_description = app_description ap, soc_photoURL = app_photoURL ap\<rparr>"
  let ?s1 = "s\<lparr>societies := (societies s)(c \<mapsto> ?new), next_society := Suc c\<rparr>"
  let ?s2 = "?s1\<lparr>members := (members ?s1)((app_applicantId ap, c) \<mapsto> ''admin'')\<rparr>"
  have kb: "keys_below (societies s) (next_society s)" using inv by (simp add: inv_defs)
  have "\<And>i x. societies s i = Some x \<Longrightarrow> soc_name x \<noteq> soc_name ?new"
    using nm kb by (simp add: society_by_name_def find_row_None)
  then have i1: "db_inv ?s1" unfolding c by (rule db_inv_society_insert [OF inv])
  have i2: "db_inv ?s2"
    using i1 au by (intro db_inv_member_update) (auto simp: valid_role_def)
  have i3: "db_inv (?s2\<lparr>applications := (applications ?s2)(a \<mapsto> ap\<lparr>app_status := ''approved''\<rparr>)\<rparr>)"
    using i2 ap au by (intro db_inv_application_update) (auto simp: valid_status_def)
  moreover have "?s2\<lparr>applications := (applications ?s2)(a \<mapsto> ap\<lparr>app_status := ''approved''\<rparr>)\<rparr> = s'"
    by (simp add: s')
  ultimately show ?thesis by simp
qed

text \<open>
  C5: an application that has just been approved cannot be approved again: with the
  same admin token the second approval fails with \<open>BadRequest\<close>
  (\<open>Invalid applicationId\<close>), so one application never founds two societies
  (specification 4.3, P4).
\<close>

lemma adminApplicationApprove_again:
  assumes ok: "adminApplicationApprove token a s = Inr (c, s')"
  shows "adminApplicationApprove token a s' = Inl (BadRequest ''Invalid applicationId'')"
proof -
  from adminApplicationApprove_Inr [OF ok] obtain u usr ap new where
    v: "validateSession token s = Inr (u, usr)" and adm: "isAdmin usr" and ap: "applications s a = Some ap"
    and s': "s' = s\<lparr>societies := (societies s)(c \<mapsto> new), next_society := Suc c,
             members := (members s)((app_applicantId ap, c) \<mapsto> ''admin''),
             applications := (applications s)(a \<mapsto> ap\<lparr>app_status := ''approved''\<rparr>)\<rparr>"
    by blast
  have "validateSession token s' = validateSession token s"
    by (rule validateSession_cong) (simp_all add: s')
  with v have "validateSession token s' = Inr (u, usr)" by simp
  moreover have "applications s' a = Some (ap\<lparr>app_status := ''approved''\<rparr>)"
    unfolding s' by simp
  ultimately show ?thesis using adm by (simp add: adminApplicationApprove_def)
qed

lemma adminApplicationApprove_again_witness:
  "adminApplicationApprove 0 0 demo_db = Inr (1, snd (projr (adminApplicationApprove 0 0 demo_db)))
   \<and> adminApplicationApprove 0 0 (snd (projr (adminApplicationApprove 0 0 demo_db))) = Inl (BadRequest ''Invalid applicationId'')"
proof -
  have h: "adminApplicationApprove 0 0 demo_db = Inr (1, snd (projr (adminApplicationApprove 0 0 demo_db)))"
    by (simp add: adminApplicationApprove_def validateSession_def demo_db_def demo_user_def Let_def
        society_by_name_def find_row_def upt_rec)
  from h adminApplicationApprove_again [OF h] show ?thesis by simp
qed

lemma adminApplicationDeny_Inr:
  "adminApplicationDeny token a s = Inr (r, s') \<longleftrightarrow>
   (\<exists>u usr ap. validateSession token s = Inr (u, usr) \<and> isAdmin usr \<and> applications s a = Some ap
      \<and> s' = s\<lparr>applications := (applications s)(a \<mapsto> ap\<lparr>app_status := ''denied''\<rparr>)\<rparr>)"
  by (auto simp: adminApplicationDeny_def split: sum.splits option.splits)

lemma adminApplicationDeny_db_inv:
  assumes inv: "db_inv s" and ok: "adminApplicationDeny token a s = Inr (r, s')"
  shows "db_inv s'"
proof -
  from ok obtain ap where ap: "applications s a = Some ap"
    and s': "s' = s\<lparr>applications := (applications s)(a \<mapsto> ap\<lparr>app_status := ''denied''\<rparr>)\<rparr>"
    by (auto simp: adminApplicationDeny_Inr)
  have "app_applicantId ap \<in> dom (users s)" using inv ap by (rule db_inv_applicant)
  then show ?thesis unfolding s' using inv ap
    by (intro db_inv_application_update) (auto simp: valid_status_def)
qed

lemma adminUserRemove_Inr:
  "adminUserRemove token u s = Inr (r, s') \<longleftrightarrow>
   (\<exists>a adm. validateSession token s = Inr (a, adm) \<and> isAdmin adm \<and> users s u \<noteq> None \<and> s' = delete_user u s)"
  by (auto simp: adminUserRemove_def split: sum.splits)

lemma adminUserRemove_db_inv:
  "db_inv s \<Longrightarrow> adminUserRemove token u s = Inr (r, s') \<Longrightarrow> db_inv s'"
  by (auto simp: adminUserRemove_Inr intro: db_inv_delete_user)

text \<open>
  C8: when a site admin removes a user, every session of that user is gone: its token
  is refused with \<open>Unauthorized\<close> (specification section 8, scenario 6).
\<close>

lemma adminUserRemove_sessions:
  "adminUserRemove token u s = Inr (r, s') \<Longrightarrow> sessions s t = Some u \<Longrightarrow>
   validateSession t s' = Inl (Unauthorized ''Invalid token'')"
  unfolding adminUserRemove_Inr by (auto simp: delete_user_def validateSession_def)

lemma adminUserRemove_sessions_witness:
  "sessions demo_db 2 = Some 2
   \<and> adminUserRemove 0 2 demo_db = Inr ((), delete_user 2 demo_db)
   \<and> validateSession 2 (delete_user 2 demo_db) = Inl (Unauthorized ''Invalid token'')"
proof -
  have t: "sessions demo_db 2 = Some 2" by (simp add: demo_db_def)
  have h: "adminUserRemove 0 2 demo_db = Inr ((), delete_user 2 demo_db)"
    by (simp add: adminUserRemove_def validateSession_def demo_db_def demo_user_def)
  from t h adminUserRemove_sessions [OF h t] show ?thesis by simp
qed
text \<open>
  C6: approval only rejects applications whose status is \<open>approved\<close>: a site admin
  can approve an application that was already denied, which founds the society with
  the applicant as its admin and flips the status to \<open>approved\<close>. The
  specification requires \<open>BadRequest\<close> for every decided application.
\<close>

lemma approve_denied_application:
  assumes "validateSession token s = Inr (u, usr)" and "isAdmin usr" and "applications s a = Some ap"
    and "app_status ap = ''denied''" and "society_by_name (app_name ap) s = None"
    and "app_applicantId ap \<in> dom (users s)"
  shows "\<exists>s'. adminApplicationApprove token a s = Inr (next_society s, s')
           \<and> applications s' a = Some (ap\<lparr>app_status := ''approved''\<rparr>)
           \<and> members s' (app_applicantId ap, next_society s) = Some ''admin''"
  using assms by (auto simp: adminApplicationApprove_def Let_def)
lemma approve_denied_application_witness:
  "applications demo_db 1 = Some \<lparr>app_name = ''Art Club'', app_description = ''art'', app_photoURL = [],
                        app_applicantId = 3, app_status = ''denied''\<rparr>
   \<and> (\<exists>s'. adminApplicationApprove 0 1 demo_db = Inr (1, s')
          \<and> app_status (the (applications s' 1)) = ''approved'' \<and> members s' (3, 1) = Some ''admin'')"
proof -
  have v: "validateSession 0 demo_db = Inr (0, demo_user ''a@unsw.edu'' ''z0000000'' True)"
    by (simp add: validateSession_def demo_db_def)
  have a: "applications demo_db 1 = Some \<lparr>app_name = ''Art Club'', app_description = ''art'', app_photoURL = [],
                        app_applicantId = 3, app_status = ''denied''\<rparr>"
    by (simp add: demo_db_def)
  have n: "society_by_name ''Art Club'' demo_db = None"
    by (simp add: society_by_name_def find_row_def demo_db_def upt_rec)
  have u: "(3::nat) \<in> dom (users demo_db)" by (simp add: demo_db_def)
  have ns: "next_society demo_db = 1" by (simp add: demo_db_def)
  from approve_denied_application [OF v _ a _ _ _] n u ns a show ?thesis
    by (auto simp: demo_user_def)
qed

text \<open>
  C7: denial performs no status check: for a site admin and any existing application,
  whatever its status (pending, approved or already denied), the handler succeeds and
  sets the status to \<open>denied\<close>; a society founded by an earlier approval stays.
\<close>

lemma adminApplicationDeny_any_status:
  "validateSession token s = Inr (u, usr) \<Longrightarrow> isAdmin usr \<Longrightarrow> applications s a = Some ap \<Longrightarrow>
   adminApplicationDeny token a s = Inr ((), s\<lparr>applications := (applications s)(a \<mapsto> ap\<lparr>app_status := ''denied''\<rparr>)\<rparr>)"
  by (simp add: adminApplicationDeny_def)

lemma adminApplicationDeny_any_status_witness:
  "app_status (the (applications (snd (projr (adminApplicationApprove 0 0 demo_db))) 0)) = ''approved''
   \<and> (\<exists>s'. adminApplicationDeny 0 0 (snd (projr (adminApplicationApprove 0 0 demo_db))) = Inr ((), s')
          \<and> app_status (the (applications s' 0)) = ''denied'')"
proof -
  define s1 where "s1 = snd (projr (adminApplicationApprove 0 0 demo_db))"
  have ap: "applications s1 0 = Some \<lparr>app_name = ''Go Club'', app_description = ''go'', app_photoURL = [],
                        app_applicantId = 2, app_status = ''approved''\<rparr>"
    by (simp add: s1_def adminApplicationApprove_def validateSession_def demo_db_def demo_user_def Let_def
        society_by_name_def find_row_def upt_rec)
  have v: "validateSession 0 s1 = Inr (0, demo_user ''a@unsw.edu'' ''z0000000'' True)"
    by (simp add: s1_def adminApplicationApprove_def validateSession_def demo_db_def demo_user_def Let_def
        society_by_name_def find_row_def upt_rec)
  have "isAdmin (demo_user ''a@unsw.edu'' ''z0000000'' True)" by (simp add: demo_user_def)
  from adminApplicationDeny_any_status [OF v this ap] ap show ?thesis
    unfolding s1_def [symmetric] by simp
qed
end
