(* ===== verification/Auth.thy ===== *)
theory Auth
  imports Session
begin

text \<open>
  Registration and login, \<open>authRegister\<close> and \<open>authLogin\<close> of
  \<open>src/backend/src/auth.ts\<close>. The e-mail validator of the \<open>validator\<close> package is
  an external library: the handlers take it as the parameter \<open>isEmail\<close>. A password
  hash is \<open>Bcrypt password salt\<close>, the salt being the store's \<open>next_salt\<close>.
  The first user is the first row of \<open>prisma.user.findFirst()\<close>, that is
  \<open>find_row\<close> with a predicate that always holds. The iCal file written after
  registration (\<open>generateICal\<close>) is file output and not modelled.
\<close>

record userRegister =
  reg_email :: string
  reg_nameFirst :: string
  reg_nameLast :: string
  reg_password :: string
  reg_zId :: string

text \<open>\<open>/^[a-zA-Z ]+$/\<close> and \<open>/^z[0-9]{7}$/\<close>.\<close>

definition name_regex :: "string \<Rightarrow> bool" where
  "name_regex s \<longleftrightarrow> s \<noteq> [] \<and> list_all (\<lambda>c. is_alpha c \<or> c = CHR '' '') s"

definition zId_regex :: "string \<Rightarrow> bool" where
  "zId_regex s \<longleftrightarrow> (case s of [] \<Rightarrow> False | c # ds \<Rightarrow> c = CHR ''z'' \<and> length ds = 7 \<and> list_all is_digit ds)"

definition authRegister :: "(string \<Rightarrow> bool) \<Rightarrow> userRegister \<Rightarrow> db \<Rightarrow> (token, db) outcome" where
  "authRegister isEmail userReg s =
     (if \<not> name_regex (reg_nameFirst userReg) then Inl (BadRequest ''Invalid first name'')
      else if \<not> name_regex (reg_nameLast userReg) then Inl (BadRequest ''Invalid last name'')
      else if \<not> zId_regex (reg_zId userReg)
      then Inl (BadRequest (''zId format is incorrect '' @ reg_zId userReg))
      else
        (let nf = toLowerCase (reg_nameFirst userReg);
             nl = toLowerCase (reg_nameLast userReg) in
         if user_by_zId (reg_zId userReg) s \<noteq> None then Inl (BadRequest ''Invalid zId'')
         else
           (let em = toLowerCase (reg_email userReg) in
            if \<not> isEmail em \<or> user_by_email em s \<noteq> None then Inl (BadRequest ''Invalid Email'')
            else
              (let firstUser = (find_row (users s) (next_user s) (\<lambda>_. True) = None);
                   u = next_user s;
                   usr = \<lparr>email = em, nameFirst = nf, nameLast = nl, zId = reg_zId userReg,
                          password = Bcrypt (reg_password userReg) (next_salt s), isAdmin = firstUser\<rparr>;
                   s1 = s\<lparr>users := (users s)(u \<mapsto> usr), next_user := Suc u, next_salt := Suc (next_salt s)\<rparr>
               in Inr (createSession u s1)))))"

definition authLogin :: "string \<Rightarrow> string \<Rightarrow> db \<Rightarrow> (token, db) outcome" where
  "authLogin e pw s =
     (case user_by_email e s of
        None \<Rightarrow> Inl (BadRequest ''Invalid Credentials'')
      | Some u \<Rightarrow> (case users s u of
          None \<Rightarrow> Inl (BadRequest ''Invalid Credentials'')
        | Some user \<Rightarrow>
            if \<not> bcrypt_compare pw (password user) then Inl (BadRequest ''Invalid Credentials'')
            else Inr (createSession u s)))"

text \<open>
  Registration data for the witnesses: an address in lower case and the same address
  with an upper-case letter; \<open>has_at\<close> stands for the e-mail validator.
\<close>

definition bob :: userRegister where
  "bob = \<lparr>reg_email = ''bob@unsw.edu'', reg_nameFirst = ''bob'', reg_nameLast = ''lee'',
          reg_password = ''pw'', reg_zId = ''z1234567''\<rparr>"

definition has_at :: "string \<Rightarrow> bool" where
  "has_at e \<longleftrightarrow> CHR ''@'' \<in> set e"

definition bob_upper :: userRegister where
  "bob_upper = bob\<lparr>reg_email := ''Bob@unsw.edu''\<rparr>"

subsection \<open>Registration and login\<close>

lemma authRegister_Inr:
  assumes "authRegister isEmail r s = Inr (t, s')"
  shows "\<exists>usr. createSession (next_user s) (s\<lparr>users := (users s)(next_user s \<mapsto> usr),
                  next_user := Suc (next_user s), next_salt := Suc (next_salt s)\<rparr>) = (t, s')
     \<and> email usr = toLowerCase (reg_email r) \<and> zId usr = reg_zId r
     \<and> password usr = Bcrypt (reg_password r) (next_salt s)
     \<and> isAdmin usr = (find_row (users s) (next_user s) (\<lambda>_. True) = None)
     \<and> isEmail (toLowerCase (reg_email r))
     \<and> user_by_zId (reg_zId r) s = None \<and> user_by_email (toLowerCase (reg_email r)) s = None"
  using assms by (auto simp: authRegister_def Let_def split: if_splits)

lemma authRegister_db_inv:
  assumes inv: "db_inv s" and ok: "authRegister isEmail r s = Inr (t, s')"
  shows "db_inv s'"
proof -
  from authRegister_Inr [OF ok] obtain usr where
    cs: "createSession (next_user s) (s\<lparr>users := (users s)(next_user s \<mapsto> usr),
                  next_user := Suc (next_user s), next_salt := Suc (next_salt s)\<rparr>) = (t, s')"
    and em: "user_by_email (email usr) s = None" and zi: "user_by_zId (zId usr) s = None"
    by auto
  have kb: "keys_below (users s) (next_user s)" using inv by (simp add: inv_defs)
  have "\<And>i b. users s i = Some b \<Longrightarrow> email b \<noteq> email usr \<and> zId b \<noteq> zId usr"
    using em zi kb by (auto simp: user_by_email_def user_by_zId_def find_row_None)
  then have "db_inv (s\<lparr>users := (users s)(next_user s \<mapsto> usr), next_user := Suc (next_user s)\<rparr>)"
    by (rule db_inv_user_insert [OF inv])
  then have "db_inv (s\<lparr>users := (users s)(next_user s \<mapsto> usr), next_user := Suc (next_user s),
                        next_salt := Suc (next_salt s)\<rparr>)"
    by simp
  then show ?thesis by (rule createSession_db_inv) (auto intro: cs)
qed

lemma authLogin_Inr:
  "authLogin e pw s = Inr (t, s') \<Longrightarrow> \<exists>u. users s u \<noteq> None \<and> createSession u s = (t, s')"
  by (auto simp: authLogin_def split: option.splits if_splits)

lemma authLogin_db_inv:
  "db_inv s \<Longrightarrow> authLogin e pw s = Inr (t, s') \<Longrightarrow> db_inv s'"
  by (auto dest!: authLogin_Inr intro: createSession_db_inv)

lemmas str_simps = name_regex_def zId_regex_def is_alpha_def is_digit_def less_eq_char_def
  toLowerCase_def lower_char_def has_at_def

lemma authRegister_email_lookup:
  assumes ok: "authRegister isEmail r s = Inr (t, s')" and none: "user_by_email e s = None"
  shows "user_by_email e s' = (if e = toLowerCase (reg_email r) then Some (next_user s) else None)
    \<and> (\<exists>usr. users s' (next_user s) = Some usr \<and> password usr = Bcrypt (reg_password r) (next_salt s))"
proof -
  from authRegister_Inr [OF ok] obtain usr where
    cs: "createSession (next_user s) (s\<lparr>users := (users s)(next_user s \<mapsto> usr),
                  next_user := Suc (next_user s), next_salt := Suc (next_salt s)\<rparr>) = (t, s')"
    and em: "email usr = toLowerCase (reg_email r)"
    and pw: "password usr = Bcrypt (reg_password r) (next_salt s)"
    by auto
  have us: "users s' = (users s)(next_user s \<mapsto> usr) \<and> next_user s' = Suc (next_user s)"
    using cs by (auto simp: createSession_def)
  have "user_by_email e s' = find_row ((users s)(next_user s \<mapsto> usr)) (Suc (next_user s)) (\<lambda>u. email u = e)"
    using us by (simp add: user_by_email_def)
  also have "\<dots> = (if email usr = e then Some (next_user s) else None)"
    using none by (simp add: user_by_email_def find_row_insert)
  finally show ?thesis using em pw us by auto
qed

subsection \<open>Properties of registration and login\<close>

text \<open>
  C13: login fails exactly when no user has the given address or the password does not
  match that user's hash, and then always with the same error, \<open>BadRequest\<close>
  \<open>Invalid Credentials\<close>: an unknown address and a wrong password cannot be told
  apart (P6).
\<close>

lemma authLogin_failure:
  "authLogin e pw s = Inl err \<longleftrightarrow>
   err = BadRequest ''Invalid Credentials''
   \<and> \<not> (\<exists>u usr. user_by_email e s = Some u \<and> users s u = Some usr \<and> bcrypt_compare pw (password usr))"
  by (auto simp: authLogin_def split: option.splits prod.splits)

lemma authLogin_failure_witness:
  "authLogin ''ghost@nowhere.com'' ''x'' demo_db = Inl (BadRequest ''Invalid Credentials'')
   \<and> authLogin ''c@unsw.edu'' ''wrongpass'' demo_db = Inl (BadRequest ''Invalid Credentials'')"
proof -
  have "user_by_email ''ghost@nowhere.com'' demo_db = None"
    by (simp add: user_by_email_def find_row_def demo_db_def demo_user_def upt_rec)
  then have a: "authLogin ''ghost@nowhere.com'' ''x'' demo_db = Inl (BadRequest ''Invalid Credentials'')"
    using authLogin_failure [of "''ghost@nowhere.com''" "''x''" demo_db] by simp
  have "user_by_email ''c@unsw.edu'' demo_db = Some 2"
    by (simp add: user_by_email_def find_row_def demo_db_def demo_user_def upt_rec)
  then have b: "authLogin ''c@unsw.edu'' ''wrongpass'' demo_db = Inl (BadRequest ''Invalid Credentials'')"
    using authLogin_failure [of "''c@unsw.edu''" "''wrongpass''" demo_db]
    by (simp add: demo_db_def demo_user_def bcrypt_compare_def)
  from a b show ?thesis by simp
qed

text \<open>
  C14: a successful registration returns a token that resolves to the new user, whose
  \<open>isAdmin\<close> flag is set exactly when the user table was empty before. The rule is
  "no user exists now", not "first user ever": after every user has been removed (or
  the store cleared) the next registrant becomes a site admin again.
\<close>

lemma authRegister_admin_flag:
  assumes kb: "counters_ok s" and ok: "authRegister isEmail r s = Inr (t, s')"
  shows "\<exists>usr. validateSession t s' = Inr (next_user s, usr) \<and> (isAdmin usr \<longleftrightarrow> (\<forall>i. users s i = None))"
proof -
  from authRegister_Inr [OF ok] obtain usr where
    cs: "createSession (next_user s) (s\<lparr>users := (users s)(next_user s \<mapsto> usr),
                  next_user := Suc (next_user s), next_salt := Suc (next_salt s)\<rparr>) = (t, s')"
    and adm: "isAdmin usr = (find_row (users s) (next_user s) (\<lambda>_. True) = None)"
    by auto
  have "keys_below (users s) (next_user s)" using kb by (simp add: counters_ok_def)
  then have "isAdmin usr \<longleftrightarrow> (\<forall>i. users s i = None)"
    using adm by (auto simp: find_row_None)
  moreover have "validateSession t s' = Inr (next_user s, usr)"
    using cs by (auto simp: createSession_def validateSession_def)
  ultimately show ?thesis by blast
qed

lemma authRegister_admin_flag_witness:
  "counters_ok (clear demo_db) \<and> next_user (clear demo_db) = 4
   \<and> authRegister has_at bob (clear demo_db) = Inr (4, snd (projr (authRegister has_at bob (clear demo_db))))
   \<and> (\<exists>usr. validateSession 4 (snd (projr (authRegister has_at bob (clear demo_db)))) = Inr (4, usr) \<and> isAdmin usr)"
proof -
  have c: "counters_ok (clear demo_db)"
    by (simp add: clear_def demo_db_def counters_ok_def keys_below_def)
  have r: "authRegister has_at bob (clear demo_db) = Inr (4, snd (projr (authRegister has_at bob (clear demo_db))))"
    by (simp add: authRegister_def bob_def clear_def demo_db_def str_simps Let_def createSession_def
        user_by_zId_def user_by_email_def find_row_def upt_rec)
  have "\<forall>i. users (clear demo_db) i = None" by (simp add: clear_def)
  with authRegister_admin_flag [OF c r] c r show ?thesis by (simp add: clear_def demo_db_def)
qed

text \<open>
  C15: with well-formed names and zId, a zId that is already taken is reported as
  \<open>Invalid zId\<close> before the e-mail address is looked at (specification 4.2: the
  check order is observable).
\<close>

lemma authRegister_zId_checked_first:
  "name_regex (reg_nameFirst r) \<Longrightarrow> name_regex (reg_nameLast r) \<Longrightarrow> zId_regex (reg_zId r) \<Longrightarrow>
   user_by_zId (reg_zId r) s \<noteq> None \<Longrightarrow> authRegister isEmail r s = Inl (BadRequest ''Invalid zId'')"
  by (simp add: authRegister_def)

lemma authRegister_zId_checked_first_witness:
  "authRegister has_at (bob\<lparr>reg_zId := ''z0000002'', reg_email := ''not-an-email''\<rparr>) demo_db
     = Inl (BadRequest ''Invalid zId'')"
proof -
  have "user_by_zId ''z0000002'' demo_db \<noteq> None"
    by (simp add: user_by_zId_def find_row_def demo_db_def demo_user_def upt_rec)
  then show ?thesis
    using authRegister_zId_checked_first [of "bob\<lparr>reg_zId := ''z0000002'', reg_email := ''not-an-email''\<rparr>" demo_db has_at]
    by (simp add: bob_def str_simps)
qed

text \<open>
  C16: registration and login round-trip: after registering with an address in lower
  case, logging in with that address and password succeeds.
\<close>

lemma register_login_roundtrip:
  assumes ok: "authRegister isEmail r s = Inr (t, s')" and low: "toLowerCase (reg_email r) = reg_email r"
  shows "\<exists>t' s''. authLogin (reg_email r) (reg_password r) s' = Inr (t', s'')"
proof -
  have "user_by_email (toLowerCase (reg_email r)) s = None"
    using authRegister_Inr [OF ok] by auto
  with low have "user_by_email (reg_email r) s = None" by simp
  from authRegister_email_lookup [OF ok this] low obtain usr where
    "user_by_email (reg_email r) s' = Some (next_user s)" and "users s' (next_user s) = Some usr"
    and "password usr = Bcrypt (reg_password r) (next_salt s)"
    by auto
  then show ?thesis by (auto simp: authLogin_def bcrypt_compare_def)
qed

lemma register_login_roundtrip_witness:
  "toLowerCase (reg_email bob) = reg_email bob
   \<and> authRegister has_at bob demo_db = Inr (4, snd (projr (authRegister has_at bob demo_db)))
   \<and> (\<exists>t' s''. authLogin ''bob@unsw.edu'' ''pw'' (snd (projr (authRegister has_at bob demo_db))) = Inr (t', s''))"
proof -
  have low: "toLowerCase (reg_email bob) = reg_email bob" by (simp add: bob_def str_simps)
  have r: "authRegister has_at bob demo_db = Inr (4, snd (projr (authRegister has_at bob demo_db)))"
    by (simp add: authRegister_def bob_def demo_db_def demo_user_def str_simps Let_def createSession_def
        user_by_zId_def user_by_email_def find_row_def upt_rec)
  from register_login_roundtrip [OF r low] low r show ?thesis by (simp add: bob_def)
qed

text \<open>
  C17: registration stores the address in lower case but login looks the address up
  as given: after registering with an address that has upper-case letters (and that
  no user had), logging in with exactly that address and password fails with
  \<open>Invalid Credentials\<close>. The specification says login looks the user up by the
  lower-cased address.
\<close>

lemma register_login_mixed_case:
  assumes ok: "authRegister isEmail r s = Inr (t, s')"
    and mixed: "toLowerCase (reg_email r) \<noteq> reg_email r" and none: "user_by_email (reg_email r) s = None"
  shows "authLogin (reg_email r) (reg_password r) s' = Inl (BadRequest ''Invalid Credentials'')"
  using authRegister_email_lookup [OF ok none] mixed by (simp add: authLogin_def)

lemma register_login_mixed_case_witness:
  "toLowerCase (reg_email bob_upper) \<noteq> reg_email bob_upper
   \<and> user_by_email ''Bob@unsw.edu'' demo_db = None
   \<and> authRegister has_at bob_upper demo_db = Inr (4, snd (projr (authRegister has_at bob_upper demo_db)))
   \<and> authLogin ''Bob@unsw.edu'' ''pw'' (snd (projr (authRegister has_at bob_upper demo_db)))
       = Inl (BadRequest ''Invalid Credentials'')"
proof -
  have low: "toLowerCase ''Bob@unsw.edu'' = ''bob@unsw.edu''" by code_simp
  then have m: "toLowerCase (reg_email bob_upper) \<noteq> reg_email bob_upper"
    by (simp add: bob_upper_def bob_def)
  have n: "user_by_email ''Bob@unsw.edu'' demo_db = None"
    by (simp add: user_by_email_def find_row_def demo_db_def demo_user_def upt_rec)
  have r: "authRegister has_at bob_upper demo_db = Inr (4, snd (projr (authRegister has_at bob_upper demo_db)))"
    by (simp add: authRegister_def bob_upper_def bob_def low demo_db_def demo_user_def str_simps Let_def
        createSession_def user_by_zId_def user_by_email_def find_row_def upt_rec)
  from register_login_mixed_case [OF r m] m n r show ?thesis by (simp add: bob_upper_def bob_def)
qed

end
