(* ===== verification/Reset.thy ===== *)
theory Reset
  imports Auth
begin

text \<open>
  Password reset, \<open>src/backend/src/reset.ts\<close>. \<open>authResetGenerate\<close> checks the
  address syntax, then (in a promise chain the handler does not await) stores a reset
  code for the user with that address and mails it; every failure of the chain is
  caught and logged. The model runs the chain to completion before the response, and
  takes the random six-character code of \<open>nanoid\<close> as the parameter \<open>code\<close>; the
  mail itself is out of scope. \<open>authResetUse\<close> rehashes the password of the code's
  user; it does not delete the code.
\<close>

definition authResetGenerate :: "(string \<Rightarrow> bool) \<Rightarrow> string \<Rightarrow> string \<Rightarrow> db \<Rightarrow> (unit, db) outcome" where
  "authResetGenerate isEmail e code s =
     (if \<not> isEmail e then Inl (BadRequest ''Invalid email format'')
      else (case user_by_email e s of
              None \<Rightarrow> Inr ((), s)
            | Some u \<Rightarrow>
                if resetCodes s code \<noteq> None then Inr ((), s)
                else Inr ((), s\<lparr>resetCodes := (resetCodes s)(code \<mapsto> u)\<rparr>)))"

definition authResetUse :: "string \<Rightarrow> string \<Rightarrow> db \<Rightarrow> (unit, db) outcome" where
  "authResetUse code pw s =
     (case resetCodes s code of
        None \<Rightarrow> Inl (BadRequest ''Invalid code'')
      | Some u \<Rightarrow> (case users s u of
          None \<Rightarrow> Inl (BadRequest ''Invalid code'')
        | Some user \<Rightarrow> Inr ((), s\<lparr>users := (users s)(u \<mapsto> user\<lparr>password := Bcrypt pw (next_salt s)\<rparr>),
                                  next_salt := Suc (next_salt s)\<rparr>)))"

subsection \<open>Reset codes\<close>

lemma authResetGenerate_db_inv:
  assumes inv: "db_inv s" and ok: "authResetGenerate isEmail e code s = Inr (r, s')"
  shows "db_inv s'"
proof (cases "user_by_email e s")
  case None
  with ok show ?thesis using inv by (simp add: authResetGenerate_def split: if_splits)
next
  case (Some u)
  then have "u \<in> dom (users s)" by (auto simp: user_by_email_def dest: find_row_Some)
  with Some ok inv show ?thesis
    by (auto simp: authResetGenerate_def split: if_splits intro: db_inv_resetCodes_upd)
qed

lemma authResetUse_db_inv:
  assumes inv: "db_inv s" and ok: "authResetUse code pw s = Inr (r, s')"
  shows "db_inv s'"
proof -
  from ok obtain u usr where u: "users s u = Some usr"
    and s': "s' = (s\<lparr>users := (users s)(u \<mapsto> usr\<lparr>password := Bcrypt pw (next_salt s)\<rparr>)\<rparr>)\<lparr>next_salt := Suc (next_salt s)\<rparr>"
    by (auto simp: authResetUse_def split: option.splits)
  have "unique_ok s" using inv by (simp add: db_inv_def)
  with u have "\<And>j b. users s j = Some b \<Longrightarrow> j \<noteq> u \<Longrightarrow>
      email b \<noteq> email (usr\<lparr>password := Bcrypt pw (next_salt s)\<rparr>) \<and> zId b \<noteq> zId (usr\<lparr>password := Bcrypt pw (next_salt s)\<rparr>)"
    using user_unique_cols by simp
  with inv u have "db_inv (s\<lparr>users := (users s)(u \<mapsto> usr\<lparr>password := Bcrypt pw (next_salt s)\<rparr>)\<rparr>)"
    by (rule db_inv_user_update)
  then show ?thesis unfolding s' by simp
qed

subsection \<open>Properties of password reset\<close>



text \<open>
  C19: for a syntactically valid address, requesting a reset always succeeds with the
  same empty response, and for an address no user has it changes nothing: the
  response does not reveal whether the address exists (specification 4.2).
\<close>

lemma authResetGenerate_no_leak:
  "isEmail e \<Longrightarrow>
   (\<exists>s'. authResetGenerate isEmail e code s = Inr ((), s'))
   \<and> (user_by_email e s = None \<longrightarrow> authResetGenerate isEmail e code s = Inr ((), s))"
  by (auto simp: authResetGenerate_def split: option.splits)

lemma authResetGenerate_no_leak_witness:
  "has_at ''ghost@nowhere.com''
   \<and> authResetGenerate has_at ''ghost@nowhere.com'' ''ABC123'' demo_db = Inr ((), demo_db)
   \<and> (\<exists>s'. authResetGenerate has_at ''c@unsw.edu'' ''ABC123'' demo_db = Inr ((), s'))"
proof -
  have a: "has_at ''ghost@nowhere.com''" and b: "has_at ''c@unsw.edu''" by (simp_all add: has_at_def)
  have n: "user_by_email ''ghost@nowhere.com'' demo_db = None"
    by (simp add: user_by_email_def find_row_def demo_db_def demo_user_def upt_rec)
  from authResetGenerate_no_leak [of has_at "''ghost@nowhere.com''" "''ABC123''" demo_db]
    authResetGenerate_no_leak [of has_at "''c@unsw.edu''" "''ABC123''" demo_db] a b n
  show ?thesis by simp
qed

end
