(* ===== verification/Event.thy ===== *)
theory Event
  imports Society Auth
begin

text \<open>
  Events and attendance, \<open>src/backend/src/event.ts\<close>. An event belongs to a society;
  \<open>attending\<close> holds the (user, event) pairs of \<open>UserAttending\<close> (elected to attend),
  \<open>attended\<close> those of \<open>UserAttended\<close> (recorded by the attendance form), and
  \<open>forms\<close> the rows of \<open>Form\<close> in insertion order. A request's \<open>time\<close> is the
  parsed \<open>Date\<close> as an integer. The iCal regeneration after edits, deletions and
  attendance changes is file output and not modelled; \<open>generateCSV\<close> returns the
  content it writes to \<open>attendance/event-<id>.csv\<close>. Which users may manage an event
  is decided by \<open>elevated\<close>, the \<open>members.find\<close> predicate of the source.
\<close>

subsection \<open>Handlers\<close>

text \<open>\<open>society.members.find(m => m.userId === user.id && (m.role === 'admin' || m.role === 'moderator'))\<close>\<close>

definition elevated :: "db \<Rightarrow> uid \<Rightarrow> sid \<Rightarrow> bool" where
  "elevated s u c \<longleftrightarrow> members s (u, c) = Some ''admin'' \<or> members s (u, c) = Some ''moderator''"

definition createEvent :: "token \<Rightarrow> sid \<Rightarrow> string \<Rightarrow> string \<Rightarrow> int \<Rightarrow> string \<Rightarrow> db \<Rightarrow> (eid, db) outcome" where
  "createEvent token societyId name description time location s =
     (case validateSession token s of
        Inl e \<Rightarrow> Inl e
      | Inr (u, user) \<Rightarrow>
          if societies s societyId = None then Inl (BadRequest ''Society does not exist'')
          else if \<not> elevated s u societyId then Inl (Forbidden ''Insufficient permissions'')
          else
            (let e = next_event s in
             Inr (e, s\<lparr>events := (events s)(e \<mapsto> \<lparr>ev_societyId = societyId, ev_name = name,
                        ev_description = description, ev_time = time, ev_location = location\<rparr>),
                       next_event := Suc e\<rparr>)))"

definition editEvent :: "token \<Rightarrow> eid \<Rightarrow> string \<Rightarrow> string \<Rightarrow> int \<Rightarrow> string \<Rightarrow> db \<Rightarrow> (unit, db) outcome" where
  "editEvent token eventId name description time location s =
     (case validateSession token s of
        Inl e \<Rightarrow> Inl e
      | Inr (u, user) \<Rightarrow>
          (case events s eventId of
             None \<Rightarrow> Inl (BadRequest ''Invalid eventId'')
           | Some ev \<Rightarrow>
               if \<not> elevated s u (ev_societyId ev) then Inl (Forbidden ''Insufficient permissions'')
               else Inr ((), s\<lparr>events := (events s)(eventId \<mapsto>
                      ev\<lparr>ev_name := name, ev_description := description, ev_time := time,
                         ev_location := location\<rparr>)\<rparr>)))"

definition deleteEvent :: "token \<Rightarrow> eid \<Rightarrow> db \<Rightarrow> (unit, db) outcome" where
  "deleteEvent token eventId s =
     (case validateSession token s of
        Inl e \<Rightarrow> Inl e
      | Inr (u, user) \<Rightarrow>
          (case events s eventId of
             None \<Rightarrow> Inl (BadRequest ''Invalid eventId'')
           | Some ev \<Rightarrow>
               if \<not> (isAdmin user \<or> elevated s u (ev_societyId ev))
               then Inl (Forbidden ''Insufficient permissions'')
               else Inr ((), delete_event eventId s)))"

definition getEvent :: "eid \<Rightarrow> db \<Rightarrow> http_error + (eid \<times> event)" where
  "getEvent eventId s =
     (case events s eventId of
        None \<Rightarrow> Inl (BadRequest ''eventId is invalid'')
      | Some ev \<Rightarrow> Inr (eventId, ev))"

text \<open>\<open>upsert\<close> with an empty \<open>update\<close>: attending twice is attending once.\<close>

definition attendEvent :: "token \<Rightarrow> eid \<Rightarrow> db \<Rightarrow> (unit, db) outcome" where
  "attendEvent token eventId s =
     (case validateSession token s of
        Inl e \<Rightarrow> Inl e
      | Inr (u, user) \<Rightarrow>
          if events s eventId = None then Inl (BadRequest ''eventId is invalid'')
          else Inr ((), s\<lparr>attending := insert (u, eventId) (attending s)\<rparr>))"

definition unattendEvent :: "token \<Rightarrow> eid \<Rightarrow> db \<Rightarrow> (unit, db) outcome" where
  "unattendEvent token eventId s =
     (case validateSession token s of
        Inl e \<Rightarrow> Inl e
      | Inr (u, user) \<Rightarrow>
          if events s eventId = None then Inl (BadRequest ''eventId is invalid'')
          else if (u, eventId) \<notin> attending s then Inl (BadRequest ''User is not attending'')
          else Inr ((), s\<lparr>attending := attending s - {(u, eventId)}\<rparr>))"

definition eventStatus :: "token \<Rightarrow> eid \<Rightarrow> db \<Rightarrow> http_error + bool" where
  "eventStatus token eventId s =
     (case validateSession token s of
        Inl e \<Rightarrow> Inl e
      | Inr (u, user) \<Rightarrow>
          if events s eventId = None then Inl (BadRequest ''eventId is invalid'')
          else Inr ((u, eventId) \<in> attending s))"

text \<open>
  The optional filters of \<open>getEvents\<close>: a non-empty search string matched against
  name, description or location, and the bounds \<open>time >= timeStart\<close>,
  \<open>time <= timeEnd\<close>.
\<close>

definition event_matches :: "string option \<Rightarrow> int option \<Rightarrow> int option \<Rightarrow> event \<Rightarrow> bool" where
  "event_matches searchString timeStart timeEnd ev \<longleftrightarrow>
     (case searchString of None \<Rightarrow> True
      | Some q \<Rightarrow> q = [] \<or> contains (ev_name ev) q \<or> contains (ev_description ev) q \<or> contains (ev_location ev) q)
   \<and> (case timeStart of None \<Rightarrow> True | Some a \<Rightarrow> a \<le> ev_time ev)
   \<and> (case timeEnd of None \<Rightarrow> True | Some b \<Rightarrow> ev_time ev \<le> b)"

definition event_key :: "eid \<times> event \<Rightarrow> int \<times> string \<times> string \<times> eid" where
  "event_key p = (ev_time (snd p), ev_name (snd p), ev_description (snd p), fst p)"

definition getEvents :: "string option \<Rightarrow> int option \<Rightarrow> int option \<Rightarrow> int option \<Rightarrow> int option \<Rightarrow> db
    \<Rightarrow> (eid \<times> event) list" where
  "getEvents searchString timeStart timeEnd paginationStart paginationEnd s =
     (let evs = sort_key event_key
            (List.map_filter (\<lambda>i. case events s i of
                 Some ev \<Rightarrow> if event_matches searchString timeStart timeEnd ev then Some (i, ev) else None
               | None \<Rightarrow> None) [0..<next_event s])
      in case (paginationStart, paginationEnd) of
           (Some a, Some b) \<Rightarrow> if 0 \<le> a \<and> 0 \<le> b then js_slice evs a b else evs
         | _ \<Rightarrow> evs)"

text \<open>
  The public attendance form. The form row is an \<open>upsert\<close> keyed by (event, zId,
  e-mail); for an unknown event its foreign key fails and the handler does not catch
  it. The attendance of a registered user with that zId is then recorded; the
  failure for an unknown zId is caught and ignored.
\<close>

definition fillForm :: "(string \<Rightarrow> bool) \<Rightarrow> eid \<Rightarrow> string \<Rightarrow> string \<Rightarrow> string \<Rightarrow> string \<Rightarrow> db
    \<Rightarrow> (unit, db) outcome" where
  "fillForm isEmail eventId fname lname z em s =
     (if \<not> isEmail em then Inl (BadRequest ''Invalid email'')
      else if events s eventId = None
      then Inl (InternalError ''Foreign key constraint failed on the field: eventId'')
      else
        (let s1 = (if (\<exists>f \<in> set (forms s). form_eventId f = eventId \<and> form_zId f = z \<and> form_email f = em)
                   then s
                   else s\<lparr>forms := forms s @ [\<lparr>form_eventId = eventId, form_zId = z, form_email = em,
                                                form_nameFirst = fname, form_nameLast = lname\<rparr>]\<rparr>)
         in case user_by_zId z s1 of
              None \<Rightarrow> Inr ((), s1)
            | Some u \<Rightarrow> Inr ((), s1\<lparr>attended := insert (u, eventId) (attended s1)\<rparr>)))"

text \<open>One CSV line per form of the event: \<open>zId,email,nameFirst,nameLast\<close>.\<close>

definition csv_line :: "form \<Rightarrow> string" where
  "csv_line f = form_zId f @ '','' @ form_email f @ '','' @ form_nameFirst f @ '','' @ form_nameLast f"

fun join_lines :: "string list \<Rightarrow> string" where
  "join_lines [] = []"
| "join_lines [l] = l"
| "join_lines (l # ls) = l @ ''\<newline>'' @ join_lines ls"

definition generateCSV :: "token \<Rightarrow> eid \<Rightarrow> db \<Rightarrow> http_error + string" where
  "generateCSV token eventId s =
     (case validateSession token s of
        Inl e \<Rightarrow> Inl e
      | Inr (u, user) \<Rightarrow>
          (case events s eventId of
             None \<Rightarrow> Inl (BadRequest ''EventId is invalid'')
           | Some ev \<Rightarrow>
               if \<not> isAdmin user \<and> \<not> elevated s u (ev_societyId ev)
               then Inl (Forbidden ''Invalid permissions'')
               else Inr (join_lines (map csv_line (filter (\<lambda>f. form_eventId f = eventId) (forms s))))))"

subsection \<open>Reading the CSV back\<close>

text \<open>
  A reader of the attendance file splits it at line breaks and each line at commas;
  \<open>csv_fields\<close> are the four columns a form is written as, and a form is
  \<open>csv_clean\<close> when none of them contains a separator.
\<close>

fun split_on :: "char \<Rightarrow> string \<Rightarrow> string list" where
  "split_on c [] = [[]]"
| "split_on c (x # xs) = (if x = c then [] # split_on c xs
                          else (let r = split_on c xs in (x # hd r) # tl r))"

definition csv_fields :: "form \<Rightarrow> string list" where
  "csv_fields f = [form_zId f, form_email f, form_nameFirst f, form_nameLast f]"

definition csv_clean :: "form \<Rightarrow> bool" where
  "csv_clean f \<longleftrightarrow> list_all (\<lambda>x. CHR '','' \<notin> set x \<and> CHR ''\<newline>'' \<notin> set x) (csv_fields f)"

subsection \<open>Demonstration data\<close>

text \<open>The demonstration store with user 2 promoted to moderator of society 0, its event, and a form.\<close>

definition demo_mod :: db where
  "demo_mod = demo_db\<lparr>members := (members demo_db)((2, 0) \<mapsto> ''moderator'')\<rparr>"

definition demo_event :: event where
  "demo_event = \<lparr>ev_societyId = 0, ev_name = ''Blitz'', ev_description = ''fast games'',
                  ev_time = 100, ev_location = ''Library''\<rparr>"

definition demo_form :: form where
  "demo_form = \<lparr>form_eventId = 0, form_zId = ''z1234567'', form_email = ''x@unsw.edu'',
                 form_nameFirst = ''Ann'', form_nameLast = ''Lee''\<rparr>"

subsection \<open>Well-formedness\<close>

text \<open>The invariant under the event table and attendance updates the handlers make.\<close>

lemma db_inv_event_insert:
  assumes "db_inv s" and "ev_societyId ev \<in> dom (societies s)"
  shows "db_inv (s\<lparr>events := (events s)(next_event s \<mapsto> ev), next_event := Suc (next_event s)\<rparr>)"
  using assms unfolding inv_defs by (auto simp: keys_below_def)

lemma db_inv_event_update:
  assumes "db_inv s" and "events s e = Some old" and "ev_societyId new = ev_societyId old"
  shows "db_inv (s\<lparr>events := (events s)(e \<mapsto> new)\<rparr>)"
  using assms unfolding inv_defs by (auto simp: keys_below_def)

lemma db_inv_attending:
  assumes "db_inv s" and "\<And>u e. (u, e) \<in> A \<Longrightarrow> u \<in> dom (users s) \<and> e \<in> dom (events s)"
  shows "db_inv (s\<lparr>attending := A\<rparr>)"
  using assms unfolding inv_defs by auto

lemma db_inv_attended:
  assumes "db_inv s" and "\<And>u e. (u, e) \<in> A \<Longrightarrow> u \<in> dom (users s) \<and> e \<in> dom (events s)"
  shows "db_inv (s\<lparr>attended := A\<rparr>)"
  using assms unfolding inv_defs by auto

lemma db_inv_forms:
  assumes "db_inv s" and "\<And>f. f \<in> set fs \<Longrightarrow> form_eventId f \<in> dom (events s)"
  shows "db_inv (s\<lparr>forms := fs\<rparr>)"
  using assms unfolding inv_defs by auto

lemma createEvent_db_inv:
  assumes inv: "db_inv s" and ok: "createEvent token c n d t l s = Inr (r, s')"
  shows "db_inv s'"
  using ok inv by (auto simp: createEvent_def Let_def split: sum.splits if_splits intro!: db_inv_event_insert)

lemma editEvent_db_inv:
  assumes inv: "db_inv s" and ok: "editEvent token e n d t l s = Inr (r, s')"
  shows "db_inv s'"
  using ok inv by (auto simp: editEvent_def split: sum.splits if_splits option.splits intro!: db_inv_event_update)

lemma deleteEvent_db_inv:
  assumes inv: "db_inv s" and ok: "deleteEvent token e s = Inr (r, s')"
  shows "db_inv s'"
  using ok inv by (auto simp: deleteEvent_def split: sum.splits if_splits option.splits intro!: db_inv_delete_event)

lemma attendEvent_db_inv:
  assumes inv: "db_inv s" and ok: "attendEvent token e s = Inr (r, s')"
  shows "db_inv s'"
proof -
  from ok obtain u usr where v: "validateSession token s = Inr (u, usr)" and ev: "events s e \<noteq> None"
    and s': "s' = s\<lparr>attending := insert (u, e) (attending s)\<rparr>"
    by (auto simp: attendEvent_def split: sum.splits if_splits)
  have "u \<in> dom (users s)" using v by (auto simp: validateSession_Inr_iff)
  with ev inv show ?thesis unfolding s'
    by (intro db_inv_attending) (auto simp: db_inv_def refs_ok_def)
qed

lemma unattendEvent_db_inv:
  assumes inv: "db_inv s" and ok: "unattendEvent token e s = Inr (r, s')"
  shows "db_inv s'"
proof -
  from ok obtain u where s': "s' = s\<lparr>attending := attending s - {(u, e)}\<rparr>"
    by (auto simp: unattendEvent_def split: sum.splits if_splits)
  from inv show ?thesis unfolding s'
    by (intro db_inv_attending) (auto simp: db_inv_def refs_ok_def)
qed

lemma fillForm_db_inv:
  assumes inv: "db_inv s" and ok: "fillForm isEmail e fn ln z em s = Inr (r, s')"
  shows "db_inv s'"
proof -
  from ok have ev: "e \<in> dom (events s)" by (auto simp: fillForm_def split: if_splits)
  define s1 where "s1 = (if (\<exists>f \<in> set (forms s). form_eventId f = e \<and> form_zId f = z \<and> form_email f = em)
                   then s
                   else s\<lparr>forms := forms s @ [\<lparr>form_eventId = e, form_zId = z, form_email = em,
                                                form_nameFirst = fn, form_nameLast = ln\<rparr>]\<rparr>)"
  have fev: "\<forall>f \<in> set (forms s). form_eventId f \<in> dom (events s)"
    using inv by (simp add: db_inv_def refs_ok_def)
  have inv1: "db_inv s1" using inv ev fev unfolding s1_def
    by (auto intro!: db_inv_forms)
  have same: "users s1 = users s" "events s1 = events s" "next_user s1 = next_user s"
    by (simp_all add: s1_def)
  have s': "s' = (case user_by_zId z s1 of None \<Rightarrow> s1 | Some u \<Rightarrow> s1\<lparr>attended := insert (u, e) (attended s1)\<rparr>)"
    using ok by (auto simp: fillForm_def s1_def Let_def split: if_splits option.splits)
  show ?thesis
  proof (cases "user_by_zId z s1")
    case None
    with s' inv1 show ?thesis by simp
  next
    case (Some u)
    then have u: "u \<in> dom (users s1)" by (auto simp: user_by_zId_def dest: find_row_Some)
    have att: "\<And>a b. (a, b) \<in> attended s1 \<Longrightarrow> a \<in> dom (users s1) \<and> b \<in> dom (events s1)"
      using inv1 by (simp add: db_inv_def refs_ok_def)
    have "db_inv (s1\<lparr>attended := insert (u, e) (attended s1)\<rparr>)"
    proof (rule db_inv_attended [OF inv1])
      fix a b assume "(a, b) \<in> insert (u, e) (attended s1)"
      then show "a \<in> dom (users s1) \<and> b \<in> dom (events s1)" using att u ev same by auto
    qed
    with Some s' show ?thesis by simp
  qed
qed

subsection \<open>The CSV format\<close>

lemma split_on_ne [simp]: "split_on c xs \<noteq> []"
  by (induction xs) (auto simp: Let_def)

lemma split_on_free: "c \<notin> set a \<Longrightarrow> split_on c a = [a]"
  by (induction a) (auto simp: Let_def)

lemma split_on_append: "c \<notin> set a \<Longrightarrow> split_on c (a @ c # b) = a # split_on c b"
  by (induction a) (auto simp: Let_def)

lemma split_csv_line:
  "csv_clean f \<Longrightarrow> split_on CHR '','' (csv_line f) = csv_fields f"
  by (simp add: csv_clean_def csv_fields_def csv_line_def split_on_append split_on_free)

lemma split_join_lines:
  "ls \<noteq> [] \<Longrightarrow> \<forall>l \<in> set ls. c \<notin> set l \<Longrightarrow> c = CHR ''\<newline>'' \<Longrightarrow> split_on c (join_lines ls) = ls"
  by (induction ls rule: join_lines.induct) (auto simp: split_on_append split_on_free)

lemma csv_line_no_newline:
  "csv_clean f \<Longrightarrow> CHR ''\<newline>'' \<notin> set (csv_line f)"
  by (auto simp: csv_clean_def csv_fields_def csv_line_def)

lemma demo_events [simp]: "events demo_db 0 = Some demo_event" "events demo_mod 0 = Some demo_event"
  by (simp_all add: demo_db_def demo_mod_def demo_event_def)

subsection \<open>Properties of the event handlers\<close>

text \<open>
  C20: once the session is valid and the society exists, creating an event is refused
  with \<open>Forbidden\<close> exactly when the caller is neither an admin nor a moderator of
  the society; the site-admin flag plays no part, so a site admin who is not a member
  cannot create events.
\<close>

lemma createEvent_authorised:
  assumes "validateSession token s = Inr (u, usr)" and "societies s c \<noteq> None"
  shows "(\<exists>m. createEvent token c n d t l s = Inl (Forbidden m)) \<longleftrightarrow> \<not> elevated s u c"
  using assms by (auto simp: createEvent_def Let_def)

lemma createEvent_authorised_witness:
  "isAdmin (demo_user ''a@unsw.edu'' ''z0000000'' True)
   \<and> (\<exists>m. createEvent 0 0 ''Rapid'' ''rapid'' 200 ''Hall'' demo_db = Inl (Forbidden m))
   \<and> \<not> (\<exists>m. createEvent 1 0 ''Rapid'' ''rapid'' 200 ''Hall'' demo_db = Inl (Forbidden m))"
proof -
  have v0: "validateSession 0 demo_db = Inr (0, demo_user ''a@unsw.edu'' ''z0000000'' True)"
    and v1: "validateSession 1 demo_db = Inr (1, demo_user ''d@unsw.edu'' ''z0000001'' False)"
    and c: "societies demo_db 0 \<noteq> None"
    and e0: "\<not> elevated demo_db 0 0" and e1: "elevated demo_db 1 0"
    by (simp_all add: validateSession_def demo_db_def elevated_def)
  from createEvent_authorised [OF v0 c, of "''Rapid''" "''rapid''" 200 "''Hall''"]
    createEvent_authorised [OF v1 c, of "''Rapid''" "''rapid''" 200 "''Hall''"] e0 e1
  show ?thesis by (simp add: demo_user_def)
qed

text \<open>
  C21: deleting an existing event is refused with \<open>Forbidden\<close> exactly when the
  caller is neither a site admin nor an admin or moderator of the event's society.
\<close>

lemma deleteEvent_authorised:
  assumes "validateSession token s = Inr (u, usr)" and "events s e = Some ev"
  shows "(\<exists>m. deleteEvent token e s = Inl (Forbidden m)) \<longleftrightarrow> \<not> isAdmin usr \<and> \<not> elevated s u (ev_societyId ev)"
  using assms by (auto simp: deleteEvent_def)

lemma deleteEvent_authorised_witness:
  "\<not> (\<exists>m. deleteEvent 2 0 demo_mod = Inl (Forbidden m))
   \<and> (\<exists>m. deleteEvent 3 0 demo_mod = Inl (Forbidden m))"
proof -
  have v2: "validateSession 2 demo_mod = Inr (2, demo_user ''c@unsw.edu'' ''z0000002'' False)"
    and v3: "validateSession 3 demo_mod = Inr (3, demo_user ''e@unsw.edu'' ''z0000003'' False)"
    and e2: "elevated demo_mod 2 0" and e3: "\<not> elevated demo_mod 3 0"
    by (simp_all add: validateSession_def demo_mod_def demo_db_def elevated_def)
  from deleteEvent_authorised [OF v2 demo_events(2)] deleteEvent_authorised [OF v3 demo_events(2)] e2 e3
  show ?thesis by (simp add: demo_event_def demo_user_def)
qed

text \<open>
  C22: a site admin who holds no admin or moderator role in an event's society can
  delete the event but not edit it: \<open>editEvent\<close> and \<open>deleteEvent\<close> apply
  different permission checks.
\<close>

lemma site_admin_deletes_not_edits:
  assumes "validateSession token s = Inr (u, usr)" and "isAdmin usr" and "events s e = Some ev"
    and "\<not> elevated s u (ev_societyId ev)"
  shows "editEvent token e n d t l s = Inl (Forbidden ''Insufficient permissions'')
       \<and> deleteEvent token e s = Inr ((), delete_event e s)"
  using assms by (simp add: editEvent_def deleteEvent_def)

lemma site_admin_deletes_not_edits_witness:
  "editEvent 0 0 ''Blitz'' ''faster'' 100 ''Library'' demo_db = Inl (Forbidden ''Insufficient permissions'')
   \<and> deleteEvent 0 0 demo_db = Inr ((), delete_event 0 demo_db)"
proof -
  have v: "validateSession 0 demo_db = Inr (0, demo_user ''a@unsw.edu'' ''z0000000'' True)"
    and a: "isAdmin (demo_user ''a@unsw.edu'' ''z0000000'' True)"
    and e: "\<not> elevated demo_db 0 (ev_societyId demo_event)"
    by (simp_all add: validateSession_def demo_db_def demo_user_def elevated_def demo_event_def)
  from site_admin_deletes_not_edits [OF v a demo_events(1) e] show ?thesis by simp
qed

text \<open>
  Attending an event one does not attend and then unattending it restores the
  store exactly.
\<close>

lemma attend_unattend_roundtrip:
  assumes "(u, e) \<notin> attending s" and "validateSession token s = Inr (u, usr)"
    and "attendEvent token e s = Inr ((), s')"
  shows "unattendEvent token e s' = Inr ((), s)"
proof -
  from assms have ev: "events s e \<noteq> None" and s': "s' = s\<lparr>attending := insert (u, e) (attending s)\<rparr>"
    by (auto simp: attendEvent_def split: if_splits)
  have "validateSession token s' = validateSession token s"
    by (rule validateSession_cong) (simp_all add: s')
  with assms(2) have v: "validateSession token s' = Inr (u, usr)" by simp
  have "attending s' - {(u, e)} = attending s" using assms(1) s' by auto
  with v ev s' show ?thesis by (simp add: unattendEvent_def)
qed

lemma attend_unattend_roundtrip_witness:
  "attendEvent 2 0 demo_db = Inr ((), demo_db\<lparr>attending := {(2, 0)}\<rparr>)
   \<and> unattendEvent 2 0 (demo_db\<lparr>attending := {(2, 0)}\<rparr>) = Inr ((), demo_db)"
proof -
  have n: "(2, 0) \<notin> attending demo_db" by (simp add: demo_db_def empty_db_def)
  have v: "validateSession 2 demo_db = Inr (2, demo_user ''c@unsw.edu'' ''z0000002'' False)"
    by (simp add: validateSession_def demo_db_def)
  have h: "attendEvent 2 0 demo_db = Inr ((), demo_db\<lparr>attending := {(2, 0)}\<rparr>)"
    using v by (simp add: attendEvent_def demo_db_def empty_db_def)
  from h attend_unattend_roundtrip [OF n v h] show ?thesis by simp
qed

text \<open>
  The attendance status reported by \<open>eventStatus\<close> is true after a
  successful \<open>attendEvent\<close> and false after a successful \<open>unattendEvent\<close>.
\<close>

lemma eventStatus_tracks_attendance:
  "(attendEvent token e s = Inr ((), s') \<longrightarrow> eventStatus token e s' = Inr True)
   \<and> (unattendEvent token e s = Inr ((), s'') \<longrightarrow> eventStatus token e s'' = Inr False)"
  by (auto simp: attendEvent_def unattendEvent_def eventStatus_def validateSession_def
      split: sum.splits option.splits if_splits)

lemma eventStatus_tracks_attendance_witness:
  "attendEvent 2 0 demo_db = Inr ((), demo_db\<lparr>attending := {(2, 0)}\<rparr>)
   \<and> eventStatus 2 0 (demo_db\<lparr>attending := {(2, 0)}\<rparr>) = Inr True
   \<and> unattendEvent 2 0 (demo_db\<lparr>attending := {(2, 0)}\<rparr>) = Inr ((), demo_db)
   \<and> eventStatus 2 0 demo_db = Inr False"
proof -
  have a: "attendEvent 2 0 demo_db = Inr ((), demo_db\<lparr>attending := {(2, 0)}\<rparr>)"
    and u: "unattendEvent 2 0 (demo_db\<lparr>attending := {(2, 0)}\<rparr>) = Inr ((), demo_db)"
    by (simp_all add: attendEvent_def unattendEvent_def validateSession_def demo_db_def empty_db_def)
  from a u eventStatus_tracks_attendance [of 2 0 demo_db "demo_db\<lparr>attending := {(2, 0)}\<rparr>" demo_db]
    eventStatus_tracks_attendance [of 2 0 "demo_db\<lparr>attending := {(2, 0)}\<rparr>" "demo_db\<lparr>attending := {(2, 0)}\<rparr>" demo_db]
  show ?thesis by simp
qed



text \<open>
  Submitting the attendance form again for the same event, zId and e-mail
  changes nothing, even with different names: the form is an \<open>upsert\<close> whose
  \<open>update\<close> is empty and the attendance record is a set.
\<close>

lemma fillForm_idempotent:
  "fillForm isEmail e fn ln z em s = Inr ((), s') \<Longrightarrow> fillForm isEmail e fn' ln' z em s' = Inr ((), s')"
  by (auto simp: fillForm_def Let_def user_by_zId_def split: if_splits option.splits)

lemma fillForm_idempotent_witness:
  "fillForm has_at 0 ''Ann'' ''Lee'' ''z1234567'' ''x@unsw.edu'' demo_db = Inr ((), demo_db\<lparr>forms := [demo_form]\<rparr>)
   \<and> fillForm has_at 0 ''Anne'' ''Li'' ''z1234567'' ''x@unsw.edu'' (demo_db\<lparr>forms := [demo_form]\<rparr>)
       = Inr ((), demo_db\<lparr>forms := [demo_form]\<rparr>)"
proof -
  have h: "fillForm has_at 0 ''Ann'' ''Lee'' ''z1234567'' ''x@unsw.edu'' demo_db = Inr ((), demo_db\<lparr>forms := [demo_form]\<rparr>)"
    by (simp add: fillForm_def has_at_def demo_db_def empty_db_def demo_form_def user_by_zId_def find_row_def
        demo_user_def upt_rec)
  from h fillForm_idempotent [OF h, of "''Anne''" "''Li''"] show ?thesis by simp
qed

text \<open>
  C27: the attendance CSV of an event reads back, split at line breaks and commas,
  to the columns of the event's forms in order, provided no field contains a comma
  or a line break (\<open>fillForm\<close> does not check this for the names and the zId).
\<close>

lemma generateCSV_roundtrip:
  assumes "generateCSV token e s = Inr csv"
    and "\<forall>f \<in> set (forms s). form_eventId f = e \<longrightarrow> csv_clean f"
    and "\<exists>f \<in> set (forms s). form_eventId f = e"
  shows "map (split_on CHR '','') (split_on CHR ''\<newline>'' csv)
       = map csv_fields (filter (\<lambda>f. form_eventId f = e) (forms s))"
proof -
  let ?fs = "filter (\<lambda>f. form_eventId f = e) (forms s)"
  from assms(1) have csv: "csv = join_lines (map csv_line ?fs)"
    by (auto simp: generateCSV_def split: sum.splits option.splits if_splits)
  have clean: "\<forall>f \<in> set ?fs. csv_clean f" using assms(2) by auto
  have "?fs \<noteq> []" using assms(3) by (simp add: filter_empty_conv)
  then have "split_on CHR ''\<newline>'' csv = map csv_line ?fs"
    unfolding csv using clean by (intro split_join_lines) (auto simp: csv_line_no_newline)
  with clean show ?thesis by (simp add: split_csv_line)
qed

lemma generateCSV_roundtrip_witness:
  "generateCSV 0 0 (demo_db\<lparr>forms := [demo_form]\<rparr>) = Inr ''z1234567,x@unsw.edu,Ann,Lee''
   \<and> map (split_on CHR '','') (split_on CHR ''\<newline>'' ''z1234567,x@unsw.edu,Ann,Lee'')
       = [[''z1234567'', ''x@unsw.edu'', ''Ann'', ''Lee'']]"
proof -
  have h: "generateCSV 0 0 (demo_db\<lparr>forms := [demo_form]\<rparr>) = Inr ''z1234567,x@unsw.edu,Ann,Lee''"
    by (simp add: generateCSV_def validateSession_def demo_db_def demo_user_def demo_form_def csv_line_def)
  have c: "\<forall>f \<in> set (forms (demo_db\<lparr>forms := [demo_form]\<rparr>)). form_eventId f = 0 \<longrightarrow> csv_clean f"
    by (simp add: demo_form_def csv_clean_def csv_fields_def)
  have e: "\<exists>f \<in> set (forms (demo_db\<lparr>forms := [demo_form]\<rparr>)). form_eventId f = 0"
    by (simp add: demo_form_def)
  from h generateCSV_roundtrip [OF h c e] show ?thesis by (simp add: demo_form_def csv_fields_def)
qed



end
