(* ===== verification/Profile.thy ===== *)
theory Profile
  imports Event
begin

text \<open>
  The user's own profile, \<open>src/backend/src/profile.ts\<close>: \<open>profileView\<close>,
  \<open>profileEdit\<close>, \<open>profileEvents\<close> and \<open>profileSocieties\<close>. The lists the
  handlers read through Prisma relations are produced in key order. \<open>profileEdit\<close>
  writes the names and the address as given; the only failure it reports is the
  violation of the unique e-mail column, as \<open>BadRequest\<close>.
\<close>

record userProfile =
  up_userId :: uid
  up_email :: string
  up_nameFirst :: string
  up_nameLast :: string
  up_zId :: string
  up_webcal :: string
  up_adminSocieties :: "sid list"
  up_modSocieties :: "sid list"
  up_isSiteAdmin :: bool

text \<open>\<open>webcalPath\<close> of \<open>utils.ts\<close>.\<close>

definition webcalPath :: "string \<Rightarrow> string" where
  "webcalPath z = ''/calendar/'' @ z @ ''.ics''"

text \<open>\<open>prisma.societyMember.findMany({where: {userId, role}, select: {societyId}})\<close>\<close>

definition societies_with_role :: "db \<Rightarrow> uid \<Rightarrow> string \<Rightarrow> sid list" where
  "societies_with_role s u r = filter (\<lambda>c. members s (u, c) = Some r) [0..<next_society s]"

definition profileView :: "token \<Rightarrow> db \<Rightarrow> http_error + userProfile" where
  "profileView token s =
     (case validateSession token s of
        Inl e \<Rightarrow> Inl e
      | Inr (u, user) \<Rightarrow>
          Inr \<lparr>up_userId = u, up_email = email user, up_nameFirst = nameFirst user,
               up_nameLast = nameLast user, up_zId = zId user, up_webcal = webcalPath (zId user),
               up_adminSocieties = societies_with_role s u ''admin'',
               up_modSocieties = societies_with_role s u ''moderator'',
               up_isSiteAdmin = isAdmin user\<rparr>)"

text \<open>Another user holding the address: the unique constraint on \<open>email\<close> fails.\<close>

definition email_taken :: "uid \<Rightarrow> string \<Rightarrow> db \<Rightarrow> bool" where
  "email_taken u em s \<longleftrightarrow>
     list_ex (\<lambda>j. j \<noteq> u \<and> (case users s j of Some v \<Rightarrow> email v = em | None \<Rightarrow> False)) [0..<next_user s]"

definition profileEdit :: "token \<Rightarrow> string \<Rightarrow> string \<Rightarrow> string \<Rightarrow> db \<Rightarrow> (userProfile, db) outcome" where
  "profileEdit token fn ln em s =
     (case validateSession token s of
        Inl e \<Rightarrow> Inl e
      | Inr (u, user) \<Rightarrow>
          if email_taken u em s then Inl (BadRequest ''Invalid email address'')
          else
            (let s' = s\<lparr>users := (users s)(u \<mapsto> user\<lparr>nameFirst := fn, nameLast := ln, email := em\<rparr>)\<rparr> in
             case profileView token s' of
               Inl e \<Rightarrow> Inl e
             | Inr p \<Rightarrow> Inr (p, s')))"

text \<open>The events of one of the user's attendance relations, in event-id order.\<close>

definition events_of :: "(uid \<times> eid) set \<Rightarrow> uid \<Rightarrow> db \<Rightarrow> (eid \<times> event) list" where
  "events_of rel u s =
     List.map_filter (\<lambda>e. case events s e of
         Some ev \<Rightarrow> if (u, e) \<in> rel then Some (e, ev) else None
       | None \<Rightarrow> None) [0..<next_event s]"

definition profileEvents :: "token \<Rightarrow> db \<Rightarrow> http_error + ((eid \<times> event) list \<times> (eid \<times> event) list)" where
  "profileEvents token s =
     (case validateSession token s of
        Inl e \<Rightarrow> Inl e
      | Inr (u, user) \<Rightarrow> Inr (events_of (attending s) u s, events_of (attended s) u s))"

definition profileSocieties :: "token \<Rightarrow> db \<Rightarrow> http_error + (sid \<times> society) list" where
  "profileSocieties token s =
     (case validateSession token s of
        Inl e \<Rightarrow> Inl e
      | Inr (u, user) \<Rightarrow>
          Inr (List.map_filter (\<lambda>c. case societies s c of
                  Some soc \<Rightarrow> if members s (u, c) \<noteq> None then Some (c, soc) else None
                | None \<Rightarrow> None) [0..<next_society s]))"

subsection \<open>Behaviour of the profile handlers\<close>

lemma email_taken_iff:
  "keys_below (users s) (next_user s) \<Longrightarrow>
   email_taken u em s \<longleftrightarrow> (\<exists>j v. j \<noteq> u \<and> users s j = Some v \<and> email v = em)"
  by (auto simp: email_taken_def list_ex_iff keys_below_def split: option.splits)

lemma email_taken_free:
  "\<not> (\<exists>j v. j \<noteq> u \<and> users s j = Some v \<and> email v = em) \<Longrightarrow> \<not> email_taken u em s"
  by (auto simp: email_taken_def list_ex_iff split: option.splits)

lemma set_events_of:
  "keys_below (events s) (next_event s) \<Longrightarrow>
   set (events_of rel u s) = {(e, ev). events s e = Some ev \<and> (u, e) \<in> rel}"
  unfolding events_of_def by (simp add: set_map_filter_rows_all)

lemma set_societies_with_role:
  assumes "db_inv s"
  shows "set (societies_with_role s u r) = {c. members s (u, c) = Some r}"
proof -
  have "c < next_society s" if "members s (u, c) = Some r" for c
  proof -
    have "c \<in> dom (societies s)" using assms that by (auto simp: db_inv_def refs_ok_def)
    then show ?thesis using assms by (auto simp: db_inv_def counters_ok_def keys_below_def)
  qed
  then show ?thesis by (auto simp: societies_with_role_def)
qed

lemma profileEdit_Inr:
  "profileEdit token fn ln em s = Inr (p, s') \<longleftrightarrow>
   (\<exists>u usr. validateSession token s = Inr (u, usr) \<and> \<not> email_taken u em s
      \<and> s' = s\<lparr>users := (users s)(u \<mapsto> usr\<lparr>nameFirst := fn, nameLast := ln, email := em\<rparr>)\<rparr>
      \<and> profileView token s' = Inr p)"
  by (auto simp: profileEdit_def Let_def split: sum.splits)

lemma profileEdit_db_inv:
  assumes inv: "db_inv s" and ok: "profileEdit token fn ln em s = Inr (p, s')"
  shows "db_inv s'"
proof -
  from ok obtain u usr where v: "validateSession token s = Inr (u, usr)" and nt: "\<not> email_taken u em s"
    and s': "s' = s\<lparr>users := (users s)(u \<mapsto> usr\<lparr>nameFirst := fn, nameLast := ln, email := em\<rparr>)\<rparr>"
    unfolding profileEdit_Inr by blast
  have u: "users s u = Some usr" using v by (simp add: validateSession_Inr_iff)
  have kb: "keys_below (users s) (next_user s)" using inv by (simp add: db_inv_def counters_ok_def)
  have "\<And>j b. users s j = Some b \<Longrightarrow> j \<noteq> u \<Longrightarrow>
      email b \<noteq> email (usr\<lparr>nameFirst := fn, nameLast := ln, email := em\<rparr>)
      \<and> zId b \<noteq> zId (usr\<lparr>nameFirst := fn, nameLast := ln, email := em\<rparr>)"
    using nt email_taken_iff [OF kb] user_unique_cols [OF _ u] inv by (fastforce simp: db_inv_def)
  with inv u show ?thesis unfolding s' by (rule db_inv_user_update)
qed

subsection \<open>Properties of the profile handlers\<close>

text \<open>
  C28: when no other user has the address, a profile edit succeeds and stores the
  names and the address exactly as given: nothing lower-cases them or checks their
  format, although registration lower-cases both and requires alphabetic names and
  a valid address (specification section 3).
\<close>

lemma profileEdit_stores_as_given:
  assumes "validateSession token s = Inr (u, usr)"
    and "\<not> (\<exists>j v. j \<noteq> u \<and> users s j = Some v \<and> email v = em)"
  shows "\<exists>p s'. profileEdit token fn ln em s = Inr (p, s')
      \<and> users s' u = Some (usr\<lparr>nameFirst := fn, nameLast := ln, email := em\<rparr>)
      \<and> up_email p = em \<and> up_nameFirst p = fn \<and> up_nameLast p = ln"
proof -
  let ?s' = "s\<lparr>users := (users s)(u \<mapsto> usr\<lparr>nameFirst := fn, nameLast := ln, email := em\<rparr>)\<rparr>"
  have "sessions s token = Some u" using assms(1) by (simp add: validateSession_Inr_iff)
  then have "validateSession token ?s' = Inr (u, usr\<lparr>nameFirst := fn, nameLast := ln, email := em\<rparr>)"
    by (simp add: validateSession_def)
  with assms email_taken_free [OF assms(2)] show ?thesis
    by (simp add: profileEdit_def profileView_def Let_def)
qed

lemma profileEdit_stores_as_given_witness:
  "\<exists>p s'. profileEdit 2 ''Ann2'' ''Lee'' ''Not An Email'' demo_db = Inr (p, s')
      \<and> users s' 2 = Some (demo_user ''c@unsw.edu'' ''z0000002'' False\<lparr>nameFirst := ''Ann2'', nameLast := ''Lee'', email := ''Not An Email''\<rparr>)
      \<and> up_email p = ''Not An Email'' \<and> up_nameFirst p = ''Ann2'' \<and> up_nameLast p = ''Lee''"
proof -
  have v: "validateSession 2 demo_db = Inr (2, demo_user ''c@unsw.edu'' ''z0000002'' False)"
    by (simp add: validateSession_def demo_db_def)
  have n: "\<not> (\<exists>j v. j \<noteq> 2 \<and> users demo_db j = Some v \<and> email v = ''Not An Email'')"
    by (simp add: demo_db_def demo_user_def)
  from profileEdit_stores_as_given [OF v n] show ?thesis .
qed

text \<open>
  A profile edit to an address another user holds fails with
  \<open>BadRequest\<close> \<open>Invalid email address\<close>.
\<close>

lemma profileEdit_duplicate_email:
  assumes "db_inv s" and "validateSession token s = Inr (u, usr)"
    and "users s j = Some v" and "j \<noteq> u" and "email v = em"
  shows "profileEdit token fn ln em s = Inl (BadRequest ''Invalid email address'')"
proof -
  have kb: "keys_below (users s) (next_user s)" using assms(1) by (simp add: db_inv_def counters_ok_def)
  have "email_taken u em s" using assms(3-5) by (auto simp: email_taken_iff [OF kb])
  with assms(2) show ?thesis by (simp add: profileEdit_def)
qed

lemma profileEdit_duplicate_email_witness:
  "profileEdit 2 ''Cy'' ''Lee'' ''d@unsw.edu'' demo_db = Inl (BadRequest ''Invalid email address'')"
proof -
  have v: "validateSession 2 demo_db = Inr (2, demo_user ''c@unsw.edu'' ''z0000002'' False)"
    by (simp add: validateSession_def demo_db_def)
  have j: "users demo_db 1 = Some (demo_user ''d@unsw.edu'' ''z0000001'' False)"
    by (simp add: demo_db_def)
  from profileEdit_duplicate_email [OF db_inv_demo v j] show ?thesis by (simp add: demo_user_def)
qed

text \<open>
  The profile lists exactly the societies the user administers and exactly
  those the user moderates, and reports the site-admin flag and the calendar path
  of the user's zId.
\<close>

lemma profileView_roles:
  assumes "db_inv s" and "validateSession token s = Inr (u, usr)"
  shows "\<exists>p. profileView token s = Inr p
     \<and> set (up_adminSocieties p) = {c. members s (u, c) = Some ''admin''}
     \<and> set (up_modSocieties p) = {c. members s (u, c) = Some ''moderator''}
     \<and> up_isSiteAdmin p = isAdmin usr \<and> up_webcal p = webcalPath (zId usr)"
  using assms by (simp add: profileView_def set_societies_with_role)

lemma profileView_roles_witness:
  "\<exists>p. profileView 1 demo_db = Inr p
     \<and> set (up_adminSocieties p) = {c. members demo_db (1, c) = Some ''admin''}
     \<and> set (up_modSocieties p) = {c. members demo_db (1, c) = Some ''moderator''}
     \<and> up_isSiteAdmin p = False \<and> up_webcal p = ''/calendar/z0000001.ics''"
proof -
  have v: "validateSession 1 demo_db = Inr (1, demo_user ''d@unsw.edu'' ''z0000001'' False)"
    by (simp add: validateSession_def demo_db_def)
  from profileView_roles [OF db_inv_demo v] show ?thesis by (simp add: demo_user_def webcalPath_def)
qed

text \<open>
  After a successful \<open>attendEvent\<close> the event is in the attending list of
  the user's \<open>profileEvents\<close>.
\<close>

lemma attend_shows_in_profile:
  assumes "db_inv s" and "attendEvent token e s = Inr ((), s')"
  shows "\<exists>ev a b. profileEvents token s' = Inr (a, b) \<and> (e, ev) \<in> set a \<and> events s e = Some ev"
proof -
  from assms(2) obtain u usr ev where v: "validateSession token s = Inr (u, usr)"
    and ev: "events s e = Some ev" and s': "s' = s\<lparr>attending := insert (u, e) (attending s)\<rparr>"
    by (auto simp: attendEvent_def split: sum.splits if_splits)
  have "validateSession token s' = validateSession token s"
    by (rule validateSession_cong) (simp_all add: s')
  with v have v': "validateSession token s' = Inr (u, usr)" by simp
  have kb: "keys_below (events s') (next_event s')" using assms(1) s' by (simp add: db_inv_def counters_ok_def)
  have "(e, ev) \<in> set (events_of (attending s') u s')" unfolding set_events_of [OF kb] using ev by (simp add: s')
  with v' ev show ?thesis by (simp add: profileEvents_def)
qed

lemma attend_shows_in_profile_witness:
  "\<exists>ev a b. profileEvents 2 (demo_db\<lparr>attending := {(2, 0)}\<rparr>) = Inr (a, b) \<and> (0, ev) \<in> set a
     \<and> events demo_db 0 = Some ev"
proof -
  have h: "attendEvent 2 0 demo_db = Inr ((), demo_db\<lparr>attending := {(2, 0)}\<rparr>)"
    by (simp add: attendEvent_def validateSession_def demo_db_def empty_db_def)
  from attend_shows_in_profile [OF db_inv_demo h] show ?thesis .
qed

end
