(* ===== verification/Api.thy ===== *)
theory Api
  imports Perm Admin Reset Profile
begin

text \<open>
  The HTTP interface, \<open>src/backend/src/app.ts\<close>: one constructor of \<open>request\<close> per
  route, grouped by the route prefix as the file groups them, with the arguments the
  route reads from the body or the query already decoded, and \<open>handle\<close>, which
  dispatches a request to its handler. A handler that only reads returns the store
  unchanged. The inputs a request takes from outside the store are the \<open>env\<close>:
  \<open>validator\<close>'s \<open>isEmail\<close>, the code \<open>nanoid\<close> draws for a reset, and the
  request's \<open>new Date()\<close>. \<open>reachable\<close> is the set of stores a deployment can reach
  from the empty database by successful requests (a failed request writes nothing).
  The routes \<open>/\<close> and \<open>/echo\<close> do not touch the store and are not modelled.
\<close>

record env =
  env_isEmail :: "string \<Rightarrow> bool"
  env_code :: string
  env_now :: int

datatype auth_req =
    AuthRegister userRegister
  | AuthLogin string string
  | AuthLogout token
  | AuthResetGenerate string
  | AuthResetUse string string

datatype admin_req =
    PermSiteAllocate token uid int
  | PermSocietyAllocate token uid sid int
  | AdminUserGet string
  | AdminApplicationApprove token aid
  | AdminApplicationDeny token aid
  | AdminUsers token
  | AdminApplicationList token
  | AdminUserRemove token uid

datatype society_req =
    SocietyApply token string string
  | SocietyJoin token sid
  | SocietyView sid
  | SocietyMembers sid
  | SocietyEdit token sid string string
  | SocietyEvents sid
  | SocietyDelete token sid
  | SocietyList "string option" "int option" "int option"

datatype profile_req =
    ProfileView token
  | ProfileEdit token string string string
  | ProfileSocieties token
  | ProfileEvents token

datatype event_req =
    GetEvent eid
  | CreateEvent token sid string string int string
  | EditEvent token eid string string int string
  | DeleteEvent token eid
  | AttendEvent token eid
  | UnattendEvent token eid
  | EventStatus token eid
  | GetEvents "string option" "int option" "int option" "int option" "int option"
  | FillForm eid string string string string
  | GenerateCSV token eid

datatype request =
    Clear
  | Auth auth_req
  | Admin admin_req
  | Soc society_req
  | Prof profile_req
  | Ev event_req

text \<open>The JSON bodies of the responses.\<close>

datatype response =
    RNone
  | RToken token
  | RId nat
  | RBool bool
  | RUser userView
  | RUsers "userView list"
  | RApplications "(aid \<times> application) list"
  | RSociety "sid \<times> society"
  | RMembers "socMember list"
  | RSocieties "(sid \<times> society) list"
  | REvent "eid \<times> event"
  | REvents "(eid \<times> event) list"
  | RProfile userProfile
  | RProfileEvents "(eid \<times> event) list" "(eid \<times> event) list"
  | RCsv string

text \<open>\<open>res.json(await handler(...))\<close> for a handler that writes and for one that reads.\<close>

definition wr :: "('a \<Rightarrow> response) \<Rightarrow> ('a, db) outcome \<Rightarrow> (response, db) outcome" where
  "wr f r = (case r of Inl e \<Rightarrow> Inl e | Inr (a, s') \<Rightarrow> Inr (f a, s'))"

definition rd :: "('a \<Rightarrow> response) \<Rightarrow> http_error + 'a \<Rightarrow> db \<Rightarrow> (response, db) outcome" where
  "rd f r s = (case r of Inl e \<Rightarrow> Inl e | Inr a \<Rightarrow> Inr (f a, s))"

primrec handle_auth :: "env \<Rightarrow> auth_req \<Rightarrow> db \<Rightarrow> (response, db) outcome" where
  "handle_auth env (AuthRegister r) s = wr RToken (authRegister (env_isEmail env) r s)"
| "handle_auth env (AuthLogin e p) s = wr RToken (authLogin e p s)"
| "handle_auth env (AuthLogout t) s = wr (\<lambda>_. RNone) (authLogout t s)"
| "handle_auth env (AuthResetGenerate e) s =
     wr (\<lambda>_. RNone) (authResetGenerate (env_isEmail env) e (env_code env) s)"
| "handle_auth env (AuthResetUse c p) s = wr (\<lambda>_. RNone) (authResetUse c p s)"

primrec handle_admin :: "admin_req \<Rightarrow> db \<Rightarrow> (response, db) outcome" where
  "handle_admin (PermSiteAllocate t u l) s = wr (\<lambda>_. RNone) (permSiteAllocate t u l s)"
| "handle_admin (PermSocietyAllocate t u c l) s = wr (\<lambda>_. RNone) (permSocietyAllocate t u c l s)"
| "handle_admin (AdminUserGet z) s = rd RUser (adminGetUserByZid z s) s"
| "handle_admin (AdminApplicationApprove t a) s = wr RId (adminApplicationApprove t a s)"
| "handle_admin (AdminApplicationDeny t a) s = wr (\<lambda>_. RNone) (adminApplicationDeny t a s)"
| "handle_admin (AdminUsers t) s = rd RUsers (adminGetUsers t s) s"
| "handle_admin (AdminApplicationList t) s = rd RApplications (adminApplicationList t s) s"
| "handle_admin (AdminUserRemove t u) s = wr (\<lambda>_. RNone) (adminUserRemove t u s)"

primrec handle_society :: "env \<Rightarrow> society_req \<Rightarrow> db \<Rightarrow> (response, db) outcome" where
  "handle_society env (SocietyApply t n d) s = wr RId (societyApply t n d s)"
| "handle_society env (SocietyJoin t c) s = wr (\<lambda>_. RNone) (societyJoin t c s)"
| "handle_society env (SocietyView c) s = rd RSociety (societyView c s) s"
| "handle_society env (SocietyMembers c) s = Inr (RMembers (societyMembers c s), s)"
| "handle_society env (SocietyEdit t c n d) s = wr (\<lambda>_. RNone) (societyEdit t c n d s)"
| "handle_society env (SocietyEvents c) s = rd REvents (societyEvents c (env_now env) s) s"
| "handle_society env (SocietyDelete t c) s = wr (\<lambda>_. RNone) (societyDelete t c s)"
| "handle_society env (SocietyList q a b) s = Inr (RSocieties (societyList q a b s), s)"

primrec handle_profile :: "profile_req \<Rightarrow> db \<Rightarrow> (response, db) outcome" where
  "handle_profile (ProfileView t) s = rd RProfile (profileView t s) s"
| "handle_profile (ProfileEdit t fn ln e) s = wr RProfile (profileEdit t fn ln e s)"
| "handle_profile (ProfileSocieties t) s = rd RSocieties (profileSocieties t s) s"
| "handle_profile (ProfileEvents t) s = rd (\<lambda>(a, b). RProfileEvents a b) (profileEvents t s) s"

primrec handle_event :: "env \<Rightarrow> event_req \<Rightarrow> db \<Rightarrow> (response, db) outcome" where
  "handle_event env (GetEvent e) s = rd REvent (getEvent e s) s"
| "handle_event env (CreateEvent t c n d tm l) s = wr RId (createEvent t c n d tm l s)"
| "handle_event env (EditEvent t e n d tm l) s = wr (\<lambda>_. RNone) (editEvent t e n d tm l s)"
| "handle_event env (DeleteEvent t e) s = wr (\<lambda>_. RNone) (deleteEvent t e s)"
| "handle_event env (AttendEvent t e) s = wr (\<lambda>_. RNone) (attendEvent t e s)"
| "handle_event env (UnattendEvent t e) s = wr (\<lambda>_. RNone) (unattendEvent t e s)"
| "handle_event env (EventStatus t e) s = rd RBool (eventStatus t e s) s"
| "handle_event env (GetEvents q a b p1 p2) s = Inr (REvents (getEvents q a b p1 p2 s), s)"
| "handle_event env (FillForm e fn ln z em) s = wr (\<lambda>_. RNone) (fillForm (env_isEmail env) e fn ln z em s)"
| "handle_event env (GenerateCSV t e) s = rd RCsv (generateCSV t e s) s"

primrec handle :: "env \<Rightarrow> request \<Rightarrow> db \<Rightarrow> (response, db) outcome" where
  "handle env Clear s = Inr (RNone, clear s)"
| "handle env (Auth r) s = handle_auth env r s"
| "handle env (Admin r) s = handle_admin r s"
| "handle env (Soc r) s = handle_society env r s"
| "handle env (Prof r) s = handle_profile r s"
| "handle env (Ev r) s = handle_event env r s"

text \<open>The session token a request presents, if its route takes one.\<close>

primrec request_token :: "request \<Rightarrow> token option" where
  "request_token Clear = None"
| "request_token (Auth r) = (case r of AuthLogout t \<Rightarrow> Some t | _ \<Rightarrow> None)"
| "request_token (Admin r) = (case r of
      PermSiteAllocate t _ _ \<Rightarrow> Some t | PermSocietyAllocate t _ _ _ \<Rightarrow> Some t
    | AdminUserGet _ \<Rightarrow> None | AdminApplicationApprove t _ \<Rightarrow> Some t
    | AdminApplicationDeny t _ \<Rightarrow> Some t | AdminUsers t \<Rightarrow> Some t
    | AdminApplicationList t \<Rightarrow> Some t | AdminUserRemove t _ \<Rightarrow> Some t)"
| "request_token (Soc r) = (case r of
      SocietyApply t _ _ \<Rightarrow> Some t | SocietyJoin t _ \<Rightarrow> Some t | SocietyEdit t _ _ _ \<Rightarrow> Some t
    | SocietyDelete t _ \<Rightarrow> Some t | _ \<Rightarrow> None)"
| "request_token (Prof r) = (case r of
      ProfileView t \<Rightarrow> Some t | ProfileEdit t _ _ _ \<Rightarrow> Some t
    | ProfileSocieties t \<Rightarrow> Some t | ProfileEvents t \<Rightarrow> Some t)"
| "request_token (Ev r) = (case r of
      CreateEvent t _ _ _ _ _ \<Rightarrow> Some t | EditEvent t _ _ _ _ _ \<Rightarrow> Some t
    | DeleteEvent t _ \<Rightarrow> Some t | AttendEvent t _ \<Rightarrow> Some t | UnattendEvent t _ \<Rightarrow> Some t
    | EventStatus t _ \<Rightarrow> Some t | GenerateCSV t _ \<Rightarrow> Some t | _ \<Rightarrow> None)"

inductive reachable :: "db \<Rightarrow> bool" where
  init: "reachable empty_db"
| step: "reachable s \<Longrightarrow> handle env req s = Inr (r, s') \<Longrightarrow> reachable s'"

text \<open>The inputs of the witnesses: an address is valid when it has an \<open>@\<close>.\<close>

definition env0 :: env where
  "env0 = \<lparr>env_isEmail = has_at, env_code = ''ABC123'', env_now = 0\<rparr>"

subsection \<open>Responses and the invariant\<close>

lemma wr_Inr [simp]: "wr f r = Inr (x, s') \<longleftrightarrow> (\<exists>a. r = Inr (a, s') \<and> x = f a)"
  by (auto simp: wr_def split: sum.splits)

lemma rd_Inr [simp]: "rd f r s = Inr (x, s') \<longleftrightarrow> (\<exists>a. r = Inr a \<and> x = f a \<and> s' = s)"
  by (auto simp: rd_def split: sum.splits)

lemma wr_Inl [simp]: "wr f r = Inl e \<longleftrightarrow> r = Inl e"
  by (auto simp: wr_def split: sum.splits)

lemma rd_Inl [simp]: "rd f r s = Inl e \<longleftrightarrow> r = Inl e"
  by (auto simp: rd_def split: sum.splits)

lemma handle_auth_db_inv:
  "db_inv s \<Longrightarrow> handle_auth env r s = Inr (x, s') \<Longrightarrow> db_inv s'"
  by (cases r) (auto intro: authRegister_db_inv authLogin_db_inv authLogout_db_inv
      authResetGenerate_db_inv authResetUse_db_inv)

lemma handle_admin_db_inv:
  "db_inv s \<Longrightarrow> handle_admin r s = Inr (x, s') \<Longrightarrow> db_inv s'"
  by (cases r) (auto intro: permSiteAllocate_db_inv permSocietyAllocate_db_inv adminApplicationApprove_db_inv
      adminApplicationDeny_db_inv adminUserRemove_db_inv)

lemma handle_society_db_inv:
  "db_inv s \<Longrightarrow> handle_society env r s = Inr (x, s') \<Longrightarrow> db_inv s'"
  by (cases r) (auto intro: societyApply_db_inv societyJoin_db_inv societyEdit_db_inv societyDelete_db_inv)

lemma handle_profile_db_inv:
  "db_inv s \<Longrightarrow> handle_profile r s = Inr (x, s') \<Longrightarrow> db_inv s'"
  by (cases r) (auto intro: profileEdit_db_inv)

lemma handle_event_db_inv:
  "db_inv s \<Longrightarrow> handle_event env r s = Inr (x, s') \<Longrightarrow> db_inv s'"
  by (cases r) (auto intro: createEvent_db_inv editEvent_db_inv deleteEvent_db_inv attendEvent_db_inv
      unattendEvent_db_inv fillForm_db_inv)

lemma handle_db_inv:
  "db_inv s \<Longrightarrow> handle env req s = Inr (x, s') \<Longrightarrow> db_inv s'"
  by (cases req) (auto simp: clear_db_inv intro: handle_auth_db_inv handle_admin_db_inv handle_society_db_inv
      handle_profile_db_inv handle_event_db_inv)

subsection \<open>Properties of the HTTP interface\<close>

text \<open>
  C32: every store a deployment reaches from the empty database by successful
  requests is well formed: the counters bound the keys, every reference resolves,
  every role and status is one the schema allows, and e-mail, zId and society name
  are unique.
\<close>

lemma reachable_db_inv: "reachable s \<Longrightarrow> db_inv s"
  by (induction rule: reachable.induct) (auto simp: db_inv_empty intro: handle_db_inv)

lemma reachable_db_inv_witness:
  "reachable (snd (projr (authRegister has_at bob empty_db)))
   \<and> db_inv (snd (projr (authRegister has_at bob empty_db)))"
proof -
  have "\<exists>s1. authRegister has_at bob empty_db = Inr (0, s1)"
    by (simp add: authRegister_def bob_def empty_db_def str_simps Let_def createSession_def
        user_by_zId_def user_by_email_def find_row_def)
  then obtain s1 where r: "authRegister has_at bob empty_db = Inr (0, s1)" by blast
  then have "handle env0 (Auth (AuthRegister bob)) empty_db = Inr (RToken 0, s1)"
    by (simp add: env0_def wr_def)
  then have re: "reachable s1" by (rule reachable.step [OF reachable.init])
  with reachable_db_inv [OF re] r show ?thesis by simp
qed



text \<open>
  C34: the route \<open>GET /admin/user/get\<close> takes no token: anyone who knows a zId
  obtains that user's id, e-mail address, names and site-admin flag.
\<close>

lemma adminUserGet_public:
  assumes "db_inv s" and "users s u = Some usr"
  shows "request_token (Admin (AdminUserGet (zId usr))) = None
       \<and> handle env (Admin (AdminUserGet (zId usr))) s = Inr (RUser (user_view u usr), s)"
  using user_by_zId_found [OF assms] assms(2) by (simp add: adminGetUserByZid_def rd_def)

lemma adminUserGet_public_witness:
  "handle env0 (Admin (AdminUserGet ''z0000002'')) demo_db
     = Inr (RUser (user_view 2 (demo_user ''c@unsw.edu'' ''z0000002'' False)), demo_db)"
proof -
  have u: "users demo_db 2 = Some (demo_user ''c@unsw.edu'' ''z0000002'' False)" by (simp add: demo_db_def)
  from adminUserGet_public [OF db_inv_demo u, of env0] show ?thesis by (simp add: demo_user_def)
qed



end
