(* ===== verification/Wire.thy ===== *)
theory Wire
  imports Api "HOL-Library.Monad_Syntax"
begin

text \<open>
  The wire between the frontend and the backend. \<open>apiFetch\<close> of
  \<open>src/frontend/src/api/utils/fetch.ts\<close> drops the \<open>null\<close>/\<open>undefined\<close>
  parameters of a call and sends them as a JSON body (\<open>POST\<close>, \<open>PUT\<close>) or as
  URL query parameters (\<open>GET\<close>, \<open>DELETE\<close>), where \<open>URLSearchParams\<close> turns
  every value into its string. The route table of \<open>src/backend/src/app.ts\<close>
  reads the parameters back: body values are taken as they are (\<open>as string\<close>,
  \<open>as number\<close> are casts), query values are strings and ids among them go through
  \<open>parseInt\<close>; event times go through \<open>new Date\<close>, an external parser
  \<open>pd\<close>. \<open>decode\<close> gives the \<open>request\<close> a message is routed to, or
  \<open>None\<close> when no route matches or a value does not have the type the handler
  expects (the handler would then fail inside Prisma). A session token travels as
  the opaque value \<open>JTok\<close>. The JavaScript number primitives \<open>String(n)\<close> and
  \<open>parseInt\<close> (with its hexadecimal prefix) are defined here from their
  specification.
\<close>

subsection \<open>JavaScript number primitives\<close>

definition digit_char :: "nat \<Rightarrow> char" where
  "digit_char d = char_of (48 + d)"

fun show_nat :: "nat \<Rightarrow> string" where
  "show_nat n = (if n < 10 then [digit_char n] else show_nat (n div 10) @ [digit_char (n mod 10)])"

declare show_nat.simps [simp del]

definition show_int :: "int \<Rightarrow> string" where
  "show_int i = (if i < 0 then CHR ''-'' # show_nat (nat (- i)) else show_nat (nat i))"

definition digit_val :: "char \<Rightarrow> nat" where
  "digit_val c = of_char c - 48"

definition nat_of_digits :: "string \<Rightarrow> nat" where
  "nat_of_digits ds = foldl (\<lambda>acc c. 10 * acc + digit_val c) 0 ds"

definition is_space :: "char \<Rightarrow> bool" where
  "is_space c \<longleftrightarrow> c = CHR '' '' \<or> c = CHR ''\<newline>'' \<or> of_char c = (9::nat) \<or> of_char c = (13::nat)"

definition hex_val :: "char \<Rightarrow> nat option" where
  "hex_val c = (if is_digit c then Some (digit_val c)
     else if CHR ''a'' \<le> c \<and> c \<le> CHR ''f'' then Some (of_char c - 87)
     else if CHR ''A'' \<le> c \<and> c \<le> CHR ''F'' then Some (of_char c - 55) else None)"

definition nat_of_hex :: "string \<Rightarrow> nat" where
  "nat_of_hex ds = foldl (\<lambda>acc c. 16 * acc + the (hex_val c)) 0 ds"

text \<open>An optional sign.\<close>

definition parse_sign :: "string \<Rightarrow> bool \<times> string" where
  "parse_sign s = (case s of c # r \<Rightarrow> if c = CHR ''-'' then (True, r) else if c = CHR ''+'' then (False, r) else (False, s)
                   | [] \<Rightarrow> (False, []))"

definition hex_prefix :: "string \<Rightarrow> bool" where
  "hex_prefix s \<longleftrightarrow> (case s of z # x # _ \<Rightarrow> z = CHR ''0'' \<and> (x = CHR ''x'' \<or> x = CHR ''X'') | _ \<Rightarrow> False)"

definition parse_magnitude :: "string \<Rightarrow> nat option" where
  "parse_magnitude s =
     (if hex_prefix s
      then (let hs = takeWhile (\<lambda>c. hex_val c \<noteq> None) (drop 2 s) in
            if hs = [] then None else Some (nat_of_hex hs))
      else (let ds = takeWhile is_digit s in if ds = [] then None else Some (nat_of_digits ds)))"

text \<open>\<open>parseInt(str)\<close> without a radix: leading white space, a sign, a \<open>0x\<close> prefix or decimal digits; \<open>NaN\<close> is \<open>None\<close>.\<close>

definition parseInt :: "string \<Rightarrow> int option" where
  "parseInt str =
     (let (neg, s) = parse_sign (dropWhile is_space str) in
      map_option (\<lambda>n. if neg then - int n else int n) (parse_magnitude s))"

subsection \<open>Messages\<close>

datatype http_verb = GET | POST | PUT | DELETE

datatype jval = JNull | JStr string | JNum int | JTok token | JList "string list"

datatype qval = QStr string | QTok token

record http_msg =
  msg_verb :: http_verb
  msg_route :: string
  msg_query :: "(string \<times> qval) list"
  msg_body :: "(string \<times> jval) list"

text \<open>\<open>removeNull\<close>: drop the entries whose value is \<open>null\<close> or \<open>undefined\<close>.\<close>

definition removeNull :: "(string \<times> jval) list \<Rightarrow> (string \<times> jval) list" where
  "removeNull ps = filter (\<lambda>(k, v). v \<noteq> JNull) ps"

text \<open>\<open>String(value)\<close> as \<open>URLSearchParams\<close> applies it.\<close>

fun to_query :: "jval \<Rightarrow> qval" where
  "to_query (JStr s) = QStr s"
| "to_query (JNum n) = QStr (show_int n)"
| "to_query (JTok t) = QTok t"
| "to_query (JList xs) = QStr (foldr (\<lambda>x acc. if acc = [] then x else x @ '','' @ acc) xs [])"
| "to_query JNull = QStr ''null''"

definition apiFetch :: "http_verb \<Rightarrow> string \<Rightarrow> (string \<times> jval) list \<Rightarrow> http_msg" where
  "apiFetch method route bodyParams =
     (let ps = removeNull bodyParams in
      if method \<in> {POST, PUT} then \<lparr>msg_verb = method, msg_route = route, msg_query = [], msg_body = ps\<rparr>
      else \<lparr>msg_verb = method, msg_route = route, msg_query = map (\<lambda>(k, v). (k, to_query v)) ps, msg_body = []\<rparr>)"

subsection \<open>Reading a request's parameters\<close>

definition b_str :: "http_msg \<Rightarrow> string \<Rightarrow> string option" where
  "b_str m k = (case map_of (msg_body m) k of Some (JStr s) \<Rightarrow> Some s | _ \<Rightarrow> None)"

definition b_num :: "http_msg \<Rightarrow> string \<Rightarrow> int option" where
  "b_num m k = (case map_of (msg_body m) k of Some (JNum n) \<Rightarrow> Some n | _ \<Rightarrow> None)"

definition b_id :: "http_msg \<Rightarrow> string \<Rightarrow> nat option" where
  "b_id m k = (case b_num m k of Some n \<Rightarrow> if 0 \<le> n then Some (nat n) else None | None \<Rightarrow> None)"

definition b_tok :: "http_msg \<Rightarrow> string \<Rightarrow> token option" where
  "b_tok m k = (case map_of (msg_body m) k of Some (JTok t) \<Rightarrow> Some t | _ \<Rightarrow> None)"

definition q_str :: "http_msg \<Rightarrow> string \<Rightarrow> string option" where
  "q_str m k = (case map_of (msg_query m) k of Some (QStr s) \<Rightarrow> Some s | _ \<Rightarrow> None)"

definition q_tok :: "http_msg \<Rightarrow> string \<Rightarrow> token option" where
  "q_tok m k = (case map_of (msg_query m) k of Some (QTok t) \<Rightarrow> Some t | _ \<Rightarrow> None)"

text \<open>\<open>parseInt(req.query.k as string)\<close>; a missing parameter is \<open>parseInt(undefined)\<close>, \<open>NaN\<close>.\<close>

definition q_int :: "http_msg \<Rightarrow> string \<Rightarrow> int option" where
  "q_int m k = (case map_of (msg_query m) k of Some (QStr s) \<Rightarrow> parseInt s | _ \<Rightarrow> None)"

definition q_id :: "http_msg \<Rightarrow> string \<Rightarrow> nat option" where
  "q_id m k = (case q_int m k of Some n \<Rightarrow> if 0 \<le> n then Some (nat n) else None | None \<Rightarrow> None)"

text \<open>\<open>if (timeStart) new Date(timeStart)\<close>: an absent or empty string sets no bound.\<close>

definition q_date :: "(string \<Rightarrow> int option) \<Rightarrow> http_msg \<Rightarrow> string \<Rightarrow> int option option" where
  "q_date pd m k = (case q_str m k of None \<Rightarrow> Some None | Some [] \<Rightarrow> Some None
                    | Some s \<Rightarrow> map_option Some (pd s))"

subsection \<open>The route table\<close>

definition decode_auth :: "http_msg \<Rightarrow> request option" where
  "decode_auth m = (let v = msg_verb m; r = msg_route m in
     if v = POST \<and> r = ''/auth/register'' then
       do { e \<leftarrow> b_str m ''email''; fn \<leftarrow> b_str m ''nameFirst''; ln \<leftarrow> b_str m ''nameLast'';
            p \<leftarrow> b_str m ''password''; z \<leftarrow> b_str m ''zId'';
            Some (Auth (AuthRegister \<lparr>reg_email = e, reg_nameFirst = fn, reg_nameLast = ln,
                                       reg_password = p, reg_zId = z\<rparr>)) }
     else if v = POST \<and> r = ''/auth/login'' then
       do { e \<leftarrow> b_str m ''email''; p \<leftarrow> b_str m ''password''; Some (Auth (AuthLogin e p)) }
     else if v = PUT \<and> r = ''/auth/logout'' then
       do { t \<leftarrow> b_tok m ''token''; Some (Auth (AuthLogout t)) }
     else if v = GET \<and> r = ''/auth/reset'' then
       do { e \<leftarrow> q_str m ''email''; Some (Auth (AuthResetGenerate e)) }
     else if v = POST \<and> r = ''/auth/reset'' then
       do { c \<leftarrow> b_str m ''code''; p \<leftarrow> b_str m ''password''; Some (Auth (AuthResetUse c p)) }
     else None)"

definition decode_admin :: "http_msg \<Rightarrow> request option" where
  "decode_admin m = (let v = msg_verb m; r = msg_route m in
     if v = POST \<and> r = ''/perm/site/allocate'' then
       do { t \<leftarrow> b_tok m ''token''; u \<leftarrow> b_id m ''userId''; l \<leftarrow> b_num m ''permLevel'';
            Some (Admin (PermSiteAllocate t u l)) }
     else if v = POST \<and> r = ''/perm/society/allocate'' then
       do { t \<leftarrow> b_tok m ''token''; u \<leftarrow> b_id m ''userId''; c \<leftarrow> b_id m ''societyId'';
            l \<leftarrow> b_num m ''permLevel''; Some (Admin (PermSocietyAllocate t u c l)) }
     else if v = GET \<and> r = ''/admin/user/get'' then
       do { z \<leftarrow> q_str m ''zId''; Some (Admin (AdminUserGet z)) }
     else if v = PUT \<and> r = ''/admin/application/approve'' then
       do { t \<leftarrow> b_tok m ''token''; a \<leftarrow> b_id m ''applicationId''; Some (Admin (AdminApplicationApprove t a)) }
     else if v = PUT \<and> r = ''/admin/application/deny'' then
       do { t \<leftarrow> b_tok m ''token''; a \<leftarrow> b_id m ''applicationId''; Some (Admin (AdminApplicationDeny t a)) }
     else if v = GET \<and> r = ''/admin/users'' then
       do { t \<leftarrow> q_tok m ''token''; Some (Admin (AdminUsers t)) }
     else if v = GET \<and> r = ''/admin/application/list'' then
       do { t \<leftarrow> q_tok m ''token''; Some (Admin (AdminApplicationList t)) }
     else if v = DELETE \<and> r = ''/admin/user/remove'' then
       do { t \<leftarrow> q_tok m ''token''; u \<leftarrow> q_id m ''userId''; Some (Admin (AdminUserRemove t u)) }
     else None)"

definition decode_society :: "http_msg \<Rightarrow> request option" where
  "decode_society m = (let v = msg_verb m; r = msg_route m in
     if v = POST \<and> r = ''/society/apply'' then
       do { t \<leftarrow> b_tok m ''token''; n \<leftarrow> b_str m ''societyName''; d \<leftarrow> b_str m ''description'';
            Some (Soc (SocietyApply t n d)) }
     else if v = POST \<and> r = ''/society/join'' then
       do { t \<leftarrow> b_tok m ''token''; c \<leftarrow> b_id m ''societyId''; Some (Soc (SocietyJoin t c)) }
     else if v = GET \<and> r = ''/society/view'' then
       do { c \<leftarrow> q_id m ''societyId''; Some (Soc (SocietyView c)) }
     else if v = GET \<and> r = ''/society/members'' then
       do { c \<leftarrow> q_id m ''societyId''; Some (Soc (SocietyMembers c)) }
     else if v = PUT \<and> r = ''/society/edit'' then
       do { t \<leftarrow> b_tok m ''token''; c \<leftarrow> b_id m ''societyId''; n \<leftarrow> b_str m ''societyName'';
            d \<leftarrow> b_str m ''description''; Some (Soc (SocietyEdit t c n d)) }
     else if v = GET \<and> r = ''/society/events'' then
       do { c \<leftarrow> q_id m ''societyId''; Some (Soc (SocietyEvents c)) }
     else if v = DELETE \<and> r = ''/society'' then
       do { t \<leftarrow> q_tok m ''token''; c \<leftarrow> q_id m ''societyId''; Some (Soc (SocietyDelete t c)) }
     else if v = GET \<and> r = ''/society/list'' then
       Some (Soc (SocietyList (q_str m ''searchString'') (q_int m ''paginationStart'') (q_int m ''paginationEnd'')))
     else None)"

definition decode_profile :: "http_msg \<Rightarrow> request option" where
  "decode_profile m = (let v = msg_verb m; r = msg_route m in
     if v = GET \<and> r = ''/profile/view'' then
       do { t \<leftarrow> q_tok m ''token''; Some (Prof (ProfileView t)) }
     else if v = PUT \<and> r = ''/profile/edit'' then
       do { t \<leftarrow> b_tok m ''token''; fn \<leftarrow> b_str m ''nameFirst''; ln \<leftarrow> b_str m ''nameLast'';
            e \<leftarrow> b_str m ''email''; Some (Prof (ProfileEdit t fn ln e)) }
     else if v = GET \<and> r = ''/profile/societies'' then
       do { t \<leftarrow> q_tok m ''token''; Some (Prof (ProfileSocieties t)) }
     else if v = GET \<and> r = ''/profile/events'' then
       do { t \<leftarrow> q_tok m ''token''; Some (Prof (ProfileEvents t)) }
     else None)"

definition decode_event :: "(string \<Rightarrow> int option) \<Rightarrow> http_msg \<Rightarrow> request option" where
  "decode_event pd m = (let v = msg_verb m; r = msg_route m in
     if v = GET \<and> r = ''/event'' then
       do { e \<leftarrow> q_id m ''eventId''; Some (Ev (GetEvent e)) }
     else if v = POST \<and> r = ''/event'' then
       do { t \<leftarrow> b_tok m ''token''; c \<leftarrow> b_id m ''societyId''; n \<leftarrow> b_str m ''name'';
            d \<leftarrow> b_str m ''description''; ts \<leftarrow> b_str m ''time''; tm \<leftarrow> pd ts; l \<leftarrow> b_str m ''location'';
            Some (Ev (CreateEvent t c n d tm l)) }
     else if v = PUT \<and> r = ''/event/edit'' then
       do { t \<leftarrow> b_tok m ''token''; e \<leftarrow> b_id m ''eventId''; n \<leftarrow> b_str m ''name'';
            d \<leftarrow> b_str m ''description''; ts \<leftarrow> b_str m ''time''; tm \<leftarrow> pd ts; l \<leftarrow> b_str m ''location'';
            Some (Ev (EditEvent t e n d tm l)) }
     else if v = DELETE \<and> r = ''/event'' then
       do { t \<leftarrow> q_tok m ''token''; e \<leftarrow> q_id m ''eventId''; Some (Ev (DeleteEvent t e)) }
     else if v = PUT \<and> r = ''/event/attend'' then
       do { t \<leftarrow> b_tok m ''token''; e \<leftarrow> b_id m ''eventId''; Some (Ev (AttendEvent t e)) }
     else if v = DELETE \<and> r = ''/event/attend'' then
       do { t \<leftarrow> q_tok m ''token''; e \<leftarrow> q_id m ''eventId''; Some (Ev (UnattendEvent t e)) }
     else if v = GET \<and> r = ''/event/status'' then
       do { t \<leftarrow> q_tok m ''token''; e \<leftarrow> q_id m ''eventId''; Some (Ev (EventStatus t e)) }
     else if v = GET \<and> r = ''/event/list'' then
       do { a \<leftarrow> q_date pd m ''timeStart''; b \<leftarrow> q_date pd m ''timeEnd'';
            Some (Ev (GetEvents (q_str m ''searchString'') a b (q_int m ''paginationStart'') (q_int m ''paginationEnd''))) }
     else if v = POST \<and> r = ''/event/form'' then
       do { e \<leftarrow> b_id m ''eventId''; fn \<leftarrow> b_str m ''nameFirst''; ln \<leftarrow> b_str m ''nameLast'';
            z \<leftarrow> b_str m ''zId''; em \<leftarrow> b_str m ''email''; Some (Ev (FillForm e fn ln z em)) }
     else if v = POST \<and> r = ''/event/generateCSV'' then
       do { t \<leftarrow> b_tok m ''token''; e \<leftarrow> b_id m ''eventId''; Some (Ev (GenerateCSV t e)) }
     else None)"

text \<open>Express tries the routes in order; at most one matches a verb and a path.\<close>

definition decode :: "(string \<Rightarrow> int option) \<Rightarrow> http_msg \<Rightarrow> request option" where
  "decode pd m =
     (if msg_verb m = DELETE \<and> msg_route m = ''/clear'' then Some Clear
      else case decode_auth m of Some r \<Rightarrow> Some r | None \<Rightarrow>
           case decode_admin m of Some r \<Rightarrow> Some r | None \<Rightarrow>
           case decode_society m of Some r \<Rightarrow> Some r | None \<Rightarrow>
           case decode_profile m of Some r \<Rightarrow> Some r | None \<Rightarrow> decode_event pd m)"

subsection \<open>Replies\<close>

text \<open>
  The error-handling middleware (\<open>./middleware/errorHandler\<close>, not in the
  repository) answers an error of \<open>http-errors\<close> with its status and the body
  \<open>{error: message}\<close>, and a handler's result with status 200.
\<close>

fun error_message :: "http_error \<Rightarrow> string" where
  "error_message (Unauthorized m) = m"
| "error_message (BadRequest m) = m"
| "error_message (Forbidden m) = m"
| "error_message (InternalError m) = m"

definition server_reply :: "(response, db) outcome \<Rightarrow> nat \<times> (string + response)" where
  "server_reply out = (case out of Inl e \<Rightarrow> (status_code e, Inl (error_message e)) | Inr (r, _) \<Rightarrow> (200, Inr r))"

text \<open>\<open>class ApiError\<close> of \<open>api/utils/apiTypes.ts\<close>: a status (\<open>null\<close> for a network error) and a message.\<close>

datatype api_error = ApiError "nat option" string

definition apiError_message :: "api_error \<Rightarrow> string" where
  "apiError_message err = (case err of ApiError code e \<Rightarrow>
     ''ApiError: ['' @ (case code of None \<Rightarrow> ''null'' | Some c \<Rightarrow> show_nat c) @ ''] '' @ e)"

text \<open>The second half of \<open>apiFetch\<close>: the status decides between an \<open>ApiError\<close> and the data.\<close>

definition apiFetch_response :: "nat \<times> (string + response) \<Rightarrow> api_error + response" where
  "apiFetch_response reply =
     (let (status, json) = reply in
      if status \<in> {400, 401, 403}
      then Inl (ApiError (Some status) (case json of Inl e \<Rightarrow> e | Inr _ \<Rightarrow> []))
      else if status \<notin> {200, 304}
      then Inl (ApiError (Some status) (''Request got status code '' @ show_nat status))
      else (case json of Inr r \<Rightarrow> Inr r | Inl e \<Rightarrow> Inl (ApiError (Some status) e)))"

text \<open>
  One round trip: the message is routed, handled against the store, and the reply
  decoded by the client; \<open>None\<close> when the message is not routed to a modelled request.
  A failed request leaves the store as it was.
\<close>

definition api_call :: "env \<Rightarrow> (string \<Rightarrow> int option) \<Rightarrow> http_msg \<Rightarrow> db \<Rightarrow> ((api_error + response) \<times> db) option" where
  "api_call env pd m s =
     (case decode pd m of
        None \<Rightarrow> None
      | Some req \<Rightarrow> (let out = handle env req s in
          Some (apiFetch_response (server_reply out), case out of Inl _ \<Rightarrow> s | Inr (_, s') \<Rightarrow> s')))"

text \<open>A date parser for the examples: a date string is read as its number of milliseconds.\<close>

definition demo_date :: "string \<Rightarrow> int option" where
  "demo_date str = parseInt str"

subsection \<open>\<open>String(n)\<close> read back by \<open>parseInt\<close>\<close>

lemma digit_char_is_digit [simp]: "d < 10 \<Longrightarrow> is_digit (digit_char d)"
  by (simp add: digit_char_def is_digit_def less_eq_char_def)

lemma digit_val_char [simp]: "d < 10 \<Longrightarrow> digit_val (digit_char d) = d"
  by (simp add: digit_char_def digit_val_def)

lemma show_nat_digits: "\<forall>c \<in> set (show_nat n). is_digit c"
  by (induction n rule: show_nat.induct) (subst show_nat.simps, auto)

lemma show_nat_ne [simp]: "show_nat n \<noteq> []"
  by (subst show_nat.simps) simp

lemma nat_of_digits_snoc: "nat_of_digits (ds @ [c]) = 10 * nat_of_digits ds + digit_val c"
  by (simp add: nat_of_digits_def)

lemma nat_of_show_nat [simp]: "nat_of_digits (show_nat n) = n"
proof (induction n rule: show_nat.induct)
  case (1 n)
  show ?case
  proof (cases "n < 10")
    case True
    then show ?thesis by (subst show_nat.simps) (simp add: nat_of_digits_def)
  next
    case False
    then have "nat_of_digits (show_nat n) = 10 * (n div 10) + n mod 10"
      using 1 by (subst show_nat.simps) (simp add: nat_of_digits_snoc)
    then show ?thesis by simp
  qed
qed

lemma show_nat_hd_digit: "\<exists>c r. show_nat n = c # r \<and> is_digit c"
  using show_nat_digits [of n] by (cases "show_nat n") auto

lemma takeWhile_all: "\<forall>c \<in> set xs. P c \<Longrightarrow> takeWhile P xs = xs"
  by (induction xs) auto

lemma not_space_digit: "is_digit c \<Longrightarrow> \<not> is_space c"
  by (auto simp: is_digit_def is_space_def less_eq_char_def)

lemma digits_not_hex_prefix: "\<forall>c \<in> set ds. is_digit c \<Longrightarrow> \<not> hex_prefix ds"
  by (auto simp: hex_prefix_def is_digit_def less_eq_char_def split: list.splits)

lemma parse_magnitude_digits:
  "ds \<noteq> [] \<Longrightarrow> \<forall>c \<in> set ds. is_digit c \<Longrightarrow> parse_magnitude ds = Some (nat_of_digits ds)"
  by (simp add: parse_magnitude_def digits_not_hex_prefix takeWhile_all)

lemma parseInt_digits:
  assumes "ds \<noteq> []" and "\<forall>c \<in> set ds. is_digit c"
  shows "parseInt ds = Some (int (nat_of_digits ds))"
    and "parseInt (CHR ''-'' # ds) = Some (- int (nat_of_digits ds))"
proof -
  obtain c r where ds: "ds = c # r" and c: "is_digit c" using assms by (cases ds) auto
  have ns: "\<not> is_space c" using c by (rule not_space_digit)
  have cm: "c \<noteq> CHR ''-''" "c \<noteq> CHR ''+''" using c by (auto simp: is_digit_def less_eq_char_def)
  have "dropWhile is_space ds = ds" using ns by (simp add: ds)
  moreover have "parse_sign ds = (False, ds)" using cm by (simp add: parse_sign_def ds)
  ultimately show "parseInt ds = Some (int (nat_of_digits ds))"
    using parse_magnitude_digits [OF assms] by (simp add: parseInt_def)
  show "parseInt (CHR ''-'' # ds) = Some (- int (nat_of_digits ds))"
    using parse_magnitude_digits [OF assms] by (simp add: parseInt_def parse_sign_def is_space_def)
qed

lemma parseInt_show_int [simp]: "parseInt (show_int i) = Some i"
  using parseInt_digits [OF show_nat_ne show_nat_digits] by (simp add: show_int_def)

lemma bind_Some_map [simp]: "Option.bind x (\<lambda>y. Some (f y)) = map_option f x"
  by (cases x) auto

lemmas wire_simps = apiFetch_def removeNull_def b_str_def b_num_def b_id_def b_tok_def q_str_def q_tok_def
  q_int_def q_id_def q_date_def

lemmas decode_defs = decode_def decode_auth_def decode_admin_def decode_society_def decode_profile_def
  decode_event_def

lemma api_call_Inr:
  "decode pd m = Some req \<Longrightarrow> handle env req s = Inr (r, s') \<Longrightarrow> api_call env pd m s = Some (Inr r, s')"
  by (simp add: api_call_def server_reply_def apiFetch_response_def)

lemma api_call_Inl:
  "decode pd m = Some req \<Longrightarrow> handle env req s = Inl e \<Longrightarrow>
   api_call env pd m s = Some (apiFetch_response (status_code e, Inl (error_message e)), s)"
  by (simp add: api_call_def server_reply_def)

lemma apiFetch_response_4xx:
  "status_code e \<in> {400, 401, 403} \<Longrightarrow>
   apiFetch_response (status_code e, Inl m) = Inl (ApiError (Some (status_code e)) m)"
  by (simp add: apiFetch_response_def)

end
