(* ===== verification/Client.thy ===== *)
theory Client
  imports Wire
begin

text \<open>
  The API client of the frontend, \<open>src/frontend/src/api\<close>: one definition per
  exported function, giving the message \<open>apiFetch\<close> sends. Numbers are JSON
  numbers, optional arguments left out are \<open>undefined\<close> (\<open>JNull\<close>), and the
  session token is the opaque \<open>JTok\<close>. \<open>client_call\<close> lists the functions as a
  datatype, \<open>client_msg\<close> sends a call and \<open>intended\<close> is the backend request
  the call stands for, the contract the client and the route table must agree on.
\<close>

subsection \<open>\<open>api/auth.ts\<close>\<close>

definition auth_register :: "string \<Rightarrow> string \<Rightarrow> string \<Rightarrow> string \<Rightarrow> string \<Rightarrow> http_msg" where
  "auth_register em pw fn ln z =
     apiFetch POST (''/auth'' @ ''/register'')
       [(''email'', JStr em), (''password'', JStr pw), (''nameFirst'', JStr fn),
        (''nameLast'', JStr ln), (''zId'', JStr z)]"

definition auth_login :: "string \<Rightarrow> string \<Rightarrow> http_msg" where
  "auth_login em pw =
     apiFetch POST (''/auth'' @ ''/login'') [(''email'', JStr em), (''password'', JStr pw)]"

definition auth_logout :: "token \<Rightarrow> http_msg" where
  "auth_logout token = apiFetch PUT (''/auth'' @ ''/logout'') [(''token'', JTok token)]"

definition auth_getCode :: "string \<Rightarrow> http_msg" where
  "auth_getCode em = apiFetch GET (''/auth'' @ ''/reset'') [(''email'', JStr em)]"

definition auth_postCode :: "string \<Rightarrow> string \<Rightarrow> http_msg" where
  "auth_postCode code pw =
     apiFetch POST (''/auth'' @ ''/reset'') [(''code'', JStr code), (''password'', JStr pw)]"

subsection \<open>\<open>api/admin\<close>, \<open>api/perm\<close> and \<open>api/clear.ts\<close>\<close>

definition application_list :: "token \<Rightarrow> http_msg" where
  "application_list token = apiFetch GET (''/admin/application'' @ ''/list'') [(''token'', JTok token)]"

definition application_approve :: "token \<Rightarrow> aid \<Rightarrow> http_msg" where
  "application_approve token applicationId =
     apiFetch PUT (''/admin/application'' @ ''/approve'')
       [(''token'', JTok token), (''applicationId'', JNum (int applicationId))]"

definition application_deny :: "token \<Rightarrow> aid \<Rightarrow> http_msg" where
  "application_deny token applicationId =
     apiFetch PUT (''/admin/application'' @ ''/deny'')
       [(''token'', JTok token), (''applicationId'', JNum (int applicationId))]"

definition user_remove :: "token \<Rightarrow> uid \<Rightarrow> http_msg" where
  "user_remove token userId =
     apiFetch DELETE (''/admin/user'' @ ''/remove'') [(''token'', JTok token), (''userId'', JNum (int userId))]"

definition admin_users :: "token \<Rightarrow> http_msg" where
  "admin_users token = apiFetch GET ''/admin/users'' [(''token'', JTok token)]"

definition site_allocate :: "token \<Rightarrow> uid \<Rightarrow> int \<Rightarrow> http_msg" where
  "site_allocate token userId permLevel =
     apiFetch POST (''/perm/site'' @ ''/allocate'')
       [(''token'', JTok token), (''userId'', JNum (int userId)), (''permLevel'', JNum permLevel)]"

definition society_allocate :: "token \<Rightarrow> uid \<Rightarrow> sid \<Rightarrow> int \<Rightarrow> http_msg" where
  "society_allocate token userId societyId permLevel =
     apiFetch POST (''/perm/society'' @ ''/allocate'')
       [(''token'', JTok token), (''userId'', JNum (int userId)), (''societyId'', JNum (int societyId)),
        (''permLevel'', JNum permLevel)]"

definition api_clear :: http_msg where
  "api_clear = apiFetch DELETE ''/clear'' []"

subsection \<open>\<open>api/society.ts\<close>\<close>

definition society_apply :: "token \<Rightarrow> string \<Rightarrow> string \<Rightarrow> string list \<Rightarrow> http_msg" where
  "society_apply token societyName description tags =
     apiFetch POST (''/society'' @ ''/apply'')
       [(''token'', JTok token), (''societyName'', JStr societyName), (''description'', JStr description),
        (''tags'', JList tags)]"

definition society_edit :: "token \<Rightarrow> sid \<Rightarrow> string \<Rightarrow> string \<Rightarrow> http_msg" where
  "society_edit token societyId societyName description =
     apiFetch PUT (''/society'' @ ''/edit'')
       [(''token'', JTok token), (''societyId'', JNum (int societyId)), (''societyName'', JStr societyName),
        (''description'', JStr description)]"

definition society_view :: "sid \<Rightarrow> http_msg" where
  "society_view societyId = apiFetch GET (''/society'' @ ''/view'') [(''societyId'', JNum (int societyId))]"

definition opt_str :: "string option \<Rightarrow> jval" where
  "opt_str x = (case x of Some s \<Rightarrow> JStr s | None \<Rightarrow> JNull)"

definition opt_num :: "int option \<Rightarrow> jval" where
  "opt_num x = (case x of Some n \<Rightarrow> JNum n | None \<Rightarrow> JNull)"

definition society_list :: "string option \<Rightarrow> int option \<Rightarrow> int option \<Rightarrow> http_msg" where
  "society_list searchString paginationStart paginationEnd =
     apiFetch GET (''/society'' @ ''/list'')
       [(''searchString'', opt_str searchString), (''paginationStart'', opt_num paginationStart),
        (''paginationEnd'', opt_num paginationEnd)]"

definition society_join :: "token \<Rightarrow> sid \<Rightarrow> http_msg" where
  "society_join token societyId =
     apiFetch POST (''/society'' @ ''/join'') [(''token'', JTok token), (''societyId'', JNum (int societyId))]"

definition society_members :: "sid \<Rightarrow> http_msg" where
  "society_members societyId = apiFetch GET (''/society'' @ ''/members'') [(''societyId'', JNum (int societyId))]"

definition society_remove :: "token \<Rightarrow> sid \<Rightarrow> http_msg" where
  "society_remove token societyId =
     apiFetch DELETE ''/society'' [(''token'', JTok token), (''societyId'', JNum (int societyId))]"

definition society_events :: "sid \<Rightarrow> http_msg" where
  "society_events societyId = apiFetch GET (''/society'' @ ''/events'') [(''societyId'', JNum (int societyId))]"

subsection \<open>\<open>api/profile.ts\<close>\<close>

definition profile_view :: "token \<Rightarrow> http_msg" where
  "profile_view token = apiFetch GET (''/profile'' @ ''/view'') [(''token'', JTok token)]"

definition profile_edit :: "token \<Rightarrow> string \<Rightarrow> string \<Rightarrow> string \<Rightarrow> http_msg" where
  "profile_edit token em fn ln =
     apiFetch PUT (''/profile'' @ ''/edit'')
       [(''token'', JTok token), (''email'', JStr em), (''nameFirst'', JStr fn), (''nameLast'', JStr ln)]"

definition profile_events :: "token \<Rightarrow> http_msg" where
  "profile_events token = apiFetch GET (''/profile'' @ ''/events'') [(''token'', JTok token)]"

definition profile_societies :: "token \<Rightarrow> http_msg" where
  "profile_societies token = apiFetch GET (''/profile'' @ ''/societies'') [(''token'', JTok token)]"

subsection \<open>\<open>api/event.ts\<close>\<close>

definition event_create :: "token \<Rightarrow> sid \<Rightarrow> string \<Rightarrow> string \<Rightarrow> string \<Rightarrow> string \<Rightarrow> http_msg" where
  "event_create token societyId name description time location =
     apiFetch POST ''/event''
       [(''token'', JTok token), (''societyId'', JNum (int societyId)), (''name'', JStr name),
        (''description'', JStr description), (''time'', JStr time), (''location'', JStr location)]"

definition event_edit :: "token \<Rightarrow> eid \<Rightarrow> string \<Rightarrow> string \<Rightarrow> string \<Rightarrow> string \<Rightarrow> http_msg" where
  "event_edit token eventId name description time location =
     apiFetch PUT (''/event'' @ ''/edit'')
       [(''token'', JTok token), (''eventId'', JNum (int eventId)), (''name'', JStr name),
        (''description'', JStr description), (''time'', JStr time), (''location'', JStr location)]"

definition event_get :: "eid \<Rightarrow> http_msg" where
  "event_get eventId = apiFetch GET ''/event'' [(''eventId'', JNum (int eventId))]"

definition event_attend :: "token \<Rightarrow> eid \<Rightarrow> http_msg" where
  "event_attend token eventId =
     apiFetch PUT (''/event'' @ ''/attend'') [(''token'', JTok token), (''eventId'', JNum (int eventId))]"

definition event_unattend :: "token \<Rightarrow> eid \<Rightarrow> http_msg" where
  "event_unattend token eventId =
     apiFetch DELETE (''/event'' @ ''/attend'') [(''token'', JTok token), (''eventId'', JNum (int eventId))]"

definition event_status :: "token \<Rightarrow> eid \<Rightarrow> http_msg" where
  "event_status token eventId =
     apiFetch GET (''/event'' @ ''/status'') [(''token'', JTok token), (''eventId'', JNum (int eventId))]"

definition event_remove :: "token \<Rightarrow> eid \<Rightarrow> http_msg" where
  "event_remove token eventId =
     apiFetch DELETE ''/event'' [(''token'', JTok token), (''eventId'', JNum (int eventId))]"

definition event_form :: "eid \<Rightarrow> string \<Rightarrow> string \<Rightarrow> string \<Rightarrow> string \<Rightarrow> http_msg" where
  "event_form eventId fn ln z em =
     apiFetch POST (''/event'' @ ''/form'')
       [(''eventId'', JNum (int eventId)), (''nameFirst'', JStr fn), (''nameLast'', JStr ln),
        (''zId'', JStr z), (''email'', JStr em)]"

definition event_list :: "string option \<Rightarrow> string option \<Rightarrow> string option \<Rightarrow> int option \<Rightarrow> int option \<Rightarrow> http_msg" where
  "event_list searchString timeStart timeEnd paginationStart paginationEnd =
     apiFetch GET (''/event'' @ ''/list'')
       [(''searchString'', opt_str searchString), (''timeStart'', opt_str timeStart), (''timeEnd'', opt_str timeEnd),
        (''paginationStart'', opt_num paginationStart), (''paginationEnd'', opt_num paginationEnd)]"

definition event_generateCSV :: "token \<Rightarrow> eid \<Rightarrow> http_msg" where
  "event_generateCSV token eventId =
     apiFetch POST (''/event'' @ ''/generateCSV'') [(''token'', JTok token), (''eventId'', JNum (int eventId))]"

subsection \<open>The calls and what they stand for\<close>

datatype client_call =
    CRegister string string string string string
  | CLogin string string
  | CLogout token
  | CGetCode string
  | CPostCode string string
  | CApplicationList token
  | CApplicationApprove token aid
  | CApplicationDeny token aid
  | CUserRemove token uid
  | CUsers token
  | CSiteAllocate token uid int
  | CSocietyAllocate token uid sid int
  | CClear
  | CSocietyApply token string string "string list"
  | CSocietyEdit token sid string string
  | CSocietyView sid
  | CSocietyList "string option" "int option" "int option"
  | CSocietyJoin token sid
  | CSocietyMembers sid
  | CSocietyRemove token sid
  | CSocietyEvents sid
  | CProfileView token
  | CProfileEdit token string string string
  | CProfileEvents token
  | CProfileSocieties token
  | CEventCreate token sid string string string string
  | CEventEdit token eid string string string string
  | CEventGet eid
  | CEventAttend token eid
  | CEventUnattend token eid
  | CEventStatus token eid
  | CEventRemove token eid
  | CEventForm eid string string string string
  | CEventList "string option" "string option" "string option" "int option" "int option"
  | CEventGenerateCSV token eid

primrec client_msg :: "client_call \<Rightarrow> http_msg" where
  "client_msg (CRegister em pw fn ln z) = auth_register em pw fn ln z"
| "client_msg (CLogin em pw) = auth_login em pw"
| "client_msg (CLogout t) = auth_logout t"
| "client_msg (CGetCode em) = auth_getCode em"
| "client_msg (CPostCode c pw) = auth_postCode c pw"
| "client_msg (CApplicationList t) = application_list t"
| "client_msg (CApplicationApprove t a) = application_approve t a"
| "client_msg (CApplicationDeny t a) = application_deny t a"
| "client_msg (CUserRemove t u) = user_remove t u"
| "client_msg (CUsers t) = admin_users t"
| "client_msg (CSiteAllocate t u l) = site_allocate t u l"
| "client_msg (CSocietyAllocate t u c l) = society_allocate t u c l"
| "client_msg CClear = api_clear"
| "client_msg (CSocietyApply t n d tags) = society_apply t n d tags"
| "client_msg (CSocietyEdit t c n d) = society_edit t c n d"
| "client_msg (CSocietyView c) = society_view c"
| "client_msg (CSocietyList q a b) = society_list q a b"
| "client_msg (CSocietyJoin t c) = society_join t c"
| "client_msg (CSocietyMembers c) = society_members c"
| "client_msg (CSocietyRemove t c) = society_remove t c"
| "client_msg (CSocietyEvents c) = society_events c"
| "client_msg (CProfileView t) = profile_view t"
| "client_msg (CProfileEdit t em fn ln) = profile_edit t em fn ln"
| "client_msg (CProfileEvents t) = profile_events t"
| "client_msg (CProfileSocieties t) = profile_societies t"
| "client_msg (CEventCreate t c n d tm l) = event_create t c n d tm l"
| "client_msg (CEventEdit t e n d tm l) = event_edit t e n d tm l"
| "client_msg (CEventGet e) = event_get e"
| "client_msg (CEventAttend t e) = event_attend t e"
| "client_msg (CEventUnattend t e) = event_unattend t e"
| "client_msg (CEventStatus t e) = event_status t e"
| "client_msg (CEventRemove t e) = event_remove t e"
| "client_msg (CEventForm e fn ln z em) = event_form e fn ln z em"
| "client_msg (CEventList q a b p1 p2) = event_list q a b p1 p2"
| "client_msg (CEventGenerateCSV t e) = event_generateCSV t e"

definition time_bound :: "(string \<Rightarrow> int option) \<Rightarrow> string option \<Rightarrow> int option option" where
  "time_bound pd x = (case x of None \<Rightarrow> Some None | Some [] \<Rightarrow> Some None | Some s \<Rightarrow> map_option Some (pd s))"

primrec intended :: "(string \<Rightarrow> int option) \<Rightarrow> client_call \<Rightarrow> request option" where
  "intended pd (CRegister em pw fn ln z) =
     Some (Auth (AuthRegister \<lparr>reg_email = em, reg_nameFirst = fn, reg_nameLast = ln, reg_password = pw, reg_zId = z\<rparr>))"
| "intended pd (CLogin em pw) = Some (Auth (AuthLogin em pw))"
| "intended pd (CLogout t) = Some (Auth (AuthLogout t))"
| "intended pd (CGetCode em) = Some (Auth (AuthResetGenerate em))"
| "intended pd (CPostCode c pw) = Some (Auth (AuthResetUse c pw))"
| "intended pd (CApplicationList t) = Some (Admin (AdminApplicationList t))"
| "intended pd (CApplicationApprove t a) = Some (Admin (AdminApplicationApprove t a))"
| "intended pd (CApplicationDeny t a) = Some (Admin (AdminApplicationDeny t a))"
| "intended pd (CUserRemove t u) = Some (Admin (AdminUserRemove t u))"
| "intended pd (CUsers t) = Some (Admin (AdminUsers t))"
| "intended pd (CSiteAllocate t u l) = Some (Admin (PermSiteAllocate t u l))"
| "intended pd (CSocietyAllocate t u c l) = Some (Admin (PermSocietyAllocate t u c l))"
| "intended pd CClear = Some Clear"
| "intended pd (CSocietyApply t n d tags) = Some (Soc (SocietyApply t n d))"
| "intended pd (CSocietyEdit t c n d) = Some (Soc (SocietyEdit t c n d))"
| "intended pd (CSocietyView c) = Some (Soc (SocietyView c))"
| "intended pd (CSocietyList q a b) = Some (Soc (SocietyList q a b))"
| "intended pd (CSocietyJoin t c) = Some (Soc (SocietyJoin t c))"
| "intended pd (CSocietyMembers c) = Some (Soc (SocietyMembers c))"
| "intended pd (CSocietyRemove t c) = Some (Soc (SocietyDelete t c))"
| "intended pd (CSocietyEvents c) = Some (Soc (SocietyEvents c))"
| "intended pd (CProfileView t) = Some (Prof (ProfileView t))"
| "intended pd (CProfileEdit t em fn ln) = Some (Prof (ProfileEdit t fn ln em))"
| "intended pd (CProfileEvents t) = Some (Prof (ProfileEvents t))"
| "intended pd (CProfileSocieties t) = Some (Prof (ProfileSocieties t))"
| "intended pd (CEventCreate t c n d tm l) = map_option (\<lambda>x. Ev (CreateEvent t c n d x l)) (pd tm)"
| "intended pd (CEventEdit t e n d tm l) = map_option (\<lambda>x. Ev (EditEvent t e n d x l)) (pd tm)"
| "intended pd (CEventGet e) = Some (Ev (GetEvent e))"
| "intended pd (CEventAttend t e) = Some (Ev (AttendEvent t e))"
| "intended pd (CEventUnattend t e) = Some (Ev (UnattendEvent t e))"
| "intended pd (CEventStatus t e) = Some (Ev (EventStatus t e))"
| "intended pd (CEventRemove t e) = Some (Ev (DeleteEvent t e))"
| "intended pd (CEventForm e fn ln z em) = Some (Ev (FillForm e fn ln z em))"
| "intended pd (CEventList q a b p1 p2) =
     do { x \<leftarrow> time_bound pd a; y \<leftarrow> time_bound pd b; Some (Ev (GetEvents q x y p1 p2)) }"
| "intended pd (CEventGenerateCSV t e) = Some (Ev (GenerateCSV t e))"

subsection \<open>Agreement of the client with the route table\<close>

lemmas client_defs = auth_register_def auth_login_def auth_logout_def auth_getCode_def auth_postCode_def
  application_list_def application_approve_def application_deny_def user_remove_def admin_users_def
  site_allocate_def society_allocate_def api_clear_def society_apply_def society_edit_def society_view_def
  society_list_def society_join_def society_members_def society_remove_def society_events_def
  profile_view_def profile_edit_def profile_events_def profile_societies_def event_create_def event_edit_def
  event_get_def event_attend_def event_unattend_def event_status_def event_remove_def event_form_def
  event_list_def event_generateCSV_def

text \<open>
  C36: every function of the frontend's API client sends a message that the backend's
  route table decodes to exactly the request the function stands for: same route,
  same handler, same arguments, ids surviving the trip through \<open>String\<close> and
  \<open>parseInt\<close>, and optional arguments left out arriving as \<open>undefined\<close>.
\<close>

lemma client_server_agreement: "decode pd (client_msg c) = intended pd c"
  by (cases c) (auto simp: decode_defs wire_simps client_defs opt_str_def opt_num_def time_bound_def
      split: option.splits list.splits)

end
