(* ===== verification/Ui.thy ===== *)
theory Ui
  imports Api
begin

text \<open>
  The permission-dependent menus of the frontend: the event page's
  \<open>AdminMenu\<close> (\<open>src/frontend/src/components/EventView/AdminMenu.tsx\<close>), the
  society page's \<open>SocietyMenu\<close> (\<open>components/SocietyView/SocietyMenu.tsx\<close>) and
  the event card's \<open>EventCardMenu\<close> (\<open>components/Home/EventCardMenu.tsx\<close>),
  with the helpers of \<open>src/frontend/src/helper/helper.ts\<close>. Each menu starts with
  every permission \<open>false\<close> and, unless the user is a guest, sets them from the
  backend's \<open>profileView\<close> (and \<open>getEvent\<close> for the event's society); a failed
  request leaves them \<open>false\<close>. The token in local storage is \<open>None\<close> for a guest
  (\<open>''''\<close>). \<open>Array.find\<close> returns the matching id itself, so the test is
  JavaScript truthiness of that id.
\<close>

subsection \<open>\<open>helper.ts\<close>\<close>

text \<open>\<open>getAuthenticatedToken()\<close> reads local storage; an absent or empty token is \<open>''''\<close>.\<close>

definition getAuthenticatedToken :: "token option \<Rightarrow> token option" where
  "getAuthenticatedToken stored = stored"

definition isGuest :: "token option \<Rightarrow> bool" where
  "isGuest tok \<longleftrightarrow> tok = None"

text \<open>\<open>list.find((sid) => sid === c)\<close> used as a condition.\<close>

definition find_truthy :: "nat list \<Rightarrow> nat \<Rightarrow> bool" where
  "find_truthy xs c \<longleftrightarrow> (case find (\<lambda>sid. sid = c) xs of Some x \<Rightarrow> x \<noteq> 0 | None \<Rightarrow> False)"

subsection \<open>Menus\<close>

record menu_perms =
  can_edit :: bool
  can_delete :: bool

definition no_perms :: menu_perms where
  "no_perms = \<lparr>can_edit = False, can_delete = False\<rparr>"

datatype menu_item =
    MEditEvent | MAttendanceForm | MQrCode | MAttendanceData | MDeleteEvent
  | MJoinSociety | MViewMembers | MCreateEvent | MEditSociety | MDeleteSociety

text \<open>The body of \<open>getPerms\<close> in \<open>AdminMenu\<close>, once the profile and the society are known.\<close>

definition event_perms :: "userProfile \<Rightarrow> sid \<Rightarrow> menu_perms" where
  "event_perms p c =
     (let isSiteAdmin = up_isSiteAdmin p;
          isModerator = find_truthy (up_modSocieties p) c;
          isSocAdmin = find_truthy (up_adminSocieties p) c in
      if isSiteAdmin \<or> isSocAdmin then \<lparr>can_edit = True, can_delete = True\<rparr>
      else if isModerator then \<lparr>can_edit = True, can_delete = False\<rparr>
      else no_perms)"

definition adminMenu_perms :: "token option \<Rightarrow> eid \<Rightarrow> db \<Rightarrow> menu_perms" where
  "adminMenu_perms tok eventId s =
     (case tok of None \<Rightarrow> no_perms
      | Some t \<Rightarrow> (case getEvent eventId s of
          Inl _ \<Rightarrow> no_perms
        | Inr (_, ev) \<Rightarrow> (case profileView t s of
            Inl _ \<Rightarrow> no_perms
          | Inr p \<Rightarrow> event_perms p (ev_societyId ev))))"

definition adminMenu_items :: "menu_perms \<Rightarrow> menu_item list" where
  "adminMenu_items perms =
     (if can_edit perms then [MEditEvent] else []) @ [MAttendanceForm, MQrCode]
     @ (if can_edit perms then [MAttendanceData] else []) @ (if can_delete perms then [MDeleteEvent] else [])"

definition society_perms :: "userProfile \<Rightarrow> sid \<Rightarrow> menu_perms" where
  "society_perms p c =
     (let isSiteAdmin = up_isSiteAdmin p;
          isModerator = find_truthy (up_modSocieties p) c;
          isSocAdmin = find_truthy (up_adminSocieties p) c in
      \<lparr>can_edit = (isSiteAdmin \<or> isModerator \<or> isSocAdmin), can_delete = (isSiteAdmin \<or> isSocAdmin)\<rparr>)"

definition societyMenu_perms :: "token option \<Rightarrow> sid \<Rightarrow> db \<Rightarrow> menu_perms" where
  "societyMenu_perms tok societyId s =
     (case tok of None \<Rightarrow> no_perms
      | Some t \<Rightarrow> (case profileView t s of Inl _ \<Rightarrow> no_perms | Inr p \<Rightarrow> society_perms p societyId))"

definition societyMenu_items :: "menu_perms \<Rightarrow> menu_item list" where
  "societyMenu_items perms =
     [MJoinSociety, MViewMembers] @ (if can_edit perms then [MCreateEvent, MEditSociety] else [])
     @ (if can_delete perms then [MDeleteSociety] else [])"

text \<open>\<open>EventCardMenu\<close> shows its only item, \<open>Edit Post\<close>, when \<open>canEdit\<close> holds.\<close>

definition eventCardMenu_canEdit :: "token option \<Rightarrow> eid \<Rightarrow> db \<Rightarrow> bool" where
  "eventCardMenu_canEdit tok eventId s =
     (case tok of None \<Rightarrow> False
      | Some t \<Rightarrow> (case getEvent eventId s of
          Inl _ \<Rightarrow> False
        | Inr (_, ev) \<Rightarrow> (case profileView t s of
            Inl _ \<Rightarrow> False
          | Inr p \<Rightarrow> can_edit (society_perms p (ev_societyId ev)))))"

subsection \<open>A store for the witnesses\<close>

text \<open>The demonstration store with a second society (id 1), administered by user 1 and
moderated by user 2, and one event of it.\<close>

definition demo_ui :: db where
  "demo_ui = demo_db\<lparr>societies := (societies demo_db)(1 \<mapsto> \<lparr>soc_name = ''Go Club'', soc_description = ''go'', soc_photoURL = []\<rparr>),
     members := (members demo_db)((1, 1) \<mapsto> ''admin'', (2, 1) \<mapsto> ''moderator''),
     events := (events demo_db)(1 \<mapsto> \<lparr>ev_societyId = 1, ev_name = ''Opening'', ev_description = ''first game'',
                  ev_time = 200, ev_location = ''Hall''\<rparr>),
     next_society := 2, next_event := 2\<rparr>"

subsection \<open>Menus and the backend's checks\<close>

lemma db_inv_demo_ui: "db_inv demo_ui"
  by (simp add: demo_ui_def demo_db_def empty_db_def demo_user_def inv_defs keys_below_def valid_role_def valid_status_def)

lemma demo_ui_sessions:
  "validateSession 0 demo_ui = Inr (0, demo_user ''a@unsw.edu'' ''z0000000'' True)"
  "validateSession 1 demo_ui = Inr (1, demo_user ''d@unsw.edu'' ''z0000001'' False)"
  "validateSession 2 demo_ui = Inr (2, demo_user ''c@unsw.edu'' ''z0000002'' False)"
  by (simp_all add: validateSession_def demo_ui_def demo_db_def)


lemma find_truthy_iff: "c \<noteq> 0 \<Longrightarrow> find_truthy xs c \<longleftrightarrow> c \<in> set xs"
  by (induction xs) (auto simp: find_truthy_def)

lemma profile_roles:
  assumes "db_inv s" and "validateSession t s = Inr (u, usr)" and "c \<noteq> 0"
  shows "\<exists>p. profileView t s = Inr p \<and> up_isSiteAdmin p = isAdmin usr
     \<and> (find_truthy (up_adminSocieties p) c \<longleftrightarrow> members s (u, c) = Some ''admin'')
     \<and> (find_truthy (up_modSocieties p) c \<longleftrightarrow> members s (u, c) = Some ''moderator'')"
  using assms by (simp add: profileView_def set_societies_with_role find_truthy_iff)

lemma adminMenu_perms_user:
  assumes "db_inv s" and "validateSession t s = Inr (u, usr)" and "events s e = Some ev"
    and "ev_societyId ev \<noteq> 0"
  shows "can_edit (adminMenu_perms (Some t) e s) \<longleftrightarrow> isAdmin usr \<or> elevated s u (ev_societyId ev)"
    and "can_delete (adminMenu_perms (Some t) e s) \<longleftrightarrow> isAdmin usr \<or> members s (u, ev_societyId ev) = Some ''admin''"
  using profile_roles [OF assms(1,2,4)] assms(3)
  by (auto simp: adminMenu_perms_def getEvent_def event_perms_def elevated_def no_perms_def Let_def)

lemma societyMenu_perms_user:
  assumes "db_inv s" and "validateSession t s = Inr (u, usr)" and "c \<noteq> 0"
  shows "can_edit (societyMenu_perms (Some t) c s) \<longleftrightarrow> isAdmin usr \<or> elevated s u c"
    and "can_delete (societyMenu_perms (Some t) c s) \<longleftrightarrow> isAdmin usr \<or> members s (u, c) = Some ''admin''"
  using profile_roles [OF assms] 
  by (auto simp: societyMenu_perms_def society_perms_def elevated_def Let_def)

text \<open>
  C37: on an event page (society id not 0, as every SQLite id is), the attendance
  export is offered exactly when the backend would produce it; \<open>Edit Event\<close> is
  offered yet refused with \<open>Forbidden\<close> exactly for a site admin with no admin or
  moderator role in the society; and \<open>Delete Event\<close> is withheld from a user the
  backend would let delete exactly when that user is a moderator and no site admin.
\<close>

lemma eventMenu_vs_server:
  assumes "db_inv s" and "validateSession t s = Inr (u, usr)" and "events s e = Some ev"
    and "ev_societyId ev \<noteq> 0"
  shows "(MAttendanceData \<in> set (adminMenu_items (adminMenu_perms (Some t) e s)) \<longleftrightarrow> (\<exists>csv. generateCSV t e s = Inr csv))
       \<and> (MEditEvent \<in> set (adminMenu_items (adminMenu_perms (Some t) e s)) \<and> (\<exists>m. editEvent t e n d tm l s = Inl (Forbidden m))
            \<longleftrightarrow> isAdmin usr \<and> \<not> elevated s u (ev_societyId ev))
       \<and> (MDeleteEvent \<notin> set (adminMenu_items (adminMenu_perms (Some t) e s)) \<and> (\<exists>r. deleteEvent t e s = Inr r)
            \<longleftrightarrow> \<not> isAdmin usr \<and> members s (u, ev_societyId ev) = Some ''moderator'')"
  using adminMenu_perms_user [OF assms(1-4)] assms(2,3)
  by (auto simp: adminMenu_items_def generateCSV_def editEvent_def deleteEvent_def elevated_def)

lemma eventMenu_vs_server_witness:
  "MEditEvent \<in> set (adminMenu_items (adminMenu_perms (Some 0) 1 demo_ui))
   \<and> (\<exists>m. editEvent 0 1 ''Opening'' ''moved'' 300 ''Hall'' demo_ui = Inl (Forbidden m))
   \<and> MDeleteEvent \<notin> set (adminMenu_items (adminMenu_perms (Some 2) 1 demo_ui))
   \<and> (\<exists>r. deleteEvent 2 1 demo_ui = Inr r)"
proof -
  have ev: "events demo_ui 1 = Some \<lparr>ev_societyId = 1, ev_name = ''Opening'', ev_description = ''first game'',
                  ev_time = 200, ev_location = ''Hall''\<rparr>" by (simp add: demo_ui_def)
  have r0: "isAdmin (demo_user ''a@unsw.edu'' ''z0000000'' True) \<and> \<not> elevated demo_ui 0 1"
    and r2: "\<not> isAdmin (demo_user ''c@unsw.edu'' ''z0000002'' False) \<and> members demo_ui (2, 1) = Some ''moderator''"
    by (simp_all add: demo_user_def elevated_def demo_ui_def demo_db_def)
  from eventMenu_vs_server [OF db_inv_demo_ui demo_ui_sessions(1) ev, of "''Opening''" "''moved''" 300 "''Hall''"]
    eventMenu_vs_server [OF db_inv_demo_ui demo_ui_sessions(3) ev, of "''Opening''" "''moved''" 300 "''Hall''"] r0 r2
  show ?thesis by simp
qed

text \<open>
  C38: on a society page, \<open>Create Event\<close> is offered yet refused exactly for a site
  admin with no admin or moderator role, \<open>Edit Society\<close> exactly for a moderator
  who is no site admin, and \<open>Delete Society\<close> exactly for a society admin who is
  no site admin.
\<close>

lemma societyMenu_vs_server:
  assumes "db_inv s" and "validateSession t s = Inr (u, usr)" and "societies s c = Some soc" and "c \<noteq> 0"
  shows "(MCreateEvent \<in> set (societyMenu_items (societyMenu_perms (Some t) c s)) \<and> (\<exists>m. createEvent t c n d tm l s = Inl (Forbidden m))
            \<longleftrightarrow> isAdmin usr \<and> \<not> elevated s u c)
       \<and> (MEditSociety \<in> set (societyMenu_items (societyMenu_perms (Some t) c s)) \<and> (\<exists>m. societyEdit t c n d s = Inl (Forbidden m))
            \<longleftrightarrow> \<not> isAdmin usr \<and> members s (u, c) = Some ''moderator'')
       \<and> (MDeleteSociety \<in> set (societyMenu_items (societyMenu_perms (Some t) c s)) \<and> (\<exists>m. societyDelete t c s = Inl (Forbidden m))
            \<longleftrightarrow> \<not> isAdmin usr \<and> members s (u, c) = Some ''admin'')"
  using societyMenu_perms_user [OF assms(1,2,4)] assms(2,3)
  by (auto simp: societyMenu_items_def createEvent_def societyEdit_def societyDelete_def elevated_def Let_def
      split: sum.splits dest: validateSocietyName_Inl)

lemma societyMenu_vs_server_witness:
  "MCreateEvent \<in> set (societyMenu_items (societyMenu_perms (Some 0) 1 demo_ui))
   \<and> (\<exists>m. createEvent 0 1 ''Rapid'' ''rapid'' 300 ''Hall'' demo_ui = Inl (Forbidden m))
   \<and> MEditSociety \<in> set (societyMenu_items (societyMenu_perms (Some 2) 1 demo_ui))
   \<and> (\<exists>m. societyEdit 2 1 ''Go Club'' ''weiqi'' demo_ui = Inl (Forbidden m))
   \<and> MDeleteSociety \<in> set (societyMenu_items (societyMenu_perms (Some 1) 1 demo_ui))
   \<and> (\<exists>m. societyDelete 1 1 demo_ui = Inl (Forbidden m))"
proof -
  have c: "societies demo_ui 1 = Some \<lparr>soc_name = ''Go Club'', soc_description = ''go'', soc_photoURL = []\<rparr>"
    by (simp add: demo_ui_def)
  have r: "isAdmin (demo_user ''a@unsw.edu'' ''z0000000'' True) \<and> \<not> elevated demo_ui 0 1"
    "\<not> isAdmin (demo_user ''c@unsw.edu'' ''z0000002'' False) \<and> members demo_ui (2, 1) = Some ''moderator''"
    "\<not> isAdmin (demo_user ''d@unsw.edu'' ''z0000001'' False) \<and> members demo_ui (1, 1) = Some ''admin''"
    by (simp_all add: demo_user_def elevated_def demo_ui_def demo_db_def)
  from societyMenu_vs_server [OF db_inv_demo_ui demo_ui_sessions(1) c, of "''Rapid''" "''rapid''" 300 "''Hall''"]
    societyMenu_vs_server [OF db_inv_demo_ui demo_ui_sessions(3) c, of "''Go Club''" "''weiqi''"]
    societyMenu_vs_server [OF db_inv_demo_ui demo_ui_sessions(2) c] r
  show ?thesis by simp
qed

end
