(* ===== verification/Members.thy ===== *)
theory Members
  imports Client Ui
begin

text \<open>
  The permission pages of the frontend: the society's member list
  (\<open>src/frontend/src/components/User/MemberList.tsx\<close>), where society roles are
  changed, and the site's user list (\<open>components/User/UserList.tsx\<close>), where the
  site-admin flag is changed and users are removed, with the enumerations and
  conversions of \<open>src/frontend/src/types/user.ts\<close>. A page is a record of its React
  state; loading runs its \<open>useEffect\<close> requests through \<open>api_call\<close> in the order
  the effect starts them; each handler returns the new state and the message it
  sends, if any. Saving a permission does not wait for the reply. An error that is not
  an \<open>ApiError\<close> is shown as the page's fixed \<open>unknown error\<close> text (the source appends
  the error's own text after a line break).
\<close>

subsection \<open>\<open>types/user.ts\<close>\<close>

datatype permission = SITE_ADMIN | MEMBER

definition permissionToPermissionLevel :: "permission \<Rightarrow> int" where
  "permissionToPermissionLevel p = (case p of SITE_ADMIN \<Rightarrow> 1 | MEMBER \<Rightarrow> 2)"

datatype society_permission = SP_ADMIN | SP_MODERATOR | SP_MEMBER

text \<open>\<open>stringToSocietyPermission\<close> throws on any other string: \<open>None\<close>.\<close>

definition stringToSocietyPermission :: "string \<Rightarrow> society_permission option" where
  "stringToSocietyPermission r =
     (if r = ''admin'' then Some SP_ADMIN else if r = ''moderator'' then Some SP_MODERATOR
      else if r = ''member'' then Some SP_MEMBER else None)"

definition societyPermissionToPermissionLevel :: "society_permission \<Rightarrow> int" where
  "societyPermissionToPermissionLevel p = (case p of SP_ADMIN \<Rightarrow> 1 | SP_MODERATOR \<Rightarrow> 2 | SP_MEMBER \<Rightarrow> 3)"

record userToDisplay =
  ud_id :: uid
  ud_name :: string
  ud_zId :: string
  ud_email :: string
  ud_permissions :: permission
  ud_originalPermissions :: permission

record memberToDisplay =
  md_userId :: uid
  md_name :: string
  md_zId :: string
  md_permissions :: society_permission
  md_originalPermissions :: society_permission

subsection \<open>\<open>MemberList.tsx\<close>\<close>

text \<open>
  \<open>ml_isSocietyAdmin\<close> is the state the source names \<open>isSocietyAdmin\<close>; it is set
  to the negation of the user's authority and makes the cards read-only.
\<close>

record memberList =
  ml_isSocietyAdmin :: bool
  ml_members :: "memberToDisplay list"
  ml_errorMsg :: "string option"
  ml_showPermissionSaveModal :: bool

definition memberList_init :: memberList where
  "memberList_init = \<lparr>ml_isSocietyAdmin = False, ml_members = [], ml_errorMsg = None,
                      ml_showPermissionSaveModal = False\<rparr>"

definition unknown_error :: string where
  "unknown_error = ''An unknown error has occured. Contact your system admin''"

definition display_member :: "socMember \<Rightarrow> memberToDisplay option" where
  "display_member u = map_option (\<lambda>perm. \<lparr>md_userId = sm_userId u,
       md_name = sm_nameFirst u @ '' '' @ sm_nameLast u, md_zId = sm_zId u,
       md_permissions = perm, md_originalPermissions = perm\<rparr>) (stringToSocietyPermission (sm_role u))"

definition fetchData_members :: "env \<Rightarrow> (string \<Rightarrow> int option) \<Rightarrow> sid \<Rightarrow> db \<Rightarrow> memberList \<Rightarrow> memberList" where
  "fetchData_members env pd c s st =
     (case api_call env pd (society_members c) s of
        Some (Inr (RMembers ms), _) \<Rightarrow>
          (case those (map display_member ms) of
             Some l \<Rightarrow> st\<lparr>ml_members := l\<rparr>
           | None \<Rightarrow> st\<lparr>ml_errorMsg := Some unknown_error\<rparr>)
      | Some (Inl err, _) \<Rightarrow> st\<lparr>ml_errorMsg := Some (apiError_message err)\<rparr>
      | _ \<Rightarrow> st\<lparr>ml_errorMsg := Some unknown_error\<rparr>)"

definition fetchPermissions_members :: "env \<Rightarrow> (string \<Rightarrow> int option) \<Rightarrow> token option \<Rightarrow> sid \<Rightarrow> db
    \<Rightarrow> memberList \<Rightarrow> memberList" where
  "fetchPermissions_members env pd tok c s st =
     (case tok of
        None \<Rightarrow> st\<lparr>ml_isSocietyAdmin := True\<rparr>
      | Some t \<Rightarrow> (case api_call env pd (profile_view t) s of
          Some (Inr (RProfile p), _) \<Rightarrow>
            st\<lparr>ml_isSocietyAdmin := \<not> (up_isSiteAdmin p \<or> find_truthy (up_adminSocieties p) c)\<rparr>
        | Some (Inl err, _) \<Rightarrow> st\<lparr>ml_errorMsg := Some (apiError_message err)\<rparr>
        | _ \<Rightarrow> st\<lparr>ml_errorMsg := Some unknown_error\<rparr>))"

text \<open>The effect starts \<open>fetchPermissions()\<close>, then \<open>fetchData()\<close>.\<close>

definition memberList_load :: "env \<Rightarrow> (string \<Rightarrow> int option) \<Rightarrow> token option \<Rightarrow> sid \<Rightarrow> db \<Rightarrow> memberList" where
  "memberList_load env pd tok c s =
     fetchData_members env pd c s (fetchPermissions_members env pd tok c s memberList_init)"

definition memberList_change :: "memberList \<Rightarrow> uid \<Rightarrow> society_permission \<Rightarrow> memberList" where
  "memberList_change st userId updatedPermission =
     st\<lparr>ml_members := map (\<lambda>user. if md_userId user = userId then user\<lparr>md_permissions := updatedPermission\<rparr>
                                  else user) (ml_members st)\<rparr>"

text \<open>\<open>updatedMembers.find(...)\<close> is mutated in place: only the first member with the id is reset.\<close>

fun reset_first :: "uid \<Rightarrow> memberToDisplay list \<Rightarrow> memberToDisplay list" where
  "reset_first userId [] = []"
| "reset_first userId (u # us) =
     (if md_userId u = userId then u\<lparr>md_permissions := md_originalPermissions u\<rparr> # us
      else u # reset_first userId us)"

definition memberList_reset :: "memberList \<Rightarrow> uid \<Rightarrow> memberList" where
  "memberList_reset st userId = st\<lparr>ml_members := reset_first userId (ml_members st)\<rparr>"

definition memberList_save :: "token option \<Rightarrow> sid \<Rightarrow> memberList \<Rightarrow> uid \<Rightarrow> memberList \<times> http_msg option" where
  "memberList_save tok c st userId =
     (case tok of
        None \<Rightarrow> (st, None)
      | Some t \<Rightarrow> (case find (\<lambda>u. md_userId u = userId) (ml_members st) of
          None \<Rightarrow> (st, None)
        | Some userToChange \<Rightarrow>
            (st\<lparr>ml_showPermissionSaveModal := True\<rparr>,
             Some (society_allocate t userId c (societyPermissionToPermissionLevel (md_permissions userToChange))))))"

subsection \<open>\<open>UserList.tsx\<close>\<close>

record userList =
  ul_users :: "userToDisplay list"
  ul_errorMsg :: "string option"
  ul_showPermissionSaveModal :: bool
  ul_userToRemove :: "userToDisplay option"
  ul_confirmationDialogOpen :: bool

definition userList_init :: userList where
  "userList_init = \<lparr>ul_users = [], ul_errorMsg = None, ul_showPermissionSaveModal = False,
                    ul_userToRemove = None, ul_confirmationDialogOpen = False\<rparr>"

definition unknown_error_users :: string where
  "unknown_error_users = ''An unknown error has occurred. Contact your system admin.''"

definition display_user :: "userView \<Rightarrow> userToDisplay" where
  "display_user u = (let perm = (if uv_isAdmin u then SITE_ADMIN else MEMBER) in
     \<lparr>ud_id = uv_id u, ud_name = uv_nameFirst u @ '' '' @ uv_nameLast u, ud_zId = uv_zId u,
      ud_email = uv_email u, ud_permissions = perm, ud_originalPermissions = perm\<rparr>)"

definition userList_load :: "env \<Rightarrow> (string \<Rightarrow> int option) \<Rightarrow> token \<Rightarrow> db \<Rightarrow> userList" where
  "userList_load env pd t s =
     (case api_call env pd (admin_users t) s of
        Some (Inr (RUsers us), _) \<Rightarrow> userList_init\<lparr>ul_users := map display_user us\<rparr>
      | Some (Inl err, _) \<Rightarrow> userList_init\<lparr>ul_errorMsg := Some (apiError_message err)\<rparr>
      | _ \<Rightarrow> userList_init\<lparr>ul_errorMsg := Some unknown_error_users\<rparr>)"

definition userList_change :: "userList \<Rightarrow> uid \<Rightarrow> permission \<Rightarrow> userList" where
  "userList_change st userId updatedPermission =
     st\<lparr>ul_users := map (\<lambda>user. if ud_id user = userId then user\<lparr>ud_permissions := updatedPermission\<rparr>
                              else user) (ul_users st)\<rparr>"

definition userList_save :: "token \<Rightarrow> userList \<Rightarrow> uid \<Rightarrow> userList \<times> http_msg option" where
  "userList_save t st userId =
     (case find (\<lambda>u. ud_id u = userId) (ul_users st) of
        None \<Rightarrow> (st, None)
      | Some userToChange \<Rightarrow>
          (st\<lparr>ul_showPermissionSaveModal := True\<rparr>,
           Some (site_allocate t userId (permissionToPermissionLevel (ud_permissions userToChange)))))"

definition userList_remove :: "userList \<Rightarrow> uid \<Rightarrow> userList" where
  "userList_remove st userId =
     (case find (\<lambda>u. ud_id u = userId) (ul_users st) of
        None \<Rightarrow> st
      | Some userToChange \<Rightarrow> st\<lparr>ul_userToRemove := Some userToChange, ul_confirmationDialogOpen := True\<rparr>)"

text \<open>\<open>handleConfirmRemoveUser\<close> awaits the removal and drops the user from the list only on success.\<close>

definition userList_confirmRemove :: "env \<Rightarrow> (string \<Rightarrow> int option) \<Rightarrow> token \<Rightarrow> userList \<Rightarrow> db
    \<Rightarrow> userList \<times> db" where
  "userList_confirmRemove env pd t st s =
     (case ul_userToRemove st of
        None \<Rightarrow> (st\<lparr>ul_confirmationDialogOpen := False\<rparr>, s)
      | Some victim \<Rightarrow> (case api_call env pd (user_remove t (ud_id victim)) s of
          Some (Inr _, s') \<Rightarrow>
            (st\<lparr>ul_users := filter (\<lambda>user. ud_id user \<noteq> ud_id victim) (ul_users st),
                ul_confirmationDialogOpen := False\<rparr>, s')
        | Some (Inl err, s') \<Rightarrow>
            (st\<lparr>ul_errorMsg := Some (apiError_message err), ul_confirmationDialogOpen := False\<rparr>, s')
        | None \<Rightarrow> (st\<lparr>ul_errorMsg := Some unknown_error_users, ul_confirmationDialogOpen := False\<rparr>, s)))"

text \<open>\<open>handleResetPermission\<close> of the user list: the first user with the id is reset.\<close>

fun reset_first_user :: "uid \<Rightarrow> userToDisplay list \<Rightarrow> userToDisplay list" where
  "reset_first_user userId [] = []"
| "reset_first_user userId (u # us) =
     (if ud_id u = userId then u\<lparr>ud_permissions := ud_originalPermissions u\<rparr> # us
      else u # reset_first_user userId us)"

definition userList_reset :: "userList \<Rightarrow> uid \<Rightarrow> userList" where
  "userList_reset st userId = st\<lparr>ul_users := reset_first_user userId (ul_users st)\<rparr>"

definition userList_cancelRemove :: "userList \<Rightarrow> userList" where
  "userList_cancelRemove st = st\<lparr>ul_confirmationDialogOpen := False\<rparr>"

subsection \<open>The member page against the server\<close>

lemma decode_society_allocate [simp]:
  "decode pd (society_allocate t u c l) = Some (Admin (PermSocietyAllocate t u c l))"
  by (simp add: decode_defs wire_simps society_allocate_def)

lemma decode_profile_view [simp]: "decode pd (profile_view t) = Some (Prof (ProfileView t))"
  by (simp add: decode_defs wire_simps profile_view_def)

lemma decode_society_members [simp]: "decode pd (society_members c) = Some (Soc (SocietyMembers c))"
  by (simp add: decode_defs wire_simps society_members_def)

lemma api_call_read:
  "handle env req s = Inr (r, s) \<Longrightarrow> decode pd m = Some req \<Longrightarrow> api_call env pd m s = Some (Inr r, s)"
  by (rule api_call_Inr)

lemma api_call_profile_view:
  "profileView t s = Inr p \<Longrightarrow> api_call env pd (profile_view t) s = Some (Inr (RProfile p), s)"
  by (rule api_call_read) (simp_all add: rd_def)

lemma api_call_society_members:
  "api_call env pd (society_members c) s = Some (Inr (RMembers (societyMembers c s)), s)"
  by (rule api_call_read) simp_all

lemma societyMembers_mem:
  "sm \<in> set (societyMembers c s) \<Longrightarrow>
   \<exists>r usr. members s (sm_userId sm, c) = Some r \<and> users s (sm_userId sm) = Some usr \<and> sm_role sm = r"
  by (auto simp: societyMembers_def List.map_filter_def split: option.splits)

lemma memberList_load_members:
  assumes "m \<in> set (ml_members (memberList_load env pd tok c s))"
  shows "\<exists>r usr. members s (md_userId m, c) = Some r \<and> users s (md_userId m) = Some usr"
proof -
  have f: "ml_members (fetchPermissions_members env pd tok c s memberList_init) = []"
    by (simp add: fetchPermissions_members_def memberList_init_def split: option.splits sum.splits response.splits)
  from assms f obtain l where l: "those (map display_member (societyMembers c s)) = Some l" and ml: "m \<in> set l"
    by (auto simp: memberList_load_def fetchData_members_def api_call_society_members split: option.splits)
  from set_those [OF l ml] obtain sm where sm: "sm \<in> set (societyMembers c s)" and "display_member sm = Some m"
    by auto
  then have "md_userId m = sm_userId sm" by (auto simp: display_member_def)
  with societyMembers_mem [OF sm] show ?thesis by auto
qed

lemma fetchData_members_flag [simp]:
  "ml_isSocietyAdmin (fetchData_members env pd c s st) = ml_isSocietyAdmin st"
  by (simp add: fetchData_members_def api_call_society_members split: option.splits)

lemma memberList_load_flag:
  "profileView t s = Inr p \<Longrightarrow>
   ml_isSocietyAdmin (memberList_load env pd (Some t) c s) = (\<not> (up_isSiteAdmin p \<or> find_truthy (up_adminSocieties p) c))"
  by (simp add: memberList_load_def fetchPermissions_members_def api_call_profile_view)

lemma memberList_load_editable:
  assumes "db_inv s" and "validateSession t s = Inr (u, usr)" and "c \<noteq> 0"
  shows "ml_isSocietyAdmin (memberList_load env pd (Some t) c s) \<longleftrightarrow> \<not> (isAdmin usr \<or> members s (u, c) = Some ''admin'')"
proof -
  obtain p where p: "profileView t s = Inr p" and a: "up_isSiteAdmin p = isAdmin usr"
    and f: "find_truthy (up_adminSocieties p) c \<longleftrightarrow> members s (u, c) = Some ''admin''"
    using profile_roles [OF assms(1-3)] by blast
  show ?thesis using memberList_load_flag [OF p] a f by simp
qed

lemma permSocietyAllocate_by_admin:
  assumes "validateSession t s = Inr (u, usr)" and "isAdmin usr \<or> members s (u, c) = Some ''admin''"
    and "users s v \<noteq> None" and "societies s c \<noteq> None" and "members s (v, c) = Some r"
    and "l \<in> {1, 2, 3}"
  shows "permSocietyAllocate t v c l s = Inr ((), s\<lparr>members := (members s)((v, c) \<mapsto> societyPermConverter l)\<rparr>)"
  using assms by (auto simp: permSocietyAllocate_def Let_def societyPermReverter_def)

lemma level_range: "societyPermissionToPermissionLevel p \<in> {1, 2, 3}"
  by (cases p) (simp_all add: societyPermissionToPermissionLevel_def)

lemma ml_members_change:
  "ml_members (memberList_change st uid p)
   = map (\<lambda>user. if md_userId user = uid then user\<lparr>md_permissions := p\<rparr> else user) (ml_members st)"
  by (simp add: memberList_change_def)

lemma memberList_change_ids: "md_userId ` set (ml_members (memberList_change st uid p)) = md_userId ` set (ml_members st)"
  unfolding ml_members_change by (rule image_map_same) simp

lemma memberList_change_perm:
  assumes "find (\<lambda>x. md_userId x = uid) (ml_members (memberList_change st uid p)) = Some y"
  shows "md_permissions y = p"
proof -
  from find_SomeD [OF assms] have y: "y \<in> set (ml_members (memberList_change st uid p))" and u: "md_userId y = uid"
    by simp_all
  from y obtain x where "y = (if md_userId x = uid then x\<lparr>md_permissions := p\<rparr> else x)"
    unfolding ml_members_change set_map by blast
  with u show ?thesis by (simp split: if_splits)
qed

lemma memberList_save_effect:
  assumes "db_inv s" and "validateSession t s = Inr (u, usr)" and "societies s c \<noteq> None" and "c \<noteq> 0"
    and "\<not> ml_isSocietyAdmin (memberList_load env pd (Some t) c s)"
    and "uid \<in> md_userId ` set (ml_members (memberList_load env pd (Some t) c s))"
  shows "\<exists>st' msg s'. memberList_save (Some t) c (memberList_change (memberList_load env pd (Some t) c s) uid p) uid
              = (st', Some msg)
           \<and> ml_showPermissionSaveModal st' \<and> api_call env pd msg s = Some (Inr RNone, s')
           \<and> members s' (uid, c) = Some (societyPermConverter (societyPermissionToPermissionLevel p))"
proof -
  let ?st = "memberList_load env pd (Some t) c s"
  let ?l = "societyPermissionToPermissionLevel p"
  from assms(6) obtain m where m: "m \<in> set (ml_members ?st)" and uid: "uid = md_userId m" by auto
  obtain r usr' where r: "members s (uid, c) = Some r" and "users s uid = Some usr'"
    using memberList_load_members [OF m] uid by auto
  then have tu: "users s uid \<noteq> None" by simp
  have ed: "isAdmin usr \<or> members s (u, c) = Some ''admin''"
    using memberList_load_editable [OF assms(1,2,4)] assms(5) by simp
  have "uid \<in> md_userId ` set (ml_members (memberList_change ?st uid p))"
    using assms(6) by (simp add: memberList_change_ids)
  then obtain y where y: "find (\<lambda>x. md_userId x = uid) (ml_members (memberList_change ?st uid p)) = Some y"
    using find_mem_id [of _ _ "\<lambda>x. md_userId x = uid"] by blast
  then have yp: "md_permissions y = p" by (rule memberList_change_perm)
  have srv: "permSocietyAllocate t uid c ?l s = Inr ((), s\<lparr>members := (members s)((uid, c) \<mapsto> societyPermConverter ?l)\<rparr>)"
    by (rule permSocietyAllocate_by_admin [OF assms(2) ed tu assms(3) r level_range])
  show ?thesis
    using y yp srv by (simp add: memberList_save_def api_call_def server_reply_def apiFetch_response_def
        Let_def wr_def)
qed

lemma stringToSocietyPermission_valid: "valid_role r \<Longrightarrow> \<exists>p. stringToSocietyPermission r = Some p"
  by (auto simp: valid_role_def stringToSocietyPermission_def)

lemma societyMembers_valid_role:
  "db_inv s \<Longrightarrow> sm \<in> set (societyMembers c s) \<Longrightarrow> valid_role (sm_role sm)"
  using societyMembers_mem [of sm c s] db_inv_member_refs by blast

lemma display_member_total:
  "db_inv s \<Longrightarrow> \<exists>l. those (map display_member (societyMembers c s)) = Some l
                  \<and> map md_userId l = map sm_userId (societyMembers c s)"
  by (rule those_map_Some)
     (auto simp: display_member_def dest!: societyMembers_valid_role stringToSocietyPermission_valid)

lemma societyMembers_complete:
  assumes "db_inv s" and "members s (v, c) = Some r"
  shows "v \<in> sm_userId ` set (societyMembers c s)"
proof -
  from db_inv_member_refs [OF assms] have "v \<in> dom (users s)" ..
  then obtain usr where usr: "users s v = Some usr" by blast
  with assms(1) have "v < next_user s" by (auto simp: db_inv_def counters_ok_def keys_below_def)
  let ?sm = "\<lparr>sm_userId = v, sm_zId = zId usr, sm_nameFirst = nameFirst usr, sm_nameLast = nameLast usr,
              sm_role = r\<rparr>"
  have "?sm \<in> set (societyMembers c s)"
    using usr assms(2) \<open>v < next_user s\<close> by (force simp: societyMembers_def List.map_filter_def)
  then show ?thesis by force
qed

text \<open>
  C24: on a well-formed store every role the server returns for a member is one that
  \<open>stringToSocietyPermission\<close> accepts, so the member page lists exactly the
  society's members, in the server's order, whatever the permission request gave.
\<close>
lemma memberList_load_lists:
  "db_inv s \<Longrightarrow> map md_userId (ml_members (memberList_load env pd tok c s)) = map sm_userId (societyMembers c s)"
  using display_member_total [of s c]
  by (auto simp: memberList_load_def fetchData_members_def api_call_society_members)


lemma memberList_load_lists_witness:
  "db_inv demo_ui \<and> map md_userId (ml_members (memberList_load env0 demo_date None 1 demo_ui)) = [1, 2]"
proof -
  have "map sm_userId (societyMembers 1 demo_ui) = [1, 2]"
    by (simp add: societyMembers_def demo_ui_def demo_db_def empty_db_def List.map_filter_def upt_rec)
  with memberList_load_lists [OF db_inv_demo_ui, of env0 demo_date None 1] db_inv_demo_ui show ?thesis by simp
qed

text \<open>
  C12: for a caller who is a site admin or an admin of the society, the member page
  is editable, and changing a member's role and saving it sends a request the server
  accepts, which stores the chosen role; the page shows its saved dialog.
\<close>
lemma memberList_save_accepted:
  assumes "db_inv s" and "validateSession t s = Inr (u, usr)" and "c \<noteq> 0"
    and "isAdmin usr \<or> members s (u, c) = Some ''admin''" and "members s (uid, c) = Some r"
  shows "\<not> ml_isSocietyAdmin (memberList_load env pd (Some t) c s)
     \<and> (\<exists>st' msg s'. memberList_save (Some t) c (memberList_change (memberList_load env pd (Some t) c s) uid p) uid
              = (st', Some msg)
           \<and> ml_showPermissionSaveModal st' \<and> api_call env pd msg s = Some (Inr RNone, s')
           \<and> members s' (uid, c) = Some (societyPermConverter (societyPermissionToPermissionLevel p)))"
proof -
  have "uid \<in> set (map md_userId (ml_members (memberList_load env pd (Some t) c s)))"
    unfolding memberList_load_lists [OF assms(1)] using societyMembers_complete [OF assms(1,5)] by simp
  moreover have "societies s c \<noteq> None" using db_inv_member_refs [OF assms(1,5)] by blast
  moreover have "\<not> ml_isSocietyAdmin (memberList_load env pd (Some t) c s)"
    using memberList_load_editable [OF assms(1-3)] assms(4) by simp
  ultimately show ?thesis using memberList_save_effect [OF assms(1,2)] assms(3) by simp
qed

lemma memberList_save_accepted_witness:
  "\<not> ml_isSocietyAdmin (memberList_load env0 demo_date (Some 1) 1 demo_ui)
     \<and> (\<exists>st' msg s'. memberList_save (Some 1) 1 (memberList_change (memberList_load env0 demo_date (Some 1) 1 demo_ui) 2 SP_ADMIN) 2
              = (st', Some msg)
           \<and> ml_showPermissionSaveModal st' \<and> api_call env0 demo_date msg demo_ui = Some (Inr RNone, s')
           \<and> members s' (2, 1) = Some ''admin'')"
proof -
  have r: "members demo_ui (1, 1) = Some ''admin''" "members demo_ui (2, 1) = Some ''moderator''"
    by (simp_all add: demo_ui_def)
  from memberList_save_accepted [OF db_inv_demo_ui demo_ui_sessions(2), of 1 2 "''moderator''" env0 demo_date SP_ADMIN] r
  show ?thesis by (simp add: societyPermissionToPermissionLevel_def societyPermConverter_def)
qed

end
