(* ===== verification/Menus.thy ===== *)
theory Menus
  imports Members
begin
text \<open>
  The handlers of the menus and of the attendance button of the frontend, as
  functions on the component's React state: \<open>AdminMenu\<close>
  (\<open>src/frontend/src/components/EventView/AdminMenu.tsx\<close>), \<open>SocietyMenu\<close>
  (\<open>components/SocietyView/SocietyMenu.tsx\<close>), \<open>EventCardMenu\<close>
  (\<open>components/Home/EventCardMenu.tsx\<close>) and \<open>AttendanceButton\<close>
  (\<open>components/EventView/AttendanceButton.tsx\<close>). A handler that awaits a request
  takes the store and returns the new state with the store after the request;
  \<open>navigate(path)\<close> is recorded as the state's location. Opening a menu sets its
  anchor, here a flag.
\<close>

subsection \<open>Awaiting a request\<close>

text \<open>
  A guest's token is the empty string, which a component sends as it is; no session
  has that token, so the server answers as for any unknown token.
\<close>

definition call_as :: "env \<Rightarrow> (string \<Rightarrow> int option) \<Rightarrow> token option \<Rightarrow> (token \<Rightarrow> http_msg) \<Rightarrow> db
    \<Rightarrow> ((api_error + response) \<times> db) option" where
  "call_as env pd tok mk s =
     (case tok of
        Some t \<Rightarrow> api_call env pd (mk t) s
      | None \<Rightarrow> Some (apiFetch_response (server_reply (Inl (Unauthorized ''Invalid token''))), s))"

text \<open>
  \<open>try { await api...(...) } catch (err) { message = ... }\<close>: the data, or the
  message the component shows, an \<open>ApiError\<close>'s own or the fixed unknown-error text.
\<close>

definition await_reply :: "((api_error + response) \<times> db) option \<Rightarrow> db \<Rightarrow> (string + response) \<times> db" where
  "await_reply reply s =
     (case reply of
        Some (Inr r, s') \<Rightarrow> (Inr r, s')
      | Some (Inl err, s') \<Rightarrow> (Inl (apiError_message err), s')
      | None \<Rightarrow> (Inl unknown_error, s))"

definition await_call :: "env \<Rightarrow> (string \<Rightarrow> int option) \<Rightarrow> token option \<Rightarrow> (token \<Rightarrow> http_msg) \<Rightarrow> db
    \<Rightarrow> (string + response) \<times> db" where
  "await_call env pd tok mk s = await_reply (call_as env pd tok mk s) s"

definition event_path :: "eid \<Rightarrow> string \<Rightarrow> string" where
  "event_path e suffix = ''/event/'' @ show_nat e @ suffix"

subsection \<open>\<open>AdminMenu.tsx\<close>\<close>

record adminMenu =
  am_anchor :: bool
  am_deleteConfirmationOpen :: bool
  am_errorMsg :: string
  am_showError :: bool
  am_qrModalOpen :: bool
  am_canEdit :: bool
  am_canDelete :: bool
  am_location :: "string option"

text \<open>The state after mounting: the \<open>useState\<close> defaults, then \<open>getPerms\<close>.\<close>

definition adminMenu_mount :: "token option \<Rightarrow> eid \<Rightarrow> db \<Rightarrow> adminMenu" where
  "adminMenu_mount tok eventId s =
     (let perms = adminMenu_perms tok eventId s in
      \<lparr>am_anchor = False, am_deleteConfirmationOpen = False, am_errorMsg = [], am_showError = False,
       am_qrModalOpen = False, am_canEdit = can_edit perms, am_canDelete = can_delete perms,
       am_location = None\<rparr>)"

definition am_handleClick :: "adminMenu \<Rightarrow> adminMenu" where
  "am_handleClick st = st\<lparr>am_anchor := True\<rparr>"

definition am_handleClose :: "adminMenu \<Rightarrow> adminMenu" where
  "am_handleClose st = st\<lparr>am_anchor := False\<rparr>"

definition am_error :: "string \<Rightarrow> adminMenu \<Rightarrow> adminMenu" where
  "am_error msg st = st\<lparr>am_errorMsg := msg, am_showError := True\<rparr>"

definition am_handleEditEvent :: "token option \<Rightarrow> eid \<Rightarrow> adminMenu \<Rightarrow> adminMenu" where
  "am_handleEditEvent tok eventId st =
     (if isGuest tok then am_error ''Guest users cannot edit events'' st
      else (am_handleClose st)\<lparr>am_location := Some (event_path eventId ''/edit'')\<rparr>)"

definition am_handleQrCodeEvent :: "adminMenu \<Rightarrow> adminMenu" where
  "am_handleQrCodeEvent st = st\<lparr>am_qrModalOpen := True\<rparr>"

definition am_handleAttendanceForm :: "eid \<Rightarrow> adminMenu \<Rightarrow> adminMenu" where
  "am_handleAttendanceForm eventId st = (am_handleClose st)\<lparr>am_location := Some (event_path eventId ''/form'')\<rparr>"

text \<open>After the CSV is generated the file is downloaded: browser I/O, not modelled.\<close>

definition am_handleAttendanceData :: "env \<Rightarrow> (string \<Rightarrow> int option) \<Rightarrow> token option \<Rightarrow> eid \<Rightarrow> adminMenu \<Rightarrow> db
    \<Rightarrow> adminMenu \<times> db" where
  "am_handleAttendanceData env pd tok eventId st s =
     (case await_call env pd tok (\<lambda>t. event_generateCSV t eventId) s of
        (Inr _, s') \<Rightarrow> (am_handleClose st, s')
      | (Inl msg, s') \<Rightarrow> (am_error msg st, s'))"

definition am_handleDeleteEvent :: "env \<Rightarrow> (string \<Rightarrow> int option) \<Rightarrow> token option \<Rightarrow> eid \<Rightarrow> adminMenu \<Rightarrow> db
    \<Rightarrow> adminMenu \<times> db" where
  "am_handleDeleteEvent env pd tok eventId st s =
     (case await_call env pd tok (\<lambda>t. event_remove t eventId) s of
        (Inr _, s') \<Rightarrow> ((am_handleClose st)\<lparr>am_location := Some ''/home''\<rparr>, s')
      | (Inl msg, s') \<Rightarrow> (am_error msg st, s'))"

definition am_handleOpenDeleteConfirmation :: "token option \<Rightarrow> adminMenu \<Rightarrow> adminMenu" where
  "am_handleOpenDeleteConfirmation tok st =
     (if isGuest tok then am_error ''Guest users cannot delete an event.'' st
      else st\<lparr>am_deleteConfirmationOpen := True\<rparr>)"

definition am_handleCloseDeleteConfirmation :: "adminMenu \<Rightarrow> adminMenu" where
  "am_handleCloseDeleteConfirmation st = st\<lparr>am_deleteConfirmationOpen := False\<rparr>"

definition am_handleConfirmDelete :: "env \<Rightarrow> (string \<Rightarrow> int option) \<Rightarrow> token option \<Rightarrow> eid \<Rightarrow> adminMenu \<Rightarrow> db
    \<Rightarrow> adminMenu \<times> db" where
  "am_handleConfirmDelete env pd tok eventId st s =
     am_handleDeleteEvent env pd tok eventId (am_handleCloseDeleteConfirmation st) s"

definition am_closeQRModal :: "eid \<Rightarrow> adminMenu \<Rightarrow> adminMenu" where
  "am_closeQRModal eventId st = st\<lparr>am_qrModalOpen := False, am_location := Some (event_path eventId [])\<rparr>"

text \<open>The user's actions on the menu: a click on the button, on an item or in a dialog.\<close>

datatype am_action =
    AMOpen | AMClose | AMEditEvent | AMAttendanceForm | AMQrCode | AMAttendanceData
  | AMDeleteEvent | AMCancelDelete | AMConfirmDelete | AMCloseQr | AMOpenQrPage

primrec am_step :: "env \<Rightarrow> (string \<Rightarrow> int option) \<Rightarrow> token option \<Rightarrow> eid \<Rightarrow> am_action
    \<Rightarrow> adminMenu \<times> db \<Rightarrow> adminMenu \<times> db" where
  "am_step env pd tok e AMOpen p = (am_handleClick (fst p), snd p)"
| "am_step env pd tok e AMClose p = (am_handleClose (fst p), snd p)"
| "am_step env pd tok e AMEditEvent p = (am_handleEditEvent tok e (fst p), snd p)"
| "am_step env pd tok e AMAttendanceForm p = (am_handleAttendanceForm e (fst p), snd p)"
| "am_step env pd tok e AMQrCode p = (am_handleQrCodeEvent (fst p), snd p)"
| "am_step env pd tok e AMAttendanceData p = am_handleAttendanceData env pd tok e (fst p) (snd p)"
| "am_step env pd tok e AMDeleteEvent p = (am_handleOpenDeleteConfirmation tok (fst p), snd p)"
| "am_step env pd tok e AMCancelDelete p = (am_handleCloseDeleteConfirmation (fst p), snd p)"
| "am_step env pd tok e AMConfirmDelete p = am_handleConfirmDelete env pd tok e (fst p) (snd p)"
| "am_step env pd tok e AMCloseQr p = (am_closeQRModal e (fst p), snd p)"
| "am_step env pd tok e AMOpenQrPage p = ((fst p)\<lparr>am_location := Some (event_path e ''/qrcode'')\<rparr>, snd p)"

text \<open>
  The element each action clicks is rendered only in some states: the items while
  the menu is open (\<open>Edit Event\<close> and \<open>Attendance Data\<close> under \<open>canEdit\<close>,
  \<open>Delete Event\<close> under \<open>canDelete\<close>), the dialogs' buttons while they are open.
\<close>

definition am_enabled :: "adminMenu \<Rightarrow> am_action \<Rightarrow> bool" where
  "am_enabled st a =
     (case a of
        AMOpen \<Rightarrow> True
      | AMClose \<Rightarrow> am_anchor st
      | AMEditEvent \<Rightarrow> am_anchor st \<and> am_canEdit st
      | AMAttendanceForm \<Rightarrow> am_anchor st
      | AMQrCode \<Rightarrow> am_anchor st
      | AMAttendanceData \<Rightarrow> am_anchor st \<and> am_canEdit st
      | AMDeleteEvent \<Rightarrow> am_anchor st \<and> am_canDelete st
      | AMCancelDelete \<Rightarrow> am_deleteConfirmationOpen st
      | AMConfirmDelete \<Rightarrow> am_deleteConfirmationOpen st
      | AMCloseQr \<Rightarrow> am_qrModalOpen st
      | AMOpenQrPage \<Rightarrow> am_qrModalOpen st)"

text \<open>A session on the menu: \<open>None\<close> when an action clicks an element that is not rendered.\<close>

fun am_run :: "env \<Rightarrow> (string \<Rightarrow> int option) \<Rightarrow> token option \<Rightarrow> eid \<Rightarrow> am_action list
    \<Rightarrow> adminMenu \<times> db \<Rightarrow> (adminMenu \<times> db) option" where
  "am_run env pd tok e [] p = Some p"
| "am_run env pd tok e (a # as) p =
     (if am_enabled (fst p) a then am_run env pd tok e as (am_step env pd tok e a p) else None)"

subsection \<open>\<open>SocietyMenu.tsx\<close>\<close>

record societyMenu =
  so_errorMsg :: string
  so_showError :: bool
  so_canEdit :: bool
  so_canDelete :: bool
  so_anchor :: bool
  so_showJoinConfirmation :: bool
  so_showDeleteConfirmation :: bool
  so_location :: "string option"

definition societyMenu_mount :: "token option \<Rightarrow> sid \<Rightarrow> db \<Rightarrow> societyMenu" where
  "societyMenu_mount tok societyId s =
     (let perms = societyMenu_perms tok societyId s in
      \<lparr>so_errorMsg = [], so_showError = False, so_canEdit = can_edit perms, so_canDelete = can_delete perms,
       so_anchor = False, so_showJoinConfirmation = False, so_showDeleteConfirmation = False,
       so_location = None\<rparr>)"

definition so_handleClose :: "societyMenu \<Rightarrow> societyMenu" where
  "so_handleClose st = st\<lparr>so_anchor := False\<rparr>"

definition so_error :: "string \<Rightarrow> societyMenu \<Rightarrow> societyMenu" where
  "so_error msg st = st\<lparr>so_errorMsg := msg, so_showError := True\<rparr>"

text \<open>
  The guard \<open>token === null\<close> of both handlers never holds: \<open>getAuthenticatedToken\<close>
  returns \<open>''''\<close>, not \<open>null\<close>, for a guest, whose request is then sent.
\<close>

definition so_handleJoinSociety :: "env \<Rightarrow> (string \<Rightarrow> int option) \<Rightarrow> token option \<Rightarrow> sid \<Rightarrow> societyMenu \<Rightarrow> db
    \<Rightarrow> societyMenu \<times> db" where
  "so_handleJoinSociety env pd tok societyId st s =
     (case await_call env pd tok (\<lambda>t. society_join t societyId) s of
        (Inr _, s') \<Rightarrow> (so_handleClose (st\<lparr>so_showJoinConfirmation := True\<rparr>), s')
      | (Inl msg, s') \<Rightarrow> (so_error msg st, s'))"

definition so_handleDeleteSociety :: "env \<Rightarrow> (string \<Rightarrow> int option) \<Rightarrow> token option \<Rightarrow> sid \<Rightarrow> societyMenu \<Rightarrow> db
    \<Rightarrow> societyMenu \<times> db" where
  "so_handleDeleteSociety env pd tok societyId st s =
     (case await_call env pd tok (\<lambda>t. society_remove t societyId) s of
        (Inr _, s') \<Rightarrow> ((so_handleClose (st\<lparr>so_showDeleteConfirmation := True\<rparr>))\<lparr>so_location := Some ''/home''\<rparr>, s')
      | (Inl msg, s') \<Rightarrow> (so_error msg st, s'))"

definition so_handleOpenDeleteConfirmation :: "societyMenu \<Rightarrow> societyMenu" where
  "so_handleOpenDeleteConfirmation st = so_handleClose (st\<lparr>so_showDeleteConfirmation := True\<rparr>)"

definition so_handleCloseDeleteConfirmation :: "societyMenu \<Rightarrow> societyMenu" where
  "so_handleCloseDeleteConfirmation st = st\<lparr>so_showDeleteConfirmation := False\<rparr>"

definition so_handleConfirmDelete :: "env \<Rightarrow> (string \<Rightarrow> int option) \<Rightarrow> token option \<Rightarrow> sid \<Rightarrow> societyMenu \<Rightarrow> db
    \<Rightarrow> societyMenu \<times> db" where
  "so_handleConfirmDelete env pd tok societyId st s =
     so_handleDeleteSociety env pd tok societyId (so_handleCloseDeleteConfirmation st) s"

definition society_path :: "sid \<Rightarrow> string \<Rightarrow> string" where
  "society_path c suffix = ''/society/'' @ show_nat c @ suffix"

datatype so_action =
    SOOpen | SOClose | SOJoin | SOViewMembers | SOCreateEvent | SOEditSociety | SODeleteSociety
  | SOCancelDelete | SOConfirmDelete | SOCloseJoin

text \<open>\<open>Create Event\<close> navigates to \<open>/event/societyId/create\<close>.\<close>

primrec so_step :: "env \<Rightarrow> (string \<Rightarrow> int option) \<Rightarrow> token option \<Rightarrow> sid \<Rightarrow> so_action
    \<Rightarrow> societyMenu \<times> db \<Rightarrow> societyMenu \<times> db" where
  "so_step env pd tok c SOOpen p = ((fst p)\<lparr>so_anchor := True\<rparr>, snd p)"
| "so_step env pd tok c SOClose p = (so_handleClose (fst p), snd p)"
| "so_step env pd tok c SOJoin p = so_handleJoinSociety env pd tok c (fst p) (snd p)"
| "so_step env pd tok c SOViewMembers p = ((fst p)\<lparr>so_location := Some (society_path c ''/members'')\<rparr>, snd p)"
| "so_step env pd tok c SOCreateEvent p = ((fst p)\<lparr>so_location := Some (event_path c ''/create'')\<rparr>, snd p)"
| "so_step env pd tok c SOEditSociety p = ((fst p)\<lparr>so_location := Some (society_path c ''/edit'')\<rparr>, snd p)"
| "so_step env pd tok c SODeleteSociety p = (so_handleOpenDeleteConfirmation (fst p), snd p)"
| "so_step env pd tok c SOCancelDelete p = (so_handleCloseDeleteConfirmation (fst p), snd p)"
| "so_step env pd tok c SOConfirmDelete p = so_handleConfirmDelete env pd tok c (fst p) (snd p)"
| "so_step env pd tok c SOCloseJoin p = ((fst p)\<lparr>so_showJoinConfirmation := False\<rparr>, snd p)"

definition so_enabled :: "societyMenu \<Rightarrow> so_action \<Rightarrow> bool" where
  "so_enabled st a =
     (case a of
        SOOpen \<Rightarrow> True
      | SOClose \<Rightarrow> so_anchor st
      | SOJoin \<Rightarrow> so_anchor st
      | SOViewMembers \<Rightarrow> so_anchor st
      | SOCreateEvent \<Rightarrow> so_anchor st \<and> so_canEdit st
      | SOEditSociety \<Rightarrow> so_anchor st \<and> so_canEdit st
      | SODeleteSociety \<Rightarrow> so_anchor st \<and> so_canDelete st
      | SOCancelDelete \<Rightarrow> so_showDeleteConfirmation st
      | SOConfirmDelete \<Rightarrow> so_showDeleteConfirmation st
      | SOCloseJoin \<Rightarrow> so_showJoinConfirmation st)"

fun so_run :: "env \<Rightarrow> (string \<Rightarrow> int option) \<Rightarrow> token option \<Rightarrow> sid \<Rightarrow> so_action list
    \<Rightarrow> societyMenu \<times> db \<Rightarrow> (societyMenu \<times> db) option" where
  "so_run env pd tok c [] p = Some p"
| "so_run env pd tok c (a # as) p =
     (if so_enabled (fst p) a then so_run env pd tok c as (so_step env pd tok c a p) else None)"

subsection \<open>\<open>EventCardMenu.tsx\<close>\<close>

record eventCardMenu =
  ec_anchor :: bool
  ec_canEdit :: bool
  ec_location :: "string option"

definition eventCardMenu_mount :: "token option \<Rightarrow> eid \<Rightarrow> db \<Rightarrow> eventCardMenu" where
  "eventCardMenu_mount tok eventId s =
     \<lparr>ec_anchor = False, ec_canEdit = eventCardMenu_canEdit tok eventId s, ec_location = None\<rparr>"

definition ec_handleEditPost :: "eid \<Rightarrow> eventCardMenu \<Rightarrow> eventCardMenu" where
  "ec_handleEditPost eventId st = st\<lparr>ec_anchor := False, ec_location := Some (event_path eventId ''/edit'')\<rparr>"

subsection \<open>\<open>AttendanceButton.tsx\<close>\<close>

record attendanceButton =
  ab_errorMsg :: string
  ab_showError :: bool
  ab_attending :: bool

definition ab_error :: "string \<Rightarrow> attendanceButton \<Rightarrow> attendanceButton" where
  "ab_error msg st = st\<lparr>ab_errorMsg := msg, ab_showError := True\<rparr>"

text \<open>\<open>fetchAttendingStatus\<close>, run on mount.\<close>

definition ab_mount :: "env \<Rightarrow> (string \<Rightarrow> int option) \<Rightarrow> token option \<Rightarrow> eid \<Rightarrow> db \<Rightarrow> attendanceButton" where
  "ab_mount env pd tok eventId s =
     (let st = \<lparr>ab_errorMsg = [], ab_showError = False, ab_attending = False\<rparr> in
      if isGuest tok then st\<lparr>ab_attending := False\<rparr>
      else (case await_call env pd tok (\<lambda>t. event_status t eventId) s of
              (Inr (RBool b), _) \<Rightarrow> st\<lparr>ab_attending := b\<rparr>
            | (Inr _, _) \<Rightarrow> st
            | (Inl msg, _) \<Rightarrow> ab_error msg st))"

definition ab_attendEvent :: "env \<Rightarrow> (string \<Rightarrow> int option) \<Rightarrow> token option \<Rightarrow> eid \<Rightarrow> attendanceButton \<Rightarrow> db
    \<Rightarrow> attendanceButton \<times> db" where
  "ab_attendEvent env pd tok eventId st s =
     (case await_call env pd tok (\<lambda>t. event_attend t eventId) s of
        (Inr _, s') \<Rightarrow> (st\<lparr>ab_attending := \<not> ab_attending st\<rparr>, s')
      | (Inl msg, s') \<Rightarrow> (ab_error msg st, s'))"

definition ab_unattendEvent :: "env \<Rightarrow> (string \<Rightarrow> int option) \<Rightarrow> token option \<Rightarrow> eid \<Rightarrow> attendanceButton \<Rightarrow> db
    \<Rightarrow> attendanceButton \<times> db" where
  "ab_unattendEvent env pd tok eventId st s =
     (case await_call env pd tok (\<lambda>t. event_unattend t eventId) s of
        (Inr _, s') \<Rightarrow> (st\<lparr>ab_attending := \<not> ab_attending st\<rparr>, s')
      | (Inl msg, s') \<Rightarrow> (ab_error msg st, s'))"

definition ab_handleClick :: "env \<Rightarrow> (string \<Rightarrow> int option) \<Rightarrow> token option \<Rightarrow> eid \<Rightarrow> attendanceButton \<Rightarrow> db
    \<Rightarrow> attendanceButton \<times> db" where
  "ab_handleClick env pd tok eventId st s =
     (if ab_attending st then ab_unattendEvent env pd tok eventId st s else ab_attendEvent env pd tok eventId st s)"

fun ab_clicks :: "env \<Rightarrow> (string \<Rightarrow> int option) \<Rightarrow> token option \<Rightarrow> eid \<Rightarrow> nat \<Rightarrow> attendanceButton \<times> db
    \<Rightarrow> attendanceButton \<times> db" where
  "ab_clicks env pd tok e 0 p = p"
| "ab_clicks env pd tok e (Suc n) p = ab_clicks env pd tok e n (ab_handleClick env pd tok e (fst p) (snd p))"

text \<open>The store as the button's own requests leave it: only the attendance relation changes.\<close>

definition ab_sync :: "uid \<Rightarrow> eid \<Rightarrow> db \<Rightarrow> attendanceButton \<times> db \<Rightarrow> bool" where
  "ab_sync u e s p \<longleftrightarrow> ab_attending (fst p) = ((u, e) \<in> attending (snd p)) \<and> \<not> ab_showError (fst p)
     \<and> snd p = s\<lparr>attending := attending (snd p)\<rparr>"

subsection \<open>Behaviour of the handlers\<close>

lemma decode_event_attend [simp]: "decode pd (event_attend t e) = Some (Ev (AttendEvent t e))"
  by (simp add: decode_defs wire_simps event_attend_def)

lemma decode_event_unattend [simp]: "decode pd (event_unattend t e) = Some (Ev (UnattendEvent t e))"
  by (simp add: decode_defs wire_simps event_unattend_def)

lemma decode_event_status [simp]: "decode pd (event_status t e) = Some (Ev (EventStatus t e))"
  by (simp add: decode_defs wire_simps event_status_def)

lemma decode_society_join [simp]: "decode pd (society_join t c) = Some (Soc (SocietyJoin t c))"
  by (simp add: decode_defs wire_simps society_join_def)

lemma await_call_Inr:
  "decode pd (mk t) = Some req \<Longrightarrow> handle env req s = Inr (r, s') \<Longrightarrow> await_call env pd (Some t) mk s = (Inr r, s')"
  by (simp add: await_call_def await_reply_def call_as_def api_call_Inr)

lemma await_call_4xx:
  "decode pd (mk t) = Some req \<Longrightarrow> handle env req s = Inl e \<Longrightarrow> status_code e \<in> {400, 401, 403} \<Longrightarrow>
   await_call env pd (Some t) mk s = (Inl (apiError_message (ApiError (Some (status_code e)) (error_message e))), s)"
  by (simp add: await_call_def await_reply_def call_as_def api_call_Inl apiFetch_response_4xx)

lemma decode_event_remove [simp]: "decode pd (event_remove t e) = Some (Ev (DeleteEvent t e))"
  by (simp add: decode_defs wire_simps event_remove_def)

lemma deleteEvent_by_admin:
  assumes "validateSession t s = Inr (u, usr)" and "events s e = Some ev"
    and "isAdmin usr \<or> members s (u, ev_societyId ev) = Some ''admin''"
  shows "deleteEvent t e s = Inr ((), delete_event e s)"
  using assms by (auto simp: deleteEvent_def elevated_def)

lemma am_handleDeleteEvent_Inr:
  "deleteEvent t e s = Inr ((), s') \<Longrightarrow>
   am_handleDeleteEvent env pd (Some t) e st s = ((am_handleClose st)\<lparr>am_location := Some ''/home''\<rparr>, s')"
  by (simp add: am_handleDeleteEvent_def await_call_Inr [where req = "Ev (DeleteEvent t e)"])

text \<open>
  C30: on an event page (society id not 0), a user to whom the menu offers
  \<open>Delete Event\<close> can always complete it: opening the menu, choosing the item and
  confirming deletes the event from the store and navigates to \<open>/home\<close>.
\<close>
lemma adminMenu_delete_completes:
  assumes "db_inv s" and "validateSession t s = Inr (u, usr)" and "events s e = Some ev"
    and "ev_societyId ev \<noteq> 0" and "am_canDelete (adminMenu_mount (Some t) e s)"
  shows "\<exists>st'. am_run env pd (Some t) e [AMOpen, AMDeleteEvent, AMConfirmDelete] (adminMenu_mount (Some t) e s, s)
                 = Some (st', delete_event e s) \<and> am_location st' = Some ''/home''"
proof -
  have "isAdmin usr \<or> members s (u, ev_societyId ev) = Some ''admin''"
    using assms(5) adminMenu_perms_user(2) [OF assms(1-4)] by (simp add: adminMenu_mount_def Let_def)
  then have d: "deleteEvent t e s = Inr ((), delete_event e s)"
    by (rule deleteEvent_by_admin [OF assms(2,3)])
  show ?thesis
    using assms(5)
    by (simp add: am_enabled_def am_handleClick_def am_handleOpenDeleteConfirmation_def isGuest_def
        am_handleConfirmDelete_def am_handleCloseDeleteConfirmation_def am_handleDeleteEvent_Inr [OF d])
qed

lemma adminMenu_delete_completes_witness:
  "\<exists>st'. am_run env0 demo_date (Some 1) 1 [AMOpen, AMDeleteEvent, AMConfirmDelete] (adminMenu_mount (Some 1) 1 demo_ui, demo_ui)
                 = Some (st', delete_event 1 demo_ui) \<and> am_location st' = Some ''/home''"
proof -
  have ev: "events demo_ui 1 = Some \<lparr>ev_societyId = 1, ev_name = ''Opening'', ev_description = ''first game'',
                  ev_time = 200, ev_location = ''Hall''\<rparr>" by (simp add: demo_ui_def)
  have "am_canDelete (adminMenu_mount (Some 1) 1 demo_ui)"
    using adminMenu_perms_user(2) [OF db_inv_demo_ui demo_ui_sessions(2) ev]
    by (simp add: adminMenu_mount_def demo_ui_def)
  from adminMenu_delete_completes [OF db_inv_demo_ui demo_ui_sessions(2) ev _ this] show ?thesis by simp
qed

lemma validateSession_attending [simp]:
  "validateSession t (s\<lparr>attending := A\<rparr>) = validateSession t s"
  by (simp add: validateSession_def split: option.split)

lemma ab_sync_same:
  assumes "ab_sync u e s (st, s')"
  shows "validateSession t s' = validateSession t s" and "events s' e = events s e"
proof -
  from assms have eq: "s' = s\<lparr>attending := attending s'\<rparr>" by (simp add: ab_sync_def)
  have "validateSession t s' = validateSession t (s\<lparr>attending := attending s'\<rparr>)" by (rule arg_cong [OF eq])
  then show "validateSession t s' = validateSession t s" by simp
  have "events s' = events (s\<lparr>attending := attending s'\<rparr>)" by (rule arg_cong [OF eq])
  then show "events s' e = events s e" by simp
qed

lemma ab_handleClick_sync:
  assumes v: "validateSession t s = Inr (u, usr)" and ev: "events s e \<noteq> None" and i: "ab_sync u e s (st, s')"
  shows "ab_sync u e s (ab_handleClick env pd (Some t) e st s')"
proof -
  have v': "validateSession t s' = Inr (u, usr)" and ev': "events s' e \<noteq> None"
    using ab_sync_same(1) [OF i, of t] ab_sync_same(2) [OF i] v ev by simp_all
  have eq: "s' = s\<lparr>attending := attending s'\<rparr>" using i by (simp add: ab_sync_def)
  have up: "s'\<lparr>attending := Z\<rparr> = s\<lparr>attending := Z\<rparr>" for Z by (subst eq) simp
  show ?thesis
  proof (cases "ab_attending st")
    case True
    then have "(u, e) \<in> attending s'" using i by (simp add: ab_sync_def)
    then have "unattendEvent t e s' = Inr ((), s'\<lparr>attending := attending s' - {(u, e)}\<rparr>)"
      using v' ev' by (simp add: unattendEvent_def)
    then have "await_call env pd (Some t) (\<lambda>t. event_unattend t e) s'
        = (Inr RNone, s'\<lparr>attending := attending s' - {(u, e)}\<rparr>)"
      by (intro await_call_Inr [where req = "Ev (UnattendEvent t e)"]) simp_all
    with True i show ?thesis
      by (simp add: ab_handleClick_def ab_unattendEvent_def ab_sync_def up)
  next
    case False
    have "attendEvent t e s' = Inr ((), s'\<lparr>attending := insert (u, e) (attending s')\<rparr>)"
      using v' ev' by (simp add: attendEvent_def)
    then have "await_call env pd (Some t) (\<lambda>t. event_attend t e) s'
        = (Inr RNone, s'\<lparr>attending := insert (u, e) (attending s')\<rparr>)"
      by (intro await_call_Inr [where req = "Ev (AttendEvent t e)"]) simp_all
    with False i show ?thesis
      by (simp add: ab_handleClick_def ab_attendEvent_def ab_sync_def up)
  qed
qed

lemma ab_mount_sync:
  assumes "validateSession t s = Inr (u, usr)" and "events s e \<noteq> None"
  shows "ab_sync u e s (ab_mount env pd (Some t) e s, s)"
proof -
  have "eventStatus t e s = Inr ((u, e) \<in> attending s)" using assms by (simp add: eventStatus_def)
  then have "await_call env pd (Some t) (\<lambda>t. event_status t e) s = (Inr (RBool ((u, e) \<in> attending s)), s)"
    by (intro await_call_Inr [where req = "Ev (EventStatus t e)"]) (simp_all add: rd_def)
  then show ?thesis by (simp add: ab_mount_def isGuest_def ab_sync_def)
qed

text \<open>
  C31: for a logged-in user on an existing event, the attendance button shows the
  server's attendance status after mounting and after any number of clicks, no click
  shows an error, and the clicks change nothing in the store but the attendance.
\<close>
lemma attendanceButton_in_sync:
  assumes "validateSession t s = Inr (u, usr)" and "events s e \<noteq> None"
  shows "ab_sync u e s (ab_clicks env pd (Some t) e n (ab_mount env pd (Some t) e s, s))"
proof -
  have "ab_sync u e s p \<Longrightarrow> ab_sync u e s (ab_clicks env pd (Some t) e n p)" for p
  proof (induction n arbitrary: p)
    case 0 then show ?case by simp
  next
    case (Suc n)
    obtain st s' where p: "p = (st, s')" by (cases p)
    show ?case using Suc.IH ab_handleClick_sync [OF assms, of st s' env pd] Suc.prems p by simp
  qed
  then show ?thesis using ab_mount_sync [OF assms] .
qed

lemma attendanceButton_in_sync_witness:
  "ab_sync 2 1 demo_ui (ab_clicks env0 demo_date (Some 2) 1 3 (ab_mount env0 demo_date (Some 2) 1 demo_ui, demo_ui))"
  by (rule attendanceButton_in_sync [OF demo_ui_sessions(3)]) (simp add: demo_ui_def)

text \<open>
  C26: once the button says attending while the server no longer records the
  attendance (another tab unattended), every click fails with the server's
  \<open>User is not attending\<close> and the button never recovers.
\<close>
lemma attendanceButton_stale:
  assumes "validateSession t s = Inr (u, usr)" and "events s e \<noteq> None"
    and "ab_attending st" and "(u, e) \<notin> attending s" and "0 < n"
  shows "ab_clicks env pd (Some t) e n (st, s)
       = (ab_error (apiError_message (ApiError (Some 400) ''User is not attending'')) st, s)"
proof -
  have "unattendEvent t e s = Inl (BadRequest ''User is not attending'')"
    using assms by (simp add: unattendEvent_def)
  then have c: "ab_handleClick env pd (Some t) e st' s = (ab_error (apiError_message (ApiError (Some 400) ''User is not attending'')) st', s)"
    if "ab_attending st'" for st'
    using that by (simp add: ab_handleClick_def ab_unattendEvent_def
        await_call_4xx [where req = "Ev (UnattendEvent t e)"])
  have "ab_attending st' \<Longrightarrow> ab_clicks env pd (Some t) e (Suc m) (st', s)
      = (ab_error (apiError_message (ApiError (Some 400) ''User is not attending'')) st', s)" for m st'
  proof (induction m arbitrary: st')
    case 0 then show ?case using c by simp
  next
    case (Suc m)
    then show ?case using c [OF Suc.prems] Suc.IH [of "ab_error _ st'"] by (simp add: ab_error_def)
  qed
  then show ?thesis using assms(3,5) by (cases n) simp_all
qed

lemma attendanceButton_stale_witness:
  "ab_clicks env0 demo_date (Some 2) 1 2 (\<lparr>ab_errorMsg = [], ab_showError = False, ab_attending = True\<rparr>, demo_ui)
     = (ab_error (apiError_message (ApiError (Some 400) ''User is not attending''))
          \<lparr>ab_errorMsg = [], ab_showError = False, ab_attending = True\<rparr>, demo_ui)"
  by (rule attendanceButton_stale [OF demo_ui_sessions(3)]) (simp_all add: demo_ui_def demo_db_def empty_db_def)

lemma so_join_Inr:
  "societyJoin t c s = Inr ((), s') \<Longrightarrow>
   so_handleJoinSociety env pd (Some t) c st s = (so_handleClose (st\<lparr>so_showJoinConfirmation := True\<rparr>), s')"
  by (simp add: so_handleJoinSociety_def await_call_Inr [where req = "Soc (SocietyJoin t c)"])

lemma societyMenu_join_completes:
  assumes "sessions s t = Some u" and "societies s c \<noteq> None"
  shows "\<exists>st' s'. so_run env pd (Some t) c [SOOpen, SOJoin] (societyMenu_mount (Some t) c s, s) = Some (st', s')
            \<and> so_showJoinConfirmation st' \<and> \<not> so_showError st' \<and> members s' (u, c) \<noteq> None"
proof -
  obtain s' where j: "societyJoin t c s = Inr ((), s')" and m: "members s' (u, c) \<noteq> None"
    using societyJoin_upsert [OF assms] by (auto split: option.splits)
  show ?thesis
    using m by (simp add: so_enabled_def societyMenu_mount_def so_handleClose_def so_join_Inr [OF j] Let_def)
qed

lemma societyMenu_guest_join:
  "so_run env pd None c [SOOpen, SOJoin] (societyMenu_mount None c s, s)
     = Some ((societyMenu_mount None c s)\<lparr>so_errorMsg := apiError_message (ApiError (Some 401) ''Invalid token''),
              so_showError := True, so_anchor := True\<rparr>, s)"
  by (simp add: so_enabled_def so_handleJoinSociety_def await_call_def await_reply_def call_as_def server_reply_def
      apiFetch_response_def so_error_def)

lemma societyMenu_join_completes_witness:
  "\<exists>st' s'. so_run env0 demo_date (Some 3) 1 [SOOpen, SOJoin] (societyMenu_mount (Some 3) 1 demo_ui, demo_ui) = Some (st', s')
            \<and> so_showJoinConfirmation st' \<and> \<not> so_showError st' \<and> members s' (3, 1) \<noteq> None"
  by (rule societyMenu_join_completes) (simp_all add: demo_ui_def demo_db_def)

end
