(* ===== verification/Pages.thy ===== *)
theory Pages
  imports Menus
begin
text \<open>
  Two pages of the frontend that drive backend operations: the attendance form
  (\<open>src/frontend/src/pages/EventAttendanceFormPage.tsx\<close>) and the review of society
  applications (\<open>pages/ReviewApplicationsPage.tsx\<close> with the dialogs of
  \<open>components/Application/ApplicationFormDialog.tsx\<close> and
  \<open>ApplicationDialog.tsx\<close>). The route parameter is the string of the URL.
\<close>

subsection \<open>\<open>EventAttendanceFormPage.tsx\<close>\<close>

text \<open>
  \<open>parseInt(eventId)\<close> of the route; an id that is \<open>NaN\<close> or negative reaches the
  backend as no event it has, which this model does not route: \<open>None\<close>.
\<close>

definition page_eid :: "string \<Rightarrow> eid option" where
  "page_eid param = (case parseInt param of Some i \<Rightarrow> if 0 \<le> i then Some (nat i) else None | None \<Rightarrow> None)"

record formPage =
  fp_eventTitle :: string
  fp_nameFirst :: string
  fp_nameLast :: string
  fp_zId :: string
  fp_email :: string
  fp_showSuccessModal :: bool
  fp_errorMsg :: string
  fp_showError :: bool
  fp_location :: "string option"

definition formPage_init :: formPage where
  "formPage_init = \<lparr>fp_eventTitle = [], fp_nameFirst = [], fp_nameLast = [], fp_zId = [], fp_email = [],
     fp_showSuccessModal = False, fp_errorMsg = [], fp_showError = False, fp_location = None\<rparr>"

text \<open>\<open>loadEvent\<close>: the title, or back to \<open>/home\<close> on any error.\<close>

definition formPage_loadEvent :: "env \<Rightarrow> (string \<Rightarrow> int option) \<Rightarrow> string \<Rightarrow> db \<Rightarrow> formPage \<Rightarrow> formPage" where
  "formPage_loadEvent env pd param s st =
     (case page_eid param of
        None \<Rightarrow> st\<lparr>fp_location := Some ''/home''\<rparr>
      | Some e \<Rightarrow> (case await_reply (api_call env pd (event_get e) s) s of
          (Inr (REvent (_, ev)), _) \<Rightarrow> st\<lparr>fp_eventTitle := ev_name ev\<rparr>
        | (Inr _, _) \<Rightarrow> st
        | (Inl _, _) \<Rightarrow> st\<lparr>fp_location := Some ''/home''\<rparr>))"

text \<open>\<open>getProfile\<close>: the form is prefilled from the profile.\<close>

definition formPage_getProfile :: "env \<Rightarrow> (string \<Rightarrow> int option) \<Rightarrow> token option \<Rightarrow> db \<Rightarrow> formPage \<Rightarrow> formPage" where
  "formPage_getProfile env pd tok s st =
     (case await_call env pd tok profile_view s of
        (Inr (RProfile p), _) \<Rightarrow>
          st\<lparr>fp_nameFirst := up_nameFirst p, fp_nameLast := up_nameLast p, fp_zId := up_zId p, fp_email := up_email p\<rparr>
      | (Inr _, _) \<Rightarrow> st
      | (Inl _, _) \<Rightarrow> st\<lparr>fp_errorMsg := ''Could not grab user profile info to prefill the form'', fp_showError := True\<rparr>)"

definition formPage_load :: "env \<Rightarrow> (string \<Rightarrow> int option) \<Rightarrow> token option \<Rightarrow> string \<Rightarrow> db \<Rightarrow> formPage" where
  "formPage_load env pd tok param s = formPage_getProfile env pd tok s (formPage_loadEvent env pd param s formPage_init)"

datatype form_field = FNameFirst | FNameLast | FZId | FEmail

definition formPage_edit :: "form_field \<Rightarrow> string \<Rightarrow> formPage \<Rightarrow> formPage" where
  "formPage_edit f v st =
     (case f of
        FNameFirst \<Rightarrow> st\<lparr>fp_nameFirst := v\<rparr>
      | FNameLast \<Rightarrow> st\<lparr>fp_nameLast := v\<rparr>
      | FZId \<Rightarrow> st\<lparr>fp_zId := v\<rparr>
      | FEmail \<Rightarrow> st\<lparr>fp_email := v\<rparr>)"

definition formPage_submit :: "env \<Rightarrow> (string \<Rightarrow> int option) \<Rightarrow> string \<Rightarrow> formPage \<Rightarrow> db \<Rightarrow> formPage \<times> db" where
  "formPage_submit env pd param st s =
     (case (case page_eid param of
              Some e \<Rightarrow> await_reply (api_call env pd (event_form e (fp_nameFirst st) (fp_nameLast st) (fp_zId st) (fp_email st)) s) s
            | None \<Rightarrow> (Inl unknown_error, s)) of
        (Inr _, s') \<Rightarrow> (st\<lparr>fp_showSuccessModal := True\<rparr>, s')
      | (Inl msg, s') \<Rightarrow> (st\<lparr>fp_errorMsg := msg, fp_showError := True\<rparr>, s'))"

definition formPage_closeModal :: "string \<Rightarrow> formPage \<Rightarrow> formPage" where
  "formPage_closeModal param st = st\<lparr>fp_showSuccessModal := False, fp_location := Some (''/event/'' @ param)\<rparr>"

subsection \<open>\<open>ReviewApplicationsPage.tsx\<close> and its dialogs\<close>

text \<open>The state of an \<open>ApplicationDialog\<close>, which exists while the modal is open.\<close>

record appDialog =
  ad_errorMsg :: string
  ad_showError :: bool

record reviewPage =
  rp_selected :: "(aid \<times> application) option"
  rp_modalOpen :: bool
  rp_applications :: "(aid \<times> application) list option"
  rp_errorMsg :: string
  rp_showError :: bool
  rp_dialog :: "appDialog option"
  rp_location :: "string option"

text \<open>Mounting (also after \<open>window.location.reload()\<close>): a guest is sent to the login page
while the list is requested with the empty token.\<close>

definition reviewPage_mount :: "env \<Rightarrow> (string \<Rightarrow> int option) \<Rightarrow> token option \<Rightarrow> db \<Rightarrow> reviewPage" where
  "reviewPage_mount env pd tok s =
     (let st = \<lparr>rp_selected = None, rp_modalOpen = False, rp_applications = None, rp_errorMsg = [],
                rp_showError = False, rp_dialog = None,
                rp_location = (if isGuest tok then Some ''/auth/login'' else None)\<rparr> in
      case await_call env pd tok application_list s of
        (Inr (RApplications apps), _) \<Rightarrow> st\<lparr>rp_applications := Some (rev apps)\<rparr>
      | (Inr _, _) \<Rightarrow> st
      | (Inl msg, _) \<Rightarrow> st\<lparr>rp_errorMsg := msg, rp_showError := True\<rparr>)"

definition rp_handleApplicationClick :: "aid \<times> application \<Rightarrow> reviewPage \<Rightarrow> reviewPage" where
  "rp_handleApplicationClick a st =
     st\<lparr>rp_selected := Some a, rp_modalOpen := True, rp_dialog := Some \<lparr>ad_errorMsg = [], ad_showError = False\<rparr>\<rparr>"

text \<open>Closing the modal unmounts the dialog with its state.\<close>

definition rp_handleCloseModal :: "reviewPage \<Rightarrow> reviewPage" where
  "rp_handleCloseModal st = st\<lparr>rp_selected := None, rp_modalOpen := False, rp_dialog := None\<rparr>"

text \<open>
  \<open>handleDeny\<close> and \<open>handleApprove\<close>: on success the page reloads; on failure the
  dialog records the message, then \<open>onClose()\<close> closes the modal.
\<close>

definition ad_decide :: "env \<Rightarrow> (string \<Rightarrow> int option) \<Rightarrow> token option \<Rightarrow> (token \<Rightarrow> aid \<Rightarrow> http_msg)
    \<Rightarrow> reviewPage \<Rightarrow> db \<Rightarrow> reviewPage \<times> db" where
  "ad_decide env pd tok request st s =
     (case rp_selected st of
        None \<Rightarrow> (st, s)
      | Some (a, _) \<Rightarrow> (case await_call env pd tok (\<lambda>t. request t a) s of
          (Inr _, s') \<Rightarrow> (reviewPage_mount env pd tok s', s')
        | (Inl msg, s') \<Rightarrow>
            (rp_handleCloseModal (st\<lparr>rp_dialog := map_option (\<lambda>d. d\<lparr>ad_errorMsg := msg, ad_showError := True\<rparr>) (rp_dialog st)\<rparr>),
             s')))"

definition ad_handleDeny :: "env \<Rightarrow> (string \<Rightarrow> int option) \<Rightarrow> token option \<Rightarrow> reviewPage \<Rightarrow> db \<Rightarrow> reviewPage \<times> db" where
  "ad_handleDeny env pd tok st s = ad_decide env pd tok application_deny st s"

definition ad_handleApprove :: "env \<Rightarrow> (string \<Rightarrow> int option) \<Rightarrow> token option \<Rightarrow> reviewPage \<Rightarrow> db \<Rightarrow> reviewPage \<times> db" where
  "ad_handleApprove env pd tok st s = ad_decide env pd tok application_approve st s"

subsection \<open>Behaviour of the pages\<close>

lemma show_int_nat [simp]: "show_int (int n) = show_nat n"
  by (simp add: show_int_def)

lemma parseInt_show_nat [simp]: "parseInt (show_nat n) = Some (int n)"
  using parseInt_show_int [of "int n"] by (simp del: parseInt_show_int)

lemma page_eid_show [simp]: "page_eid (show_nat e) = Some e"
  by (simp add: page_eid_def)

lemma decode_event_get [simp]: "decode pd (event_get e) = Some (Ev (GetEvent e))"
  by (simp add: decode_defs wire_simps event_get_def)

lemma decode_event_form [simp]: "decode pd (event_form e fn ln z em) = Some (Ev (FillForm e fn ln z em))"
  by (simp add: decode_defs wire_simps event_form_def)

lemma decode_application_approve [simp]:
  "decode pd (application_approve t a) = Some (Admin (AdminApplicationApprove t a))"
  by (simp add: decode_defs wire_simps application_approve_def)

lemma decode_application_deny [simp]:
  "decode pd (application_deny t a) = Some (Admin (AdminApplicationDeny t a))"
  by (simp add: decode_defs wire_simps application_deny_def)

lemma formPage_load_prefill:
  assumes "validateSession t s = Inr (u, usr)"
  shows "fp_nameFirst (formPage_load env pd (Some t) param s) = nameFirst usr
       \<and> fp_nameLast (formPage_load env pd (Some t) param s) = nameLast usr
       \<and> fp_zId (formPage_load env pd (Some t) param s) = zId usr
       \<and> fp_email (formPage_load env pd (Some t) param s) = email usr
       \<and> \<not> fp_showError (formPage_load env pd (Some t) param s)"
proof -
  have "profileView t s = Inr \<lparr>up_userId = u, up_email = email usr, up_nameFirst = nameFirst usr,
         up_nameLast = nameLast usr, up_zId = zId usr, up_webcal = webcalPath (zId usr),
         up_adminSocieties = societies_with_role s u ''admin'', up_modSocieties = societies_with_role s u ''moderator'',
         up_isSiteAdmin = isAdmin usr\<rparr>" (is "_ = Inr ?p")
    using assms by (simp add: profileView_def)
  then have "await_call env pd (Some t) profile_view s = (Inr (RProfile ?p), s)"
    by (intro await_call_Inr [where req = "Prof (ProfileView t)"]) (simp_all add: rd_def)
  then show ?thesis
    by (simp add: formPage_load_def formPage_getProfile_def formPage_loadEvent_def formPage_init_def
        split: option.splits prod.splits sum.splits response.splits)
qed

lemma user_by_zId_forms [simp]: "user_by_zId z (s\<lparr>forms := fs\<rparr>) = user_by_zId z s"
  by (simp add: user_by_zId_def)

lemma fillForm_records:
  assumes "isEmail em" and "events s e \<noteq> None" and "user_by_zId z s = Some u"
  shows "\<exists>s'. fillForm isEmail e fn ln z em s = Inr ((), s') \<and> (u, e) \<in> attended s'
            \<and> (\<exists>f \<in> set (forms s'). form_eventId f = e \<and> form_zId f = z \<and> form_email f = em)"
  using assms by (auto simp: fillForm_def Let_def)

lemma await_call_Inl:
  assumes "decode pd (mk t) = Some req" and "handle env req s = Inl e"
  shows "\<exists>msg. await_call env pd (Some t) mk s = (Inl msg, s)"
proof -
  have "\<exists>err. apiFetch_response (status_code e, Inl (error_message e)) = Inl err"
    by (cases e) (simp_all add: apiFetch_response_def)
  then show ?thesis using assms by (auto simp: await_call_def await_reply_def call_as_def api_call_Inl)
qed



text \<open>
  C29: when the server refuses an approval, the review page shows no error: the
  dialog that recorded the message is closed and unmounted at once, and the page is
  left exactly as closing the modal leaves it.
\<close>
lemma approve_refusal_dropped:
  assumes "rp_selected st = Some (a, ap)" and "adminApplicationApprove t a s = Inl err"
  shows "ad_handleApprove env pd (Some t) st s = (st\<lparr>rp_selected := None, rp_modalOpen := False, rp_dialog := None\<rparr>, s)"
proof -
  have h: "handle env (Admin (AdminApplicationApprove t a)) s = Inl err" using assms(2) by (simp add: wr_def)
  have "\<exists>msg. await_call env pd (Some t) (\<lambda>t. application_approve t a) s = (Inl msg, s)"
    by (rule await_call_Inl [OF _ h]) simp
  then obtain msg where "await_call env pd (Some t) (\<lambda>t. application_approve t a) s = (Inl msg, s)" ..
  then show ?thesis using assms(1) by (simp add: ad_handleApprove_def ad_decide_def rp_handleCloseModal_def)
qed

lemma approve_refusal_dropped_witness:
  "ad_handleApprove env0 demo_date (Some 1) (rp_handleApplicationClick (0, the (applications demo_db 0)) (reviewPage_mount env0 demo_date (Some 1) demo_db)) demo_db
     = ((rp_handleApplicationClick (0, the (applications demo_db 0)) (reviewPage_mount env0 demo_date (Some 1) demo_db))
          \<lparr>rp_selected := None, rp_modalOpen := False, rp_dialog := None\<rparr>, demo_db)"
proof -
  have "adminApplicationApprove 1 0 demo_db = Inl (Forbidden ''User is not a site admin'')"
    by (simp add: adminApplicationApprove_def validateSession_def demo_db_def demo_user_def)
  then show ?thesis by (intro approve_refusal_dropped) (simp_all add: rp_handleApplicationClick_def)
qed

end
