(* ===== verification/Spec2Isabelle.thy ===== *)
theory Spec2Isabelle
  imports Pages
begin

text \<open>
  \<^bold>\<open>Spark: a verification development of the society and event platform.\<close>

  Spark is an Express backend (\<open>src/backend/src\<close>) that keeps users, sessions,
  societies, memberships, society applications, events, attendance and attendance
  forms in SQLite through the Prisma client, and a React frontend
  (\<open>src/frontend/src\<close>) that calls it through the request functions of
  \<open>src/frontend/src/api\<close>. Every backend handler validates the session token, checks
  the caller's site or society role, and then reads or writes the store; the frontend
  decides from the user's profile which menu items to offer and turns each click into
  one request.

  \<^bold>\<open>Theories and what they model.\<close>
  \<^item> \<open>Prelude\<close>: HTTP errors and their status codes, ASCII \<open>toLowerCase\<close>, character
    classes, the key-bounded maps and row scans that stand for Prisma's
    \<open>findMany\<close>/\<open>findFirst\<close>, and shared lemmas on lists, options and maps.
  \<^item> \<open>Store\<close>: the store as a record of maps with auto-increment counters
    (\<open>prismaModels\<close> of \<open>data.ts\<close>), the lookups by e-mail, zId and society name, the
    cascading deletes of the schema, \<open>clear\<close>, and the invariant \<open>db_inv\<close>
    (counters bound the keys, references resolve, roles and statuses are valid,
    e-mail, zId and society name are unique).
  \<^item> \<open>Session\<close>, \<open>Auth\<close>, \<open>Reset\<close>: \<open>validateSession\<close>, login, logout,
    registration with its checks in source order, and the reset codes
    (\<open>utils.ts\<close>, \<open>auth.ts\<close>, \<open>reset.ts\<close>).
  \<^item> \<open>Perm\<close>: \<open>permSiteAllocate\<close> and \<open>permSocietyAllocate\<close> of \<open>perm.ts\<close>, with an
    abstract rank model of society roles as their specification.
  \<^item> \<open>Society\<close>, \<open>Admin\<close>, \<open>Event\<close>, \<open>Profile\<close>: every handler of
    \<open>society.ts\<close>, \<open>admin.ts\<close>, \<open>event.ts\<close> and \<open>profile.ts\<close>, each a function
    from the store to an error or a result with the new store.
  \<^item> \<open>Api\<close>: the route table of \<open>app.ts\<close> as a datatype of requests, the dispatch
    \<open>handle\<close>, and \<open>reachable\<close>, the stores reachable from the empty one by
    successful requests (an inductive step relation).
  \<^item> \<open>Wire\<close>: the messages \<open>apiFetch\<close> builds (\<open>fetch.ts\<close>), how \<open>app.ts\<close> reads them
    (\<open>req.body\<close> casts, JavaScript \<open>parseInt\<close>, dates), the reply's status and body,
    and \<open>api_call\<close>, one round trip from the client to the store and back.
  \<^item> \<open>Client\<close>: each request function of \<open>src/frontend/src/api\<close> as the message it
    sends, and a datatype of the calls with the request each stands for.
  \<^item> \<open>Ui\<close>: \<open>helper.ts\<close> and the permission decisions of \<open>AdminMenu\<close>,
    \<open>SocietyMenu\<close> and \<open>EventCardMenu\<close>.
  \<^item> \<open>Members\<close>: \<open>types/user.ts\<close> and the pages \<open>MemberList\<close> and \<open>UserList\<close>.
  \<^item> \<open>Menus\<close>: the menus' and the attendance button's state and handlers, which
    actions each rendering allows, and runs of actions.
  \<^item> \<open>Pages\<close>: \<open>EventAttendanceFormPage\<close> and \<open>ReviewApplicationsPage\<close> with
    its application dialogs.

  A component's React state is a record; mounting runs its effects through
  \<open>api_call\<close>; a handler returns the new state and, when it awaits a request, the
  store after it; \<open>navigate\<close> is recorded as the state's location.

  \<^bold>\<open>What the lemmas show.\<close>
  Each backend theory proves that its handlers preserve \<open>db_inv\<close>, and \<open>Api\<close>
  lifts this to every reachable store. The claims state the behaviour of the
  handlers on every branch (authorisation exactly as the code checks it, errors and
  their order, idempotence, round trips of attendance, CSV and role encodings), a
  refinement of society allocation against the rank model, the agreement of every
  client request with the route that parses it, and, on the frontend, which menu
  items the server then refuses, that offered deletions and joins complete, that the
  attendance button tracks the server under its own clicks but not under another
  tab's, that the member page lists every member of a well-formed store and saves
  roles the server accepts, that the prefilled attendance form records attendance,
  and that a refused approval is never shown.

  \<^bold>\<open>Modelling choices.\<close>
  Ids are natural numbers from 0; SQLite's start at 1, and the frontend tests
  membership with \<open>list.find\<close>, whose result is the id itself, so frontend claims
  assume the society id is not 0. Tokens are opaque numbers and a guest's token is
  the empty string, which no session has. \<open>bcrypt\<close>, \<open>validator.isEmail\<close>,
  \<open>nanoid\<close>, \<open>new Date()\<close> and the date parser are parameters (\<open>env\<close> and
  \<open>pd\<close>). The error-handling middleware is not in the repository; its status codes
  and \<open>{error: message}\<close> body are taken from the specification. Requests a page
  starts together are taken in the order the effect starts them. Every definition is
  structurally recursive or a list traversal, so no fuel or loop bound is needed.

  \<^bold>\<open>Not modelled.\<close>
  The iCal files (\<open>generateICal\<close>) and the CSV download, which are file and browser
  I/O; the mail transport; the seed script \<open>prisma/seed.ts\<close>; static file serving
  and the \<open>/\<close> and \<open>/echo\<close> routes; styling, layout and the QR image; and the pages
  that only list or edit through the modelled requests (event and society lists,
  profile pages, home page, login, registration and the event and society forms).
\<close>

end
